theory Spec2Isabelle
  imports Main "HOL-Library.AList" "HOL-Library.Sublist"
begin

section \<open>JavaScript values, entities and promises\<close>

text \<open>
  The repository is TypeScript over plain JavaScript objects. A value is one of the
  JavaScript kinds the code tests for (\<open>_.isNil\<close>, \<open>_.isString\<close>, \<open>_.isArray\<close>);
  an object is an association list from attribute names to values, in insertion order.
  Dates are milliseconds since the epoch.
\<close>

datatype jsval =
    JUndefined
  | JNull
  | JBool bool
  | JNum int
  | JStr string
  | JDate nat
  | JArr "jsval list"
  | JObj "(string \<times> jsval) list"

type_synonym entity = "(string \<times> jsval) list"

text \<open>\<open>obj[k]\<close>: reading an attribute that is absent gives \<open>undefined\<close>.\<close>

definition getAttr :: "entity \<Rightarrow> string \<Rightarrow> jsval" where
  "getAttr obj k = (case map_of obj k of None \<Rightarrow> JUndefined | Some v \<Rightarrow> v)"

text \<open>\<open>obj[k] = v\<close>: an existing attribute keeps its place, a new one is appended.\<close>

definition setAttr :: "string \<Rightarrow> jsval \<Rightarrow> entity \<Rightarrow> entity" where
  "setAttr k v obj = AList.update k v obj"

text \<open>lodash \<open>_.isNil\<close>, which is also what \<open>x == null\<close> tests.\<close>

definition isNil :: "jsval \<Rightarrow> bool" where
  "isNil v = (v = JUndefined \<or> v = JNull)"

text \<open>lodash \<open>_.isString\<close> and \<open>_.isArray\<close>.\<close>

definition isString :: "jsval \<Rightarrow> bool" where
  "isString v = (case v of JStr _ \<Rightarrow> True | _ \<Rightarrow> False)"

definition isArray :: "jsval \<Rightarrow> bool" where
  "isArray v = (case v of JArr _ \<Rightarrow> True | _ \<Rightarrow> False)"

text \<open>\<open>new ValidationError(attribute, message, value)\<close>.\<close>

datatype ValidationError = ValidationError (attribute: string) (message: string) (val: jsval)

text \<open>
  What a failed operation carries: \<open>Promise.reject\<close> of a message, \<open>Promise.reject\<close> of a
  list of validation errors, or a \<open>TypeError\<close> thrown by reading an attribute of
  \<open>null\<close>/\<open>undefined\<close>.
\<close>

datatype error =
    Message string
  | Errors "ValidationError list"
  | TypeError

text \<open>
  A bluebird promise over a state \<open>'s\<close> (the database, and the log of calls made so
  far): running it gives the rejection (\<open>Inl\<close>) or the resolved value (\<open>Inr\<close>) and the
  new state. \<open>andThen p f\<close> is \<open>p.then(f)\<close>: a rejected \<open>p\<close> skips \<open>f\<close>.
\<close>

type_synonym ('a, 's) promise = "'s \<Rightarrow> (error + 'a) \<times> 's"

definition resolve :: "'a \<Rightarrow> ('a, 's) promise" where
  "resolve a = (\<lambda>s. (Inr a, s))"

definition reject :: "error \<Rightarrow> ('a, 's) promise" where
  "reject e = (\<lambda>s. (Inl e, s))"

definition andThen :: "('a, 's) promise \<Rightarrow> ('a \<Rightarrow> ('b, 's) promise) \<Rightarrow> ('b, 's) promise" where
  "andThen p f = (\<lambda>s. case p s of (Inl e, s') \<Rightarrow> (Inl e, s') | (Inr a, s') \<Rightarrow> f a s')"

text \<open>
  The state of an operation that is traced is the database together with the list of
  the calls made so far, oldest first. \<open>call ev h\<close> runs the database operation \<open>h\<close> and
  records \<open>ev\<close>; \<open>traced ev v\<close> records a synchronous call that returned \<open>v\<close>.
\<close>

definition call :: "'e \<Rightarrow> ('a, 's) promise \<Rightarrow> ('a, 's \<times> 'e list) promise" where
  "call ev h = (\<lambda>(s, lg). case h s of (r, s') \<Rightarrow> (r, (s', lg @ [ev])))"

definition traced :: "'e \<Rightarrow> 'a \<Rightarrow> ('a, 's \<times> 'e list) promise" where
  "traced ev v = (\<lambda>(s, lg). (Inr v, (s, lg @ [ev])))"

section \<open>The abstract data access objects\<close>

text \<open>
  Two classes named \<open>AbstractDataAccessObject\<close> are in the sources: the one of
  \<^verbatim>\<open>src/unnamed/part_000\<close> (here \<open>Dao1\<close>) and the one that follows \<open>DbEngineUtilMongodb\<close>
  in \<^verbatim>\<open>src/src/persistence/impl/db-engine-util-mongodb.ts\<close> (here \<open>Dao2\<close>).
\<close>

text \<open>
  \<open>EntityPropertiesImpl\<close>: \<open>None\<close> is an attribute that is \<open>null\<close> or \<open>undefined\<close>. The DAO
  itself may hold \<open>null\<close> instead of the properties.
\<close>

record EntityProperties =
  autoGenerated :: "bool option"
  timeStamp :: "bool option"

text \<open>What a query for one record resolves with: the record, \<open>null\<close> or \<open>undefined\<close>.\<close>

datatype found = Undefined | Null | Found entity

text \<open>\<open>new AttributeFilter(attributeName, value)\<close>.\<close>

datatype AttributeFilter = AttributeFilter (attributeName: string) (filterValue: jsval)

text \<open>
  The mongo-like query objects the sources build: \<open>{$and: [...]}\<close>, \<open>{$or: [...]}\<close>,
  \<open>{k: {$eq: v}}\<close> and \<open>{k: {$ne: v}}\<close>.
\<close>

datatype query =
    And "query list"
  | Or "query list"
  | Eq string jsval
  | Ne string jsval

text \<open>
  What a concrete DAO supplies: the abstract methods of the class (the engine's
  operations take and return the database \<open>'s\<close>; the query methods carry the names of
  \<open>Dao1\<close>, and \<open>Dao2\<close> calls them \<open>findOneMethod\<close>, \<open>findByIdsMethod\<close>,
  \<open>findByAttributeMethod\<close> and so on), the two conversion methods a subclass may
  override, and the static helpers of the repository that are not under \<^verbatim>\<open>src/\<close>:
  \<open>UuidGenerator.assignUuid\<close> (given what \<open>uuid.v4()\<close> returns at the call), \<open>isValidId\<close>
  and \<open>isBlankString\<close>. The conversion methods are taken to build their result without
  changing their argument.
\<close>

record 's Dao =
  entityProperties :: "EntityProperties option"
  validateEntity :: "entity \<Rightarrow> ValidationError list"
  validateBeforeInsert :: "entity \<Rightarrow> (ValidationError list, 's) promise"
  validateBeforeUpdate :: "entity \<Rightarrow> (ValidationError list, 's) promise"
  convertBeforeSave :: "entity \<Rightarrow> entity"
  convertAfterDbOperation :: "entity \<Rightarrow> entity"
  insertMethod :: "entity \<Rightarrow> (entity, 's) promise"
  updateMethod :: "entity \<Rightarrow> (entity, 's) promise"
  insertManyMethod :: "entity list \<Rightarrow> (entity list, 's) promise"
  findOneByIdMethod :: "jsval \<Rightarrow> (found, 's) promise"
  findAllByIdsMethod :: "jsval list \<Rightarrow> (entity list, 's) promise"
  findAllMethod :: "(entity list, 's) promise"
  findOneByAttributeMethod :: "string \<Rightarrow> jsval \<Rightarrow> (found, 's) promise"
  findAllByAttributeMethod :: "string \<Rightarrow> jsval \<Rightarrow> (entity list, 's) promise"
  findAllByAttributeNameInMethod :: "string \<Rightarrow> jsval list \<Rightarrow> (entity list, 's) promise"
  findAllByAttributesAndOperatorMethod :: "AttributeFilter list \<Rightarrow> (entity list, 's) promise"
  findAllByAttributesOrOperatorMethod :: "AttributeFilter list \<Rightarrow> (entity list, 's) promise"
  findByQueryMethod :: "query \<Rightarrow> (entity list, 's) promise"
  assignUuid :: "EntityProperties option \<Rightarrow> string \<Rightarrow> entity \<Rightarrow> entity"
  isValidId :: "jsval \<Rightarrow> bool"
  isBlankString :: "jsval \<Rightarrow> bool"

text \<open>
  Modelled from the spec: the attribute names \<open>UuidGenerator.UUID_PROPERTY\<close>,
  \<open>TimeStampGenerator.DATE_CREATED_PROPERTY\<close> and \<open>TimeStampGenerator.DATE_UPDATED_PROPERTY\<close>
  are declared in files that are not under \<^verbatim>\<open>src/\<close>; the names are the ones the class
  comment of \<open>Dao2\<close> and \<open>RoleService.update\<close> use.
\<close>

definition UUID_PROPERTY :: string where
  "UUID_PROPERTY = ''uuid''"

definition DATE_CREATED_PROPERTY :: string where
  "DATE_CREATED_PROPERTY = ''dateCreated''"

definition DATE_UPDATED_PROPERTY :: string where
  "DATE_UPDATED_PROPERTY = ''lastUpdate''"

text \<open>
  Modelled from the spec: \<open>TimeStampGenerator\<close> is not under \<^verbatim>\<open>src/\<close>. The class comment
  of \<open>Dao2\<close> says: if \<open>timeStamp\<close> is true the dao assigns the creation date at each insert
  and \<open>lastUpdate\<close> at each update. \<open>now\<close> is what \<open>new Date()\<close> gives at the call.
\<close>

definition generateTimeStampForInsert :: "EntityProperties option \<Rightarrow> nat \<Rightarrow> entity \<Rightarrow> entity" where
  "generateTimeStampForInsert props now obj =
     (case props of
        None \<Rightarrow> obj
      | Some p \<Rightarrow> if timeStamp p = Some True then setAttr DATE_CREATED_PROPERTY (JDate now) obj else obj)"

definition generateTimeStampForUpdate :: "EntityProperties option \<Rightarrow> nat \<Rightarrow> entity \<Rightarrow> entity" where
  "generateTimeStampForUpdate props now obj =
     (case props of
        None \<Rightarrow> obj
      | Some p \<Rightarrow> if timeStamp p = Some True then setAttr DATE_UPDATED_PROPERTY (JDate now) obj else obj)"

text \<open>
  Modelled from the spec: \<open>UuidGenerator.assignUUIDToIdAttribute\<close> is not under \<^verbatim>\<open>src/\<close>.
  The class comment of \<open>Dao2\<close> says: if \<open>autoGenerated\<close> is true the dao assigns a random
  uuid v4 to the \<open>id\<close> attribute before inserting. \<open>fresh\<close> is what \<open>uuid.v4()\<close> gives at
  the call.
\<close>

definition assignUUIDToIdAttribute :: "EntityProperties option \<Rightarrow> string \<Rightarrow> entity \<Rightarrow> entity" where
  "assignUUIDToIdAttribute props fresh obj =
     (case props of
        None \<Rightarrow> obj
      | Some p \<Rightarrow> if autoGenerated p = Some True then setAttr ''id'' (JStr fresh) obj else obj)"

subsection \<open>addExtraValues\<close>

text \<open>One guarded assignment of \<open>addExtraValues\<close>: \<open>if (!_.isNil(reference[k])) obj[k] = reference[k]\<close>.\<close>

definition restoreAttr :: "string \<Rightarrow> entity \<Rightarrow> entity \<Rightarrow> entity" where
  "restoreAttr k reference obj =
     (if \<not> isNil (getAttr reference k) then setAttr k (getAttr reference k) obj else obj)"

text \<open>\<open>Dao1\<close> (part_000, lines 753-769): id, uuid, dateCreated, lastUpdate.\<close>

definition Dao1_addExtraValues :: "entity \<Rightarrow> entity \<Rightarrow> entity" where
  "Dao1_addExtraValues obj reference =
     restoreAttr DATE_UPDATED_PROPERTY reference
       (restoreAttr DATE_CREATED_PROPERTY reference
         (restoreAttr UUID_PROPERTY reference
           (restoreAttr ''id'' reference obj)))"

text \<open>\<open>Dao2\<close> (db-engine-util-mongodb.ts, lines 662-675): id, dateCreated, lastUpdate.\<close>

definition Dao2_addExtraValues :: "entity \<Rightarrow> entity \<Rightarrow> entity" where
  "Dao2_addExtraValues obj reference =
     restoreAttr DATE_UPDATED_PROPERTY reference
       (restoreAttr DATE_CREATED_PROPERTY reference
         (restoreAttr ''id'' reference obj))"

subsection \<open>insert\<close>

text \<open>The calls an insert or an update makes, with the object each one is given.\<close>

datatype dao_event =
    EvValidateEntity entity
  | EvValidateBeforeInsert entity
  | EvValidateBeforeUpdate entity
  | EvGenerateTimeStampForInsert
  | EvGenerateTimeStampForUpdate
  | EvAssignUuid
  | EvConvertBeforeSave
  | EvAddExtraValues
  | EvInsertMethod entity
  | EvUpdateMethod entity
  | EvConvertAfterDbOperation entity

text \<open>\<open>Dao1.insert\<close> (part_000, lines 427-460).\<close>

definition Dao1_insert :: "'s Dao \<Rightarrow> nat \<Rightarrow> string \<Rightarrow> entity \<Rightarrow> (entity, 's \<times> dao_event list) promise" where
  "Dao1_insert d now fresh objectToInsert =
     (if \<not> isNil (getAttr objectToInsert ''id'') then reject (Message ''Object has a defined id'')
      else
        andThen (traced (EvValidateEntity objectToInsert) (validateEntity d objectToInsert)) (\<lambda>entityErrors.
        if entityErrors = [] then
          andThen (call (EvValidateBeforeInsert objectToInsert) (validateBeforeInsert d objectToInsert)) (\<lambda>validations.
          if validations = [] then
            andThen (traced EvGenerateTimeStampForInsert
                       (generateTimeStampForInsert (entityProperties d) now objectToInsert)) (\<lambda>stamped.
            andThen (traced EvAssignUuid (assignUuid d (entityProperties d) fresh stamped)) (\<lambda>obj.
            andThen (traced EvConvertBeforeSave (convertBeforeSave d obj)) (\<lambda>converted.
            andThen (traced EvAddExtraValues (Dao1_addExtraValues converted obj)) (\<lambda>toSave.
            andThen (call (EvInsertMethod toSave) (insertMethod d toSave)) (\<lambda>resultInsert.
            andThen (traced (EvConvertAfterDbOperation resultInsert)
                       (convertAfterDbOperation d resultInsert)) (\<lambda>result.
            andThen (traced EvAddExtraValues (Dao1_addExtraValues result resultInsert)) resolve))))))
          else reject (Errors validations))
        else reject (Errors entityErrors)))"

text \<open>\<open>Dao2.insert\<close> (db-engine-util-mongodb.ts, lines 172-208).\<close>

definition Dao2_insert :: "'s Dao \<Rightarrow> nat \<Rightarrow> string \<Rightarrow> entity \<Rightarrow> (entity, 's \<times> dao_event list) promise" where
  "Dao2_insert d now fresh objectToInsert =
     (if entityProperties d \<noteq> None
         \<and> autoGenerated (the (entityProperties d)) = Some True
         \<and> \<not> isNil (getAttr objectToInsert ''id'')
      then reject (Message ''Object has a defined id'')
      else if (entityProperties d = None
               \<or> autoGenerated (the (entityProperties d)) = None
               \<or> autoGenerated (the (entityProperties d)) = Some False)
              \<and> isNil (getAttr objectToInsert ''id'')
      then reject (Message
        ''Object does not have an id and the dao has the attribute entityProperties.autoGenerated as false or undefined'')
      else
        andThen (traced (EvValidateEntity objectToInsert) (validateEntity d objectToInsert)) (\<lambda>entityErrors.
        if entityErrors = [] then
          andThen (call (EvValidateBeforeInsert objectToInsert) (validateBeforeInsert d objectToInsert)) (\<lambda>validations.
          if validations = [] then
            andThen (traced EvAssignUuid
                       (assignUUIDToIdAttribute (entityProperties d) fresh objectToInsert)) (\<lambda>withId.
            andThen (traced EvGenerateTimeStampForInsert
                       (generateTimeStampForInsert (entityProperties d) now withId)) (\<lambda>obj.
            andThen (traced EvConvertBeforeSave (convertBeforeSave d obj)) (\<lambda>converted.
            andThen (traced EvAddExtraValues (Dao2_addExtraValues converted obj)) (\<lambda>toSave.
            andThen (call (EvInsertMethod toSave) (insertMethod d toSave)) (\<lambda>resultInsert.
            andThen (traced (EvConvertAfterDbOperation resultInsert)
                       (convertAfterDbOperation d resultInsert)) (\<lambda>result.
            andThen (traced EvAddExtraValues (Dao2_addExtraValues result resultInsert)) resolve))))))
          else reject (Errors validations))
        else reject (Errors entityErrors)))"

subsection \<open>update\<close>

text \<open>\<open>Dao1.update\<close> (part_000, lines 506-535).\<close>

definition Dao1_update :: "'s Dao \<Rightarrow> nat \<Rightarrow> entity \<Rightarrow> (entity, 's \<times> dao_event list) promise" where
  "Dao1_update d now objectToUpdate =
     (if \<not> isValidId d (getAttr objectToUpdate ''id'') then reject (Message ''Object does not have an id'')
      else
        andThen (traced (EvValidateEntity objectToUpdate) (validateEntity d objectToUpdate)) (\<lambda>entityErrors.
        if entityErrors = [] then
          andThen (call (EvValidateBeforeUpdate objectToUpdate) (validateBeforeUpdate d objectToUpdate)) (\<lambda>validations.
          if validations = [] then
            andThen (traced EvGenerateTimeStampForUpdate
                       (generateTimeStampForUpdate (entityProperties d) now objectToUpdate)) (\<lambda>obj.
            andThen (traced EvConvertBeforeSave (convertBeforeSave d obj)) (\<lambda>converted.
            andThen (traced EvAddExtraValues (Dao1_addExtraValues converted obj)) (\<lambda>toSave.
            andThen (call (EvUpdateMethod toSave) (updateMethod d toSave)) (\<lambda>resultInsert.
            andThen (traced (EvConvertAfterDbOperation resultInsert)
                       (convertAfterDbOperation d resultInsert)) (\<lambda>result.
            andThen (traced EvAddExtraValues (Dao1_addExtraValues result resultInsert)) resolve)))))
          else reject (Errors validations))
        else reject (Errors entityErrors)))"

text \<open>\<open>Dao2.update\<close> (db-engine-util-mongodb.ts, lines 270-299).\<close>

definition Dao2_update :: "'s Dao \<Rightarrow> nat \<Rightarrow> entity \<Rightarrow> (entity, 's \<times> dao_event list) promise" where
  "Dao2_update d now objectToUpdate =
     (if isBlankString d (getAttr objectToUpdate ''id'') then reject (Message ''Object does not have an id'')
      else
        andThen (traced (EvValidateEntity objectToUpdate) (validateEntity d objectToUpdate)) (\<lambda>entityErrors.
        if entityErrors = [] then
          andThen (call (EvValidateBeforeUpdate objectToUpdate) (validateBeforeUpdate d objectToUpdate)) (\<lambda>validations.
          if validations = [] then
            andThen (traced EvGenerateTimeStampForUpdate
                       (generateTimeStampForUpdate (entityProperties d) now objectToUpdate)) (\<lambda>obj.
            andThen (traced EvConvertBeforeSave (convertBeforeSave d obj)) (\<lambda>converted.
            andThen (traced EvAddExtraValues (Dao2_addExtraValues converted obj)) (\<lambda>toSave.
            andThen (call (EvUpdateMethod toSave) (updateMethod d toSave)) (\<lambda>resultInsert.
            andThen (traced (EvConvertAfterDbOperation resultInsert)
                       (convertAfterDbOperation d resultInsert)) (\<lambda>result.
            andThen (traced EvAddExtraValues (Dao2_addExtraValues result resultInsert)) resolve)))))
          else reject (Errors validations))
        else reject (Errors entityErrors)))"

subsection \<open>insertMany\<close>

text \<open>
  The second loop of \<open>insertMany\<close>: the objects are validated and prepared in order, and
  the first one with validation errors rejects the whole call with its errors.
  \<open>rnd i\<close> is what \<open>new Date()\<close> and \<open>uuid.v4()\<close> give while object \<open>i\<close> is prepared.
\<close>

fun Dao1_prepareMany :: "'s Dao \<Rightarrow> (nat \<Rightarrow> nat \<times> string) \<Rightarrow> nat \<Rightarrow> entity list \<Rightarrow> error + entity list" where
  "Dao1_prepareMany d rnd i [] = Inr []"
| "Dao1_prepareMany d rnd i (obj # rest) =
     (if validateEntity d obj \<noteq> [] then Inl (Errors (validateEntity d obj))
      else
        let stamped = generateTimeStampForInsert (entityProperties d) (fst (rnd i)) obj;
            withUuid = assignUuid d (entityProperties d) (snd (rnd i)) stamped;
            toSave = Dao1_addExtraValues (convertBeforeSave d withUuid) withUuid
        in (case Dao1_prepareMany d rnd (Suc i) rest of
              Inl e \<Rightarrow> Inl e
            | Inr converted \<Rightarrow> Inr (toSave # converted)))"

fun Dao2_prepareMany :: "'s Dao \<Rightarrow> (nat \<Rightarrow> nat \<times> string) \<Rightarrow> nat \<Rightarrow> entity list \<Rightarrow> error + entity list" where
  "Dao2_prepareMany d rnd i [] = Inr []"
| "Dao2_prepareMany d rnd i (obj # rest) =
     (if validateEntity d obj \<noteq> [] then Inl (Errors (validateEntity d obj))
      else
        let withId = assignUUIDToIdAttribute (entityProperties d) (snd (rnd i)) obj;
            stamped = generateTimeStampForInsert (entityProperties d) (fst (rnd i)) withId;
            toSave = Dao2_addExtraValues (convertBeforeSave d stamped) stamped
        in (case Dao2_prepareMany d rnd (Suc i) rest of
              Inl e \<Rightarrow> Inl e
            | Inr converted \<Rightarrow> Inr (toSave # converted)))"

text \<open>\<open>Dao1.insertMany\<close> (part_000, lines 469-497).\<close>

definition Dao1_insertMany :: "'s Dao \<Rightarrow> (nat \<Rightarrow> nat \<times> string) \<Rightarrow> entity list \<Rightarrow> (entity list, 's) promise" where
  "Dao1_insertMany d rnd objectsToInsert =
     (if \<exists>obj \<in> set objectsToInsert. \<not> isNil (getAttr obj ''id'')
      then reject (Message ''Object has a defined id'')
      else
        (case Dao1_prepareMany d rnd 0 objectsToInsert of
           Inl e \<Rightarrow> reject e
         | Inr convertedObjectsToInsert \<Rightarrow>
             andThen (insertManyMethod d convertedObjectsToInsert) (\<lambda>insertedRecords.
               resolve (map (\<lambda>v. Dao1_addExtraValues (convertAfterDbOperation d v) v) insertedRecords))))"

text \<open>\<open>Dao2.insertMany\<close> (db-engine-util-mongodb.ts, lines 225-253).\<close>

definition Dao2_insertMany :: "'s Dao \<Rightarrow> (nat \<Rightarrow> nat \<times> string) \<Rightarrow> entity list \<Rightarrow> (entity list, 's) promise" where
  "Dao2_insertMany d rnd objectsToInsert =
     (if \<exists>obj \<in> set objectsToInsert. \<not> isNil (getAttr obj ''id'')
      then reject (Message ''Object has a defined id'')
      else
        (case Dao2_prepareMany d rnd 0 objectsToInsert of
           Inl e \<Rightarrow> reject e
         | Inr convertedObjectsToInsert \<Rightarrow>
             andThen (insertManyMethod d convertedObjectsToInsert) (\<lambda>insertedRecords.
               resolve (map (\<lambda>v. Dao2_addExtraValues (convertAfterDbOperation d v) v) insertedRecords))))"

subsection \<open>Queries\<close>

text \<open>
  \<open>_.isNil(resultQuery) ? resultQuery : this.addExtraValues(this.convertAfterDbOperation(resultQuery), resultQuery)\<close>
  in the two classes.
\<close>

definition Dao1_rehydrateFound :: "'s Dao \<Rightarrow> found \<Rightarrow> found" where
  "Dao1_rehydrateFound d resultQuery =
     (case resultQuery of
        Undefined \<Rightarrow> Undefined
      | Null \<Rightarrow> Null
      | Found r \<Rightarrow> Found (Dao1_addExtraValues (convertAfterDbOperation d r) r))"

definition Dao2_rehydrateFound :: "'s Dao \<Rightarrow> found \<Rightarrow> found" where
  "Dao2_rehydrateFound d resultQuery =
     (case resultQuery of
        Undefined \<Rightarrow> Undefined
      | Null \<Rightarrow> Null
      | Found r \<Rightarrow> Found (Dao2_addExtraValues (convertAfterDbOperation d r) r))"

text \<open>The queries of \<open>Dao1\<close> (part_000, lines 551-625).\<close>

definition Dao1_findOneById :: "'s Dao \<Rightarrow> jsval \<Rightarrow> (found, 's) promise" where
  "Dao1_findOneById d ident =
     andThen (findOneByIdMethod d ident) (\<lambda>resultQuery. resolve (Dao1_rehydrateFound d resultQuery))"

definition Dao1_findAllByIds :: "'s Dao \<Rightarrow> jsval list \<Rightarrow> (entity list, 's) promise" where
  "Dao1_findAllByIds d arrayOfIds =
     andThen (findAllByIdsMethod d arrayOfIds) (\<lambda>resultQuery.
       resolve (map (\<lambda>v. Dao1_addExtraValues (convertAfterDbOperation d v) v) resultQuery))"

definition Dao1_findAll :: "'s Dao \<Rightarrow> (entity list, 's) promise" where
  "Dao1_findAll d =
     andThen (findAllMethod d) (\<lambda>resultQuery.
       resolve (map (\<lambda>v. Dao1_addExtraValues (convertAfterDbOperation d v) v) resultQuery))"

definition Dao1_findOneByAttribute :: "'s Dao \<Rightarrow> string \<Rightarrow> jsval \<Rightarrow> (found, 's) promise" where
  "Dao1_findOneByAttribute d name v =
     andThen (findOneByAttributeMethod d name v) (\<lambda>resultQuery. resolve (Dao1_rehydrateFound d resultQuery))"

definition Dao1_findAllByAttribute :: "'s Dao \<Rightarrow> string \<Rightarrow> jsval \<Rightarrow> (entity list, 's) promise" where
  "Dao1_findAllByAttribute d name v =
     andThen (findAllByAttributeMethod d name v) (\<lambda>resultQuery.
       resolve (map (\<lambda>v. Dao1_addExtraValues (convertAfterDbOperation d v) v) resultQuery))"

definition Dao1_findAllByAttributeNameIn :: "'s Dao \<Rightarrow> string \<Rightarrow> jsval list \<Rightarrow> (entity list, 's) promise" where
  "Dao1_findAllByAttributeNameIn d name vs =
     andThen (findAllByAttributeNameInMethod d name vs) (\<lambda>resultQuery.
       resolve (map (\<lambda>v. Dao1_addExtraValues (convertAfterDbOperation d v) v) resultQuery))"

definition Dao1_findAllByAttributesAndOperator :: "'s Dao \<Rightarrow> AttributeFilter list \<Rightarrow> (entity list, 's) promise" where
  "Dao1_findAllByAttributesAndOperator d attributes =
     andThen (findAllByAttributesAndOperatorMethod d attributes) (\<lambda>resultQuery.
       resolve (map (\<lambda>v. Dao1_addExtraValues (convertAfterDbOperation d v) v) resultQuery))"

definition Dao1_findAllByAttributesOrOperator :: "'s Dao \<Rightarrow> AttributeFilter list \<Rightarrow> (entity list, 's) promise" where
  "Dao1_findAllByAttributesOrOperator d attributes =
     andThen (findAllByAttributesOrOperatorMethod d attributes) (\<lambda>resultQuery.
       resolve (map (\<lambda>v. Dao1_addExtraValues (convertAfterDbOperation d v) v) resultQuery))"

text \<open>The queries of \<open>Dao2\<close> (db-engine-util-mongodb.ts, lines 321-428).\<close>

definition Dao2_findOne :: "'s Dao \<Rightarrow> jsval \<Rightarrow> (found, 's) promise" where
  "Dao2_findOne d ident =
     andThen (findOneByIdMethod d ident) (\<lambda>resultQuery. resolve (Dao2_rehydrateFound d resultQuery))"

definition Dao2_findByIds :: "'s Dao \<Rightarrow> jsval list \<Rightarrow> (entity list, 's) promise" where
  "Dao2_findByIds d arrayOfIds =
     andThen (findAllByIdsMethod d arrayOfIds) (\<lambda>resultQuery.
       resolve (map (\<lambda>v. Dao2_addExtraValues (convertAfterDbOperation d v) v) resultQuery))"

definition Dao2_findAll :: "'s Dao \<Rightarrow> (entity list, 's) promise" where
  "Dao2_findAll d =
     andThen (findAllMethod d) (\<lambda>resultQuery.
       resolve (map (\<lambda>v. Dao2_addExtraValues (convertAfterDbOperation d v) v) resultQuery))"

definition Dao2_findOneByAttribute :: "'s Dao \<Rightarrow> string \<Rightarrow> jsval \<Rightarrow> (found, 's) promise" where
  "Dao2_findOneByAttribute d name v =
     andThen (findOneByAttributeMethod d name v) (\<lambda>resultQuery. resolve (Dao2_rehydrateFound d resultQuery))"

definition Dao2_findByAttribute :: "'s Dao \<Rightarrow> string \<Rightarrow> jsval \<Rightarrow> (entity list, 's) promise" where
  "Dao2_findByAttribute d name v =
     andThen (findAllByAttributeMethod d name v) (\<lambda>resultQuery.
       resolve (map (\<lambda>v. Dao2_addExtraValues (convertAfterDbOperation d v) v) resultQuery))"

definition Dao2_findByAttributeNameIn :: "'s Dao \<Rightarrow> string \<Rightarrow> jsval list \<Rightarrow> (entity list, 's) promise" where
  "Dao2_findByAttributeNameIn d name vs =
     andThen (findAllByAttributeNameInMethod d name vs) (\<lambda>resultQuery.
       resolve (map (\<lambda>v. Dao2_addExtraValues (convertAfterDbOperation d v) v) resultQuery))"

definition Dao2_findByAttributesAndOperator :: "'s Dao \<Rightarrow> AttributeFilter list \<Rightarrow> (entity list, 's) promise" where
  "Dao2_findByAttributesAndOperator d attributes =
     andThen (findAllByAttributesAndOperatorMethod d attributes) (\<lambda>resultQuery.
       resolve (map (\<lambda>v. Dao2_addExtraValues (convertAfterDbOperation d v) v) resultQuery))"

definition Dao2_findByAttributesOrOperator :: "'s Dao \<Rightarrow> AttributeFilter list \<Rightarrow> (entity list, 's) promise" where
  "Dao2_findByAttributesOrOperator d attributes =
     andThen (findAllByAttributesOrOperatorMethod d attributes) (\<lambda>resultQuery.
       resolve (map (\<lambda>v. Dao2_addExtraValues (convertAfterDbOperation d v) v) resultQuery))"

definition Dao2_findByQuery :: "'s Dao \<Rightarrow> query \<Rightarrow> (entity list, 's) promise" where
  "Dao2_findByQuery d q =
     andThen (findByQueryMethod d q) (\<lambda>resultQuery.
       resolve (map (\<lambda>v. Dao2_addExtraValues (convertAfterDbOperation d v) v) resultQuery))"

section \<open>The uniqueness checks before an update\<close>

text \<open>
  What the MongoDB operators in these queries mean for a stored document: \<open>$and\<close> every
  condition, \<open>$or\<close> one of them, \<open>$eq\<close> the attribute has the value, \<open>$ne\<close> it has not.
\<close>

fun matches :: "entity \<Rightarrow> query \<Rightarrow> bool" where
  "matches doc (And qs) = (\<forall>q \<in> set qs. matches doc q)"
| "matches doc (Or qs) = (\<exists>q \<in> set qs. matches doc q)"
| "matches doc (Eq k v) = (getAttr doc k = v)"
| "matches doc (Ne k v) = (getAttr doc k \<noteq> v)"

text \<open>
  \<open>RoleDaoMongoDbImpl.validateBeforeUpdate\<close> (role-dao-mongodb-impl.ts, lines 20-40).
  \<open>findAllByQuery\<close> is the engine's query and \<open>validateParentRole\<close> the method of
  \<open>RoleDao\<close>; neither is under \<^verbatim>\<open>src/\<close>, both are parameters.
\<close>

definition RoleDaoMongoDbImpl_validateBeforeUpdate ::
  "(query \<Rightarrow> (entity list, 's) promise) \<Rightarrow> (entity \<Rightarrow> (ValidationError list, 's) promise)
     \<Rightarrow> entity \<Rightarrow> (ValidationError list, 's) promise" where
  "RoleDaoMongoDbImpl_validateBeforeUpdate findAllByQuery validateParentRole objectToUpdate =
     andThen (findAllByQuery (And [Eq ''name'' (getAttr objectToUpdate ''name''),
                                   Ne ''_id'' (getAttr objectToUpdate ''id'')])) (\<lambda>result.
       if length result > 0
       then resolve [ValidationError ''name'' ''There is another role with the same name''
                       (getAttr objectToUpdate ''name'')]
       else validateParentRole objectToUpdate)"

text \<open>
  \<open>AccountDaoMongodbImpl.validateBeforeUpdate\<close> (part_001, lines 51-63).
  \<open>AccountValidator.validateResultQueryBeforeBdOperation\<close> is not under \<^verbatim>\<open>src/\<close> and is a
  parameter.
\<close>

definition AccountDaoMongodbImpl_validateBeforeUpdate ::
  "(query \<Rightarrow> (entity list, 's) promise) \<Rightarrow> (entity list \<Rightarrow> entity \<Rightarrow> ValidationError list)
     \<Rightarrow> entity \<Rightarrow> (ValidationError list, 's) promise" where
  "AccountDaoMongodbImpl_validateBeforeUpdate findAllByQuery validateResultQueryBeforeBdOperation objectToUpdate =
     andThen (findAllByQuery (And [Ne ''_id'' (getAttr objectToUpdate ''id''),
                                   Eq ''username'' (getAttr objectToUpdate ''username'')])) (\<lambda>result.
       resolve (validateResultQueryBeforeBdOperation result objectToUpdate))"

text \<open>\<open>AuthContextMongoDbImpl.validateBeforeUpdate\<close> (state-province-dao.ts, lines 70-88).\<close>

definition AuthContextMongoDbImpl_validateBeforeUpdate ::
  "(query \<Rightarrow> (entity list, 's) promise) \<Rightarrow> entity \<Rightarrow> (ValidationError list, 's) promise" where
  "AuthContextMongoDbImpl_validateBeforeUpdate findAllByQuery objectToUpdate =
     andThen (findAllByQuery (And [Ne ''_id'' (getAttr objectToUpdate ''id''),
                                   Eq ''name'' (getAttr objectToUpdate ''name'')])) (\<lambda>result.
       resolve (if length result > 0
                then [ValidationError ''name'' ''There is another record with the same name''
                        (getAttr objectToUpdate ''name'')]
                else []))"

section \<open>RoleService\<close>

definition ROLE_PERMISSION_BIT :: string where
  "ROLE_PERMISSION_BIT = ''role.permissionBit''"

definition PERMISSION_BIT_NOT_IN_DATABASE :: string where
  "PERMISSION_BIT_NOT_IN_DATABASE = ''Some permission bit ids does not exits in the database''"

definition ROLE_PERMISSION_BITS_EMPTY :: string where
  "ROLE_PERMISSION_BITS_EMPTY = ''permissionBits is not an array or is empty''"

definition PERMISSION_BITS_INVALID :: string where
  "PERMISSION_BITS_INVALID = ''The parameters does not have a valid permission bits data''"

text \<open>
  Modelled from the spec: the entity classes \<open>RoleEntity\<close> and \<open>RolePermissionBitEntity\<close>
  are not under \<^verbatim>\<open>src/\<close>. Each constructor stores its arguments under the attribute
  names the service reads them back with.
\<close>

definition RoleEntity :: "jsval \<Rightarrow> jsval \<Rightarrow> jsval \<Rightarrow> jsval \<Rightarrow> jsval \<Rightarrow> entity" where
  "RoleEntity name description enabled isRoot idParentRole =
     [(''name'', name), (''description'', description), (''enabled'', enabled),
      (''isRoot'', isRoot), (''idParentRole'', idParentRole)]"

definition RolePermissionBitEntity :: "jsval \<Rightarrow> jsval \<Rightarrow> entity" where
  "RolePermissionBitEntity idRole idPermissionBit =
     [(''idRole'', idRole), (''idPermissionBit'', idPermissionBit)]"

text \<open>
  What the service uses of \<open>Persistence\<close> and of \<open>RoleValidator\<close>: the operations of the
  DAOs it calls, over the database \<open>'w\<close>.
\<close>

record 'w Persistence =
  validateRole :: "entity \<Rightarrow> ValidationError list"
  roleDao_insert :: "entity \<Rightarrow> (entity, 'w) promise"
  roleDao_update :: "entity \<Rightarrow> (entity, 'w) promise"
  rolePermissionBitDao_deleteAllByIdRole :: "jsval \<Rightarrow> (unit, 'w) promise"
  rolePermissionBitDao_insertMany :: "entity list \<Rightarrow> (entity list, 'w) promise"
  permissionBitDao_findAllByIds :: "jsval list \<Rightarrow> (entity list, 'w) promise"
  authContextDao_findAllByIds :: "jsval list \<Rightarrow> (entity list, 'w) promise"

text \<open>The calls the service makes to the DAOs, with their arguments.\<close>

datatype service_call =
    RoleDaoInsert entity
  | RoleDaoUpdate entity
  | DeleteAllByIdRole jsval
  | InsertMany "entity list"
  | PermissionBitFindAllByIds "jsval list"
  | AuthContextFindAllByIds "jsval list"

text \<open>
  lodash \<open>_.uniq\<close>: the values in order, each kept at its first occurrence. On the
  strings it is applied to here, its comparison is equality.
\<close>

definition uniq :: "'a list \<Rightarrow> 'a list" where
  "uniq xs = foldl (\<lambda>result v. if v \<in> set result then result else result @ [v]) [] xs"

text \<open>
  \<open>v[k]\<close> on any value: an object gives its attribute, \<open>null\<close> and \<open>undefined\<close> throw a
  \<open>TypeError\<close>, and the other kinds have no attribute \<open>id\<close>, the only one read this way.
\<close>

definition propOf :: "string \<Rightarrow> jsval \<Rightarrow> error + jsval" where
  "propOf k v =
     (case v of
        JObj attrs \<Rightarrow> Inr (getAttr attrs k)
      | JUndefined \<Rightarrow> Inl TypeError
      | JNull \<Rightarrow> Inl TypeError
      | _ \<Rightarrow> Inr JUndefined)"

text \<open>\<open>xs.map((value) => value[k])\<close>: the first element that throws ends the loop.\<close>

fun mapProp :: "string \<Rightarrow> jsval list \<Rightarrow> error + jsval list" where
  "mapProp k [] = Inr []"
| "mapProp k (v # vs) =
     (case propOf k v of
        Inl e \<Rightarrow> Inl e
      | Inr x \<Rightarrow> (case mapProp k vs of Inl e \<Rightarrow> Inl e | Inr xs \<Rightarrow> Inr (x # xs)))"

text \<open>
  The elements of \<open>object.permissionBits\<close>. \<open>validate\<close> has rejected every value that is
  not an array before the elements are read.
\<close>

definition arrayItems :: "jsval \<Rightarrow> jsval list" where
  "arrayItems v = (case v of JArr xs \<Rightarrow> xs | _ \<Rightarrow> [])"

text \<open>\<open>RoleService.validatePermissionBitsIds\<close> (part_000, lines 366-379).\<close>

definition validatePermissionBitsIds :: "'w Persistence \<Rightarrow> jsval list \<Rightarrow> (unit, 'w \<times> service_call list) promise" where
  "validatePermissionBitsIds P ids =
     andThen (call (PermissionBitFindAllByIds ids) (permissionBitDao_findAllByIds P ids)) (\<lambda>resultQuery.
       if length resultQuery \<noteq> length ids
       then reject (Errors [ValidationError ROLE_PERMISSION_BIT PERMISSION_BIT_NOT_IN_DATABASE (JStr '''')])
       else resolve ())"

text \<open>
  \<open>RoleService.validate\<close> (part_000, lines 327-364). A \<open>TypeError\<close> here is thrown by
  \<open>value.id\<close> on an element that is \<open>null\<close> or \<open>undefined\<close>.
\<close>

definition RoleService_validate :: "'w Persistence \<Rightarrow> entity \<Rightarrow> (unit, 'w \<times> service_call list) promise" where
  "RoleService_validate P object =
     (let role = RoleEntity (getAttr object ''name'') (getAttr object ''description'')
                   (getAttr object ''enabled'') (getAttr object ''isRoot'') (getAttr object ''idParentRole'');
          errors = validateRole P role;
          permissionBits = getAttr object ''permissionBits''
      in if \<not> isArray permissionBits \<or> length (arrayItems permissionBits) = 0
         then reject (Errors [ValidationError ROLE_PERMISSION_BIT ROLE_PERMISSION_BITS_EMPTY (JStr '''')])
         else
           (case mapProp ''id'' (arrayItems permissionBits) of
              Inl e \<Rightarrow> reject e
            | Inr ids \<Rightarrow>
                let rejected = filter (\<lambda>v. \<not> isString v) ids;
                    errors' = (if length rejected > 0
                               then errors @ [ValidationError ROLE_PERMISSION_BIT PERMISSION_BITS_INVALID (JStr '''')]
                               else errors)
                in if length errors' > 0 then reject (Errors errors')
                   else validatePermissionBitsIds P (uniq ids)))"

text \<open>\<open>RoleService.populateData\<close> (part_000, lines 381-398).\<close>

definition populateData :: "'w Persistence \<Rightarrow> jsval list \<Rightarrow> (entity list, 'w \<times> service_call list) promise" where
  "populateData P permissionBitIds =
     andThen (call (PermissionBitFindAllByIds permissionBitIds)
                (permissionBitDao_findAllByIds P permissionBitIds)) (\<lambda>permissionBits.
       let authContextIds = uniq (map (\<lambda>v. getAttr v ''idAuthContext'') permissionBits)
       in andThen (call (AuthContextFindAllByIds authContextIds)
                     (authContextDao_findAllByIds P authContextIds)) (\<lambda>resultAuthContexts.
            resolve (map (\<lambda>bit.
                       setAttr ''authContext''
                         (case find (\<lambda>c. getAttr c ''id'' = getAttr bit ''idAuthContext'') resultAuthContexts of
                            None \<Rightarrow> JUndefined
                          | Some c \<Rightarrow> JObj c)
                         bit)
                     permissionBits)))"

text \<open>\<open>RoleService.insert\<close> (part_000, lines 125-164).\<close>

definition RoleService_insert :: "'w Persistence \<Rightarrow> entity \<Rightarrow> (entity, 'w \<times> service_call list) promise" where
  "RoleService_insert P object =
     andThen (RoleService_validate P object) (\<lambda>_.
       let role = RoleEntity (getAttr object ''name'') (getAttr object ''description'')
                    (getAttr object ''enabled'') (getAttr object ''isRoot'') (getAttr object ''idParentRole'')
       in andThen (call (RoleDaoInsert role) (roleDao_insert P role)) (\<lambda>insertedRole.
            (case mapProp ''id'' (arrayItems (getAttr object ''permissionBits'')) of
               Inl e \<Rightarrow> reject e
             | Inr ids \<Rightarrow>
                 let idsPermissionBits = uniq ids;
                     associationsToInsert =
                       map (\<lambda>i. RolePermissionBitEntity (getAttr insertedRole ''id'') i) idsPermissionBits
                 in andThen (call (InsertMany associationsToInsert)
                               (rolePermissionBitDao_insertMany P associationsToInsert)) (\<lambda>insertedBits.
                    andThen (populateData P (map (\<lambda>v. getAttr v ''idPermissionBit'') insertedBits)) (\<lambda>resultData.
                      resolve (setAttr ''permissionBits'' (JArr (map JObj resultData)) insertedRole))))))"

text \<open>\<open>RoleService.update\<close> (part_000, lines 171-214).\<close>

definition RoleService_update :: "'w Persistence \<Rightarrow> entity \<Rightarrow> (entity, 'w \<times> service_call list) promise" where
  "RoleService_update P object =
     andThen (RoleService_validate P object) (\<lambda>_.
       let role = setAttr ''id'' (getAttr object ''id'')
                    (setAttr ''dateCreated'' (getAttr object ''dateCreated'')
                      (RoleEntity (getAttr object ''name'') (getAttr object ''description'')
                         (getAttr object ''enabled'') (getAttr object ''isRoot'') (getAttr object ''idParentRole'')))
       in andThen (call (RoleDaoUpdate role) (roleDao_update P role)) (\<lambda>updatedRole.
          andThen (call (DeleteAllByIdRole (getAttr object ''id''))
                     (rolePermissionBitDao_deleteAllByIdRole P (getAttr object ''id''))) (\<lambda>_.
            (case mapProp ''id'' (arrayItems (getAttr object ''permissionBits'')) of
               Inl e \<Rightarrow> reject e
             | Inr ids \<Rightarrow>
                 let idsPermissionBits = uniq ids;
                     associationsToInsert =
                       map (\<lambda>i. RolePermissionBitEntity (getAttr updatedRole ''id'') i) idsPermissionBits
                 in andThen (call (InsertMany associationsToInsert)
                               (rolePermissionBitDao_insertMany P associationsToInsert)) (\<lambda>insertedBits.
                    andThen (populateData P (map (\<lambda>v. getAttr v ''idPermissionBit'') insertedBits)) (\<lambda>resultRecords.
                      resolve (setAttr ''permissionBits'' (JArr (map JObj resultRecords)) updatedRole)))))))"

section \<open>The vocabulary of the properties\<close>

text \<open>The name of the step each recorded call belongs to.\<close>

fun stepOf :: "dao_event \<Rightarrow> string" where
  "stepOf (EvValidateEntity _) = ''validateEntity''"
| "stepOf (EvValidateBeforeInsert _) = ''validateBeforeInsert''"
| "stepOf (EvValidateBeforeUpdate _) = ''validateBeforeUpdate''"
| "stepOf EvGenerateTimeStampForInsert = ''generateTimeStampForInsert''"
| "stepOf EvGenerateTimeStampForUpdate = ''generateTimeStampForUpdate''"
| "stepOf EvAssignUuid = ''assignUuid''"
| "stepOf EvConvertBeforeSave = ''convertBeforeSave''"
| "stepOf EvAddExtraValues = ''addExtraValues''"
| "stepOf (EvInsertMethod _) = ''insertMethod''"
| "stepOf (EvUpdateMethod _) = ''updateMethod''"
| "stepOf (EvConvertAfterDbOperation _) = ''convertAfterDbOperation''"

text \<open>
  The order the specification gives for an insert: validate the shape, check uniqueness,
  timestamp and assign the id, persist, rehydrate. \<open>Dao1\<close> timestamps before it assigns
  the uuid, \<open>Dao2\<close> after.
\<close>

definition Dao1_insert_steps :: "string list" where
  "Dao1_insert_steps =
     [''validateEntity'', ''validateBeforeInsert'', ''generateTimeStampForInsert'', ''assignUuid'',
      ''convertBeforeSave'', ''addExtraValues'', ''insertMethod'', ''convertAfterDbOperation'',
      ''addExtraValues'']"

definition Dao2_insert_steps :: "string list" where
  "Dao2_insert_steps =
     [''validateEntity'', ''validateBeforeInsert'', ''assignUuid'', ''generateTimeStampForInsert'',
      ''convertBeforeSave'', ''addExtraValues'', ''insertMethod'', ''convertAfterDbOperation'',
      ''addExtraValues'']"

text \<open>
  The DAO generates ids itself: the entity properties are there and \<open>autoGenerated\<close> is
  \<open>true\<close>. This is the condition of the first guard of \<open>Dao2.insert\<close>; the second guard
  tests its negation.
\<close>

definition autoGenerates :: "'s Dao \<Rightarrow> bool" where
  "autoGenerates d = (case entityProperties d of None \<Rightarrow> False | Some p \<Rightarrow> autoGenerated p = Some True)"

text \<open>The attributes each class puts back after a conversion.\<close>

definition Dao1_restored :: "string list" where
  "Dao1_restored = [''id'', UUID_PROPERTY, DATE_CREATED_PROPERTY, DATE_UPDATED_PROPERTY]"

definition Dao2_restored :: "string list" where
  "Dao2_restored = [''id'', DATE_CREATED_PROPERTY, DATE_UPDATED_PROPERTY]"

text \<open>
  \<open>carries keys raw result\<close>: every attribute of \<open>keys\<close> that the raw database record
  has (not \<open>null\<close>, not \<open>undefined\<close>) has the same value in the object returned.
\<close>

definition carries :: "string list \<Rightarrow> entity \<Rightarrow> entity \<Rightarrow> bool" where
  "carries keys raw result = (\<forall>k \<in> set keys. \<not> isNil (getAttr raw k) \<longrightarrow> getAttr result k = getAttr raw k)"

text \<open>The records a query for one record found: one or none.\<close>

definition foundItems :: "found \<Rightarrow> entity list" where
  "foundItems r = (case r of Found x \<Rightarrow> [x] | _ \<Rightarrow> [])"

text \<open>
  \<open>rehydrates keys items rawOp op\<close>: the public operation \<open>op\<close> rejects when the engine's
  operation \<open>rawOp\<close> rejects, and otherwise resolves, in the same database, with one
  object per raw record, each carrying the raw record's \<open>keys\<close>.
\<close>

definition rehydrates ::
  "string list \<Rightarrow> ('a \<Rightarrow> entity list) \<Rightarrow> ('a, 's) promise \<Rightarrow> ('a, 's) promise \<Rightarrow> bool" where
  "rehydrates keys items rawOp op =
     (\<forall>s. case rawOp s of
             (Inl e, s') \<Rightarrow> op s = (Inl e, s')
           | (Inr raw, s') \<Rightarrow>
               (\<exists>res. op s = (Inr res, s') \<and> list_all2 (carries keys) (items raw) (items res)))"

text \<open>The lists of associations the service passed to \<open>insertMany\<close>, in order.\<close>

fun insertedAssociations :: "service_call list \<Rightarrow> entity list list" where
  "insertedAssociations [] = []"
| "insertedAssociations (InsertMany as # cs) = as # insertedAssociations cs"
| "insertedAssociations (_ # cs) = insertedAssociations cs"

text \<open>The role ids the service passed to \<open>deleteAllByIdRole\<close>, in order.\<close>

fun deletedRoles :: "service_call list \<Rightarrow> jsval list" where
  "deletedRoles [] = []"
| "deletedRoles (DeleteAllByIdRole r # cs) = r # deletedRoles cs"
| "deletedRoles (_ # cs) = deletedRoles cs"

text \<open>
  The bookkeeping the specification describes for \<open>RoleService.update\<close>, in its words:
  of the permission-bit ids associated before, those absent from the new list are
  deleted; of the new list's ids, those not associated before are inserted.
\<close>

definition setDifferenceUpdate :: "jsval list \<Rightarrow> jsval list \<Rightarrow> jsval list \<times> jsval list" where
  "setDifferenceUpdate before after =
     (filter (\<lambda>b. b \<notin> set after) before, filter (\<lambda>a. a \<notin> set before) (uniq after))"

section \<open>An in-memory engine\<close>

text \<open>
  A small engine over a list of documents, to run the operations on: a query returns
  the stored documents that match, an insert appends. Its DAO accepts an entity whose
  \<open>name\<close> is a string, refuses a second entity of the same name, and converts a raw
  record to an object that keeps the \<open>name\<close> only. \<open>generatingProps\<close> are the properties
  of a DAO that generates ids and timestamps, \<open>plainProps\<close> of one that timestamps only.
\<close>

definition generatingProps :: EntityProperties where
  "generatingProps = \<lparr>autoGenerated = Some True, timeStamp = Some True\<rparr>"

definition plainProps :: EntityProperties where
  "plainProps = \<lparr>autoGenerated = Some False, timeStamp = Some True\<rparr>"

definition sampleFind :: "query \<Rightarrow> (entity list, entity list) promise" where
  "sampleFind q = (\<lambda>docs. (Inr (filter (\<lambda>doc. matches doc q) docs), docs))"

definition sampleFindOne :: "string \<Rightarrow> jsval \<Rightarrow> (found, entity list) promise" where
  "sampleFindOne k v =
     (\<lambda>docs. (Inr (case find (\<lambda>doc. getAttr doc k = v) docs of None \<Rightarrow> Null | Some doc \<Rightarrow> Found doc), docs))"

definition sampleDao :: "EntityProperties option \<Rightarrow> entity list Dao" where
  "sampleDao props =
     \<lparr> entityProperties = props,
       validateEntity = (\<lambda>obj. if isString (getAttr obj ''name'') then []
                                else [ValidationError ''name'' ''Name is empty'' (getAttr obj ''name'')]),
       validateBeforeInsert = (\<lambda>obj. andThen (sampleFind (Eq ''name'' (getAttr obj ''name''))) (\<lambda>result.
                                 resolve (if length result > 0
                                          then [ValidationError ''name'' ''There is another record with the same name''
                                                  (getAttr obj ''name'')]
                                          else []))),
       validateBeforeUpdate = AuthContextMongoDbImpl_validateBeforeUpdate sampleFind,
       convertBeforeSave = (\<lambda>obj. obj),
       convertAfterDbOperation = (\<lambda>r. [(''name'', getAttr r ''name'')]),
       insertMethod = (\<lambda>obj docs. (Inr obj, docs @ [obj])),
       updateMethod = (\<lambda>obj docs.
                         (Inr obj, map (\<lambda>doc. if getAttr doc ''id'' = getAttr obj ''id'' then obj else doc) docs)),
       insertManyMethod = (\<lambda>objs docs. (Inr objs, docs @ objs)),
       findOneByIdMethod = sampleFindOne ''id'',
       findAllByIdsMethod = (\<lambda>ids. sampleFind (Or (map (Eq ''id'') ids))),
       findAllMethod = sampleFind (And []),
       findOneByAttributeMethod = sampleFindOne,
       findAllByAttributeMethod = (\<lambda>k v. sampleFind (Eq k v)),
       findAllByAttributeNameInMethod = (\<lambda>k vs. sampleFind (Or (map (Eq k) vs))),
       findAllByAttributesAndOperatorMethod =
         (\<lambda>fs. sampleFind (And (map (\<lambda>f. Eq (attributeName f) (filterValue f)) fs))),
       findAllByAttributesOrOperatorMethod =
         (\<lambda>fs. sampleFind (Or (map (\<lambda>f. Eq (attributeName f) (filterValue f)) fs))),
       findByQueryMethod = sampleFind,
       assignUuid = (\<lambda>p fresh obj. case p of
                       None \<Rightarrow> obj
                     | Some q \<Rightarrow> if autoGenerated q = Some True
                                then setAttr UUID_PROPERTY (JStr fresh) obj else obj),
       isValidId = isString,
       isBlankString = (\<lambda>v. \<not> isString v \<or> v = JStr '''') \<rparr>"

text \<open>The collections the role service works on, and the next id the engine gives.\<close>

record world =
  roles :: "entity list"
  rolePermissionBits :: "entity list"
  permissionBits :: "entity list"
  authContexts :: "entity list"
  nextId :: nat

definition emptyWorld :: world where
  "emptyWorld = \<lparr>roles = [], rolePermissionBits = [], permissionBits = [], authContexts = [], nextId = 0\<rparr>"

definition samplePersistence :: "world Persistence" where
  "samplePersistence =
     \<lparr> validateRole = (\<lambda>role. if isString (getAttr role ''name'') then []
                               else [ValidationError ''name'' ''Name is empty'' (getAttr role ''name'')]),
       roleDao_insert = (\<lambda>role w.
          let r = setAttr ''id'' (JNum (int (nextId w))) role
          in (Inr r, w\<lparr>roles := roles w @ [r], nextId := Suc (nextId w)\<rparr>)),
       roleDao_update = (\<lambda>role w.
          (Inr role, w\<lparr>roles := map (\<lambda>r. if getAttr r ''id'' = getAttr role ''id'' then role else r) (roles w)\<rparr>)),
       rolePermissionBitDao_deleteAllByIdRole = (\<lambda>idRole w.
          (Inr (), w\<lparr>rolePermissionBits := filter (\<lambda>a. getAttr a ''idRole'' \<noteq> idRole) (rolePermissionBits w)\<rparr>)),
       rolePermissionBitDao_insertMany = (\<lambda>associations w.
          let inserted = map (\<lambda>(n, a). setAttr ''id'' (JNum (int n)) a) (enumerate (nextId w) associations)
          in (Inr inserted, w\<lparr>rolePermissionBits := rolePermissionBits w @ inserted,
                              nextId := nextId w + length associations\<rparr>)),
       permissionBitDao_findAllByIds = (\<lambda>ids w.
          (Inr (filter (\<lambda>b. getAttr b ''id'' \<in> set ids) (permissionBits w)), w)),
       authContextDao_findAllByIds = (\<lambda>ids w.
          (Inr (filter (\<lambda>c. getAttr c ''id'' \<in> set ids) (authContexts w)), w)) \<rparr>"

text \<open>
  A database with one role \<open>r1\<close> that has the permission bit \<open>a\<close>, a role to insert
  whose \<open>permissionBits\<close> names \<open>a\<close> twice, and an update of \<open>r1\<close> that keeps \<open>a\<close>.
\<close>

definition sampleWorld :: world where
  "sampleWorld =
     \<lparr> roles = [[(''name'', JStr ''admin''), (''id'', JStr ''r1'')]],
       rolePermissionBits =
         [[(''idRole'', JStr ''r1''), (''idPermissionBit'', JStr ''a''), (''id'', JStr ''rpb1'')]],
       permissionBits = [[(''id'', JStr ''a''), (''idAuthContext'', JStr ''c1'')],
                         [(''id'', JStr ''b''), (''idAuthContext'', JStr ''c1'')]],
       authContexts = [[(''id'', JStr ''c1''), (''name'', JStr ''users'')]],
       nextId = 0 \<rparr>"

definition sampleRoleInput :: entity where
  "sampleRoleInput =
     [(''name'', JStr ''editor''),
      (''permissionBits'',
         JArr [JObj [(''id'', JStr ''a'')], JObj [(''id'', JStr ''b'')], JObj [(''id'', JStr ''a'')]])]"

definition sampleRoleUpdate :: entity where
  "sampleRoleUpdate =
     [(''id'', JStr ''r1''), (''name'', JStr ''admin''),
      (''permissionBits'', JArr [JObj [(''id'', JStr ''a'')]])]"

text \<open>Two stored documents, with different names and user names.\<close>

definition sampleDocs :: "entity list" where
  "sampleDocs =
     [[(''_id'', JStr ''1''), (''name'', JStr ''admin''), (''username'', JStr ''root'')],
      [(''_id'', JStr ''2''), (''name'', JStr ''guest''), (''username'', JStr ''anon'')]]"

text \<open>A stored record with an id, a uuid and both timestamps.\<close>

definition sampleRecord :: entity where
  "sampleRecord =
     [(''id'', JStr ''x''), (''uuid'', JStr ''u''), (''name'', JStr ''n''),
      (''dateCreated'', JDate 1), (''lastUpdate'', JDate 2)]"

text \<open>
  An engine whose insert stores the document it is given and answers with a record that
  has the document's name only.
\<close>

definition forgetfulDao :: "entity list Dao" where
  "forgetfulDao =
     (sampleDao (Some generatingProps))
       \<lparr> insertMethod := (\<lambda>obj docs. (Inr [(''name'', getAttr obj ''name'')], docs @ [obj])) \<rparr>"

section \<open>Promises, attributes and lists\<close>

lemma resolve_apply [simp]: "resolve a s = (Inr a, s)"
  by (simp add: resolve_def)

lemma reject_apply [simp]: "reject e s = (Inl e, s)"
  by (simp add: reject_def)

lemma andThen_apply:
  "andThen p f s = (case p s of (Inl e, s') \<Rightarrow> (Inl e, s') | (Inr a, s') \<Rightarrow> f a s')"
  by (simp add: andThen_def)

lemma andThen_traced [simp]: "andThen (traced ev v) f (s, lg) = f v (s, lg @ [ev])"
  by (simp add: andThen_def traced_def)

lemma andThen_call [simp]:
  "andThen (call ev h) f (s, lg) =
     (case h s of (Inl e, s') \<Rightarrow> (Inl e, (s', lg @ [ev])) | (Inr a, s') \<Rightarrow> f a (s', lg @ [ev]))"
  by (simp add: andThen_def call_def split: prod.splits sum.splits)

lemma getAttr_setAttr [simp]: "getAttr (setAttr k v obj) k' = (if k' = k then v else getAttr obj k')"
  by (simp add: getAttr_def setAttr_def update_conv')

lemma getAttr_restoreAttr:
  "getAttr (restoreAttr k reference obj) k' =
     (if k' = k \<and> \<not> isNil (getAttr reference k) then getAttr reference k else getAttr obj k')"
  by (simp add: restoreAttr_def)

subsection \<open>The calls of the role service\<close>

lemma uniq_step_set:
  "set (foldl (\<lambda>result v. if v \<in> set result then result else result @ [v]) acc xs) = set acc \<union> set xs"
  by (induction xs arbitrary: acc) auto

lemma uniq_step_distinct:
  "distinct acc \<Longrightarrow> distinct (foldl (\<lambda>result v. if v \<in> set result then result else result @ [v]) acc xs)"
  by (induction xs arbitrary: acc) auto

lemma set_uniq [simp]: "set (uniq xs) = set xs"
  by (simp add: uniq_def uniq_step_set)

lemma distinct_uniq [simp]: "distinct (uniq xs)"
  by (simp add: uniq_def uniq_step_distinct)

lemma length_uniq: "length (uniq xs) = card (set xs)"
  using distinct_card [of "uniq xs"] by simp

lemma insertedAssociations_append [simp]:
  "insertedAssociations (xs @ ys) = insertedAssociations xs @ insertedAssociations ys"
  by (induction xs rule: insertedAssociations.induct) auto

lemma deletedRoles_append [simp]:
  "deletedRoles (xs @ ys) = deletedRoles xs @ deletedRoles ys"
  by (induction xs rule: deletedRoles.induct) auto

lemma validatePermissionBitsIds_log:
  "validatePermissionBitsIds P ids (w, lg) = (r, (w', lg')) \<Longrightarrow> lg' = lg @ [PermissionBitFindAllByIds ids]"
  by (auto simp: validatePermissionBitsIds_def split: prod.splits sum.splits if_splits)

lemma validate_log:
  assumes "RoleService_validate P object (w, lg) = (r, (w', lg'))"
  shows "insertedAssociations lg' = insertedAssociations lg \<and> deletedRoles lg' = deletedRoles lg"
  using assms
  by (auto simp: RoleService_validate_def Let_def split: if_splits sum.splits
      dest!: validatePermissionBitsIds_log)

lemma validate_resolved:
  assumes "RoleService_validate P object (w, lg) = (Inr u, st)"
  shows "\<exists>ids. mapProp ''id'' (arrayItems (getAttr object ''permissionBits'')) = Inr ids"
  using assms
  by (auto simp: RoleService_validate_def Let_def split: if_splits sum.splits)

lemma populateData_log:
  assumes "populateData P ids (w, lg) = (r, (w', lg'))"
  shows "insertedAssociations lg' = insertedAssociations lg \<and> deletedRoles lg' = deletedRoles lg"
  using assms
  by (auto simp: populateData_def Let_def split: prod.splits sum.splits)

lemma RolePermissionBitEntity_ids [simp]:
  "map (\<lambda>a. getAttr a ''idPermissionBit'') (map (RolePermissionBitEntity r) ids) = ids"
  by (induction ids) (auto simp: RolePermissionBitEntity_def getAttr_def)

lemma RolePermissionBitEntity_ids_comp [simp]:
  "map ((\<lambda>a. getAttr a ''idPermissionBit'') \<circ> RolePermissionBitEntity r) ids = ids"
  using RolePermissionBitEntity_ids [of r ids] by (simp del: RolePermissionBitEntity_ids)

lemma validate_resolved_calls:
  assumes "RoleService_validate P object (w, lg) = (Inr u, (w', lg'))"
  shows "\<exists>ids. mapProp ''id'' (arrayItems (getAttr object ''permissionBits'')) = Inr ids
             \<and> lg' = lg @ [PermissionBitFindAllByIds (uniq ids)]"
  using assms
  by (auto simp: RoleService_validate_def Let_def split: if_splits sum.splits
      dest!: validatePermissionBitsIds_log)

lemma populateData_calls:
  assumes "populateData P ids (w, lg) = (r, (w', lg'))"
  shows "\<exists>rest. lg' = lg @ rest \<and> insertedAssociations rest = [] \<and> deletedRoles rest = []"
  using assms
  by (auto simp: populateData_def Let_def split: prod.splits sum.splits)

lemmas sample_simps = RoleService_insert_def RoleService_update_def RoleService_validate_def validatePermissionBitsIds_def populateData_def
     samplePersistence_def sampleWorld_def sampleRoleInput_def sampleRoleUpdate_def Let_def andThen_apply call_def
     getAttr_def setAttr_def RoleEntity_def RolePermissionBitEntity_def uniq_def arrayItems_def isArray_def
     isString_def propOf_def

subsection \<open>The runs of an insert\<close>

lemma Dao1_insert_run:
  assumes "isNil (getAttr obj ''id'')"
  shows "Dao1_insert d now fresh obj (s, lg) =
     (if validateEntity d obj \<noteq> []
      then (Inl (Errors (validateEntity d obj)), (s, lg @ [EvValidateEntity obj]))
      else
        (case validateBeforeInsert d obj s of
           (Inl e, s1) \<Rightarrow> (Inl e, (s1, lg @ [EvValidateEntity obj, EvValidateBeforeInsert obj]))
         | (Inr errs, s1) \<Rightarrow>
             if errs \<noteq> []
             then (Inl (Errors errs), (s1, lg @ [EvValidateEntity obj, EvValidateBeforeInsert obj]))
             else
               let prepared = assignUuid d (entityProperties d) fresh
                                (generateTimeStampForInsert (entityProperties d) now obj);
                   toSave = Dao1_addExtraValues (convertBeforeSave d prepared) prepared;
                   before = lg @ [EvValidateEntity obj, EvValidateBeforeInsert obj,
                                  EvGenerateTimeStampForInsert, EvAssignUuid, EvConvertBeforeSave,
                                  EvAddExtraValues, EvInsertMethod toSave]
               in (case insertMethod d toSave s1 of
                     (Inl e, s2) \<Rightarrow> (Inl e, (s2, before))
                   | (Inr raw, s2) \<Rightarrow>
                       (Inr (Dao1_addExtraValues (convertAfterDbOperation d raw) raw),
                        (s2, before @ [EvConvertAfterDbOperation raw, EvAddExtraValues])))))"
  using assms
  by (simp add: Dao1_insert_def Let_def split: prod.splits sum.splits)

lemma Dao2_insert_run:
  assumes "autoGenerates d = isNil (getAttr obj ''id'')"
  shows "Dao2_insert d now fresh obj (s, lg) =
     (if validateEntity d obj \<noteq> []
      then (Inl (Errors (validateEntity d obj)), (s, lg @ [EvValidateEntity obj]))
      else
        (case validateBeforeInsert d obj s of
           (Inl e, s1) \<Rightarrow> (Inl e, (s1, lg @ [EvValidateEntity obj, EvValidateBeforeInsert obj]))
         | (Inr errs, s1) \<Rightarrow>
             if errs \<noteq> []
             then (Inl (Errors errs), (s1, lg @ [EvValidateEntity obj, EvValidateBeforeInsert obj]))
             else
               let prepared = generateTimeStampForInsert (entityProperties d) now
                                (assignUUIDToIdAttribute (entityProperties d) fresh obj);
                   toSave = Dao2_addExtraValues (convertBeforeSave d prepared) prepared;
                   before = lg @ [EvValidateEntity obj, EvValidateBeforeInsert obj,
                                  EvAssignUuid, EvGenerateTimeStampForInsert, EvConvertBeforeSave,
                                  EvAddExtraValues, EvInsertMethod toSave]
               in (case insertMethod d toSave s1 of
                     (Inl e, s2) \<Rightarrow> (Inl e, (s2, before))
                   | (Inr raw, s2) \<Rightarrow>
                       (Inr (Dao2_addExtraValues (convertAfterDbOperation d raw) raw),
                        (s2, before @ [EvConvertAfterDbOperation raw, EvAddExtraValues])))))"
proof -
  have guards: "\<not> (entityProperties d \<noteq> None \<and> autoGenerated (the (entityProperties d)) = Some True
                     \<and> \<not> isNil (getAttr obj ''id''))"
    "\<not> ((entityProperties d = None \<or> autoGenerated (the (entityProperties d)) = None
           \<or> autoGenerated (the (entityProperties d)) = Some False) \<and> isNil (getAttr obj ''id''))"
    using assms by (auto simp: autoGenerates_def split: option.splits)
  show ?thesis
    unfolding Dao2_insert_def
    by (simp only: guards if_False) (simp add: Let_def split: prod.splits sum.splits)
qed

lemma Dao2_insert_defined_id:
  assumes "autoGenerates d" "\<not> isNil (getAttr obj ''id'')"
  shows "Dao2_insert d now fresh obj st = (Inl (Message ''Object has a defined id''), st)"
  using assms by (auto simp: Dao2_insert_def autoGenerates_def split: option.splits)

lemma Dao2_insert_missing_id:
  assumes "\<not> autoGenerates d" "isNil (getAttr obj ''id'')"
  shows "Dao2_insert d now fresh obj st =
    (Inl (Message ''Object does not have an id and the dao has the attribute entityProperties.autoGenerated as false or undefined''), st)"
proof -
  have "entityProperties d = None \<or> autoGenerated (the (entityProperties d)) = None
           \<or> autoGenerated (the (entityProperties d)) = Some False"
    using assms(1)
    by (cases "entityProperties d"; cases "autoGenerated (the (entityProperties d))")
       (auto simp: autoGenerates_def)
  then show ?thesis
    using assms by (auto simp: Dao2_insert_def autoGenerates_def)
qed

lemma getAttr_Dao1_addExtraValues:
  "getAttr (Dao1_addExtraValues obj reference) k =
     (if k \<in> set Dao1_restored \<and> \<not> isNil (getAttr reference k) then getAttr reference k
      else getAttr obj k)"
  by (auto simp: Dao1_addExtraValues_def Dao1_restored_def getAttr_restoreAttr UUID_PROPERTY_def
      DATE_CREATED_PROPERTY_def DATE_UPDATED_PROPERTY_def)

lemma getAttr_Dao2_addExtraValues:
  "getAttr (Dao2_addExtraValues obj reference) k =
     (if k \<in> set Dao2_restored \<and> \<not> isNil (getAttr reference k) then getAttr reference k
      else getAttr obj k)"
  by (auto simp: Dao2_addExtraValues_def Dao2_restored_def getAttr_restoreAttr
      DATE_CREATED_PROPERTY_def DATE_UPDATED_PROPERTY_def)

lemma getAttr_generateTimeStampForInsert:
  "getAttr (generateTimeStampForInsert props now obj) k =
     (if k = DATE_CREATED_PROPERTY \<and> (\<exists>p. props = Some p \<and> timeStamp p = Some True)
      then JDate now else getAttr obj k)"
  by (auto simp: generateTimeStampForInsert_def split: option.splits)

lemma getAttr_generateTimeStampForUpdate:
  "getAttr (generateTimeStampForUpdate props now obj) k =
     (if k = DATE_UPDATED_PROPERTY \<and> (\<exists>p. props = Some p \<and> timeStamp p = Some True)
      then JDate now else getAttr obj k)"
  by (auto simp: generateTimeStampForUpdate_def split: option.splits)



lemmas sampleDao_simps = sampleDao_def sampleFind_def sampleFindOne_def generatingProps_def plainProps_def
  Dao1_insert_def Dao2_insert_def Dao1_update_def Dao2_update_def
  AuthContextMongoDbImpl_validateBeforeUpdate_def andThen_apply traced_def call_def
  Dao1_addExtraValues_def Dao2_addExtraValues_def restoreAttr_def
  generateTimeStampForInsert_def generateTimeStampForUpdate_def assignUUIDToIdAttribute_def
  UUID_PROPERTY_def DATE_CREATED_PROPERTY_def DATE_UPDATED_PROPERTY_def
  getAttr_def setAttr_def isNil_def isString_def autoGenerates_def

subsection \<open>The runs of an update\<close>

lemma Dao1_update_run:
  assumes "isValidId d (getAttr obj ''id'')"
  shows "Dao1_update d now obj (s, lg) =
     (if validateEntity d obj \<noteq> []
      then (Inl (Errors (validateEntity d obj)), (s, lg @ [EvValidateEntity obj]))
      else
        (case validateBeforeUpdate d obj s of
           (Inl e, s1) \<Rightarrow> (Inl e, (s1, lg @ [EvValidateEntity obj, EvValidateBeforeUpdate obj]))
         | (Inr errs, s1) \<Rightarrow>
             if errs \<noteq> []
             then (Inl (Errors errs), (s1, lg @ [EvValidateEntity obj, EvValidateBeforeUpdate obj]))
             else
               let prepared = generateTimeStampForUpdate (entityProperties d) now obj;
                   toSave = Dao1_addExtraValues (convertBeforeSave d prepared) prepared;
                   before = lg @ [EvValidateEntity obj, EvValidateBeforeUpdate obj,
                                  EvGenerateTimeStampForUpdate, EvConvertBeforeSave,
                                  EvAddExtraValues, EvUpdateMethod toSave]
               in (case updateMethod d toSave s1 of
                     (Inl e, s2) \<Rightarrow> (Inl e, (s2, before))
                   | (Inr raw, s2) \<Rightarrow>
                       (Inr (Dao1_addExtraValues (convertAfterDbOperation d raw) raw),
                        (s2, before @ [EvConvertAfterDbOperation raw, EvAddExtraValues])))))"
  using assms
  by (simp add: Dao1_update_def Let_def split: prod.splits sum.splits)

lemma Dao2_update_run:
  assumes "\<not> isBlankString d (getAttr obj ''id'')"
  shows "Dao2_update d now obj (s, lg) =
     (if validateEntity d obj \<noteq> []
      then (Inl (Errors (validateEntity d obj)), (s, lg @ [EvValidateEntity obj]))
      else
        (case validateBeforeUpdate d obj s of
           (Inl e, s1) \<Rightarrow> (Inl e, (s1, lg @ [EvValidateEntity obj, EvValidateBeforeUpdate obj]))
         | (Inr errs, s1) \<Rightarrow>
             if errs \<noteq> []
             then (Inl (Errors errs), (s1, lg @ [EvValidateEntity obj, EvValidateBeforeUpdate obj]))
             else
               let prepared = generateTimeStampForUpdate (entityProperties d) now obj;
                   toSave = Dao2_addExtraValues (convertBeforeSave d prepared) prepared;
                   before = lg @ [EvValidateEntity obj, EvValidateBeforeUpdate obj,
                                  EvGenerateTimeStampForUpdate, EvConvertBeforeSave,
                                  EvAddExtraValues, EvUpdateMethod toSave]
               in (case updateMethod d toSave s1 of
                     (Inl e, s2) \<Rightarrow> (Inl e, (s2, before))
                   | (Inr raw, s2) \<Rightarrow>
                       (Inr (Dao2_addExtraValues (convertAfterDbOperation d raw) raw),
                        (s2, before @ [EvConvertAfterDbOperation raw, EvAddExtraValues])))))"
  using assms
  by (simp add: Dao2_update_def Let_def split: prod.splits sum.splits)

lemma Dao2_insert_resolved:
  assumes "Dao2_insert d now fresh obj (s, lg) = (Inr result, st')"
  shows "autoGenerates d = isNil (getAttr obj ''id'')"
proof (rule ccontr)
  assume "autoGenerates d \<noteq> isNil (getAttr obj ''id'')"
  then have "(autoGenerates d \<and> \<not> isNil (getAttr obj ''id''))
               \<or> (\<not> autoGenerates d \<and> isNil (getAttr obj ''id''))"
    by auto
  with assms show False
    by (auto simp: Dao2_insert_defined_id Dao2_insert_missing_id)
qed

lemma Dao2_update_resolved:
  assumes "Dao2_update d now obj (s, lg) = (Inr result, st')"
  shows "\<not> isBlankString d (getAttr obj ''id'')"
  using assms by (auto simp: Dao2_update_def split: if_splits)

lemma Dao1_update_resolved:
  assumes "Dao1_update d now obj (s, lg) = (Inr result, st')"
  shows "isValidId d (getAttr obj ''id'')"
  using assms by (auto simp: Dao1_update_def split: if_splits)

lemma Dao1_insert_resolved:
  assumes "Dao1_insert d now fresh obj (s, lg) = (Inr result, st')"
  shows "isNil (getAttr obj ''id'')"
  using assms by (auto simp: Dao1_insert_def split: if_splits)

subsection \<open>What addExtraValues restores\<close>

lemma carries_Dao1_addExtraValues: "carries Dao1_restored raw (Dao1_addExtraValues obj raw)"
  by (simp add: carries_def getAttr_Dao1_addExtraValues)

lemma carries_Dao2_addExtraValues: "carries Dao2_restored raw (Dao2_addExtraValues obj raw)"
  by (simp add: carries_def getAttr_Dao2_addExtraValues)

lemma list_all2_rehydrated1:
  "list_all2 (carries Dao1_restored) raws (map (\<lambda>v. Dao1_addExtraValues (c v) v) raws)"
  by (simp add: list_all2_map2 list_all2_same carries_Dao1_addExtraValues)

lemma list_all2_rehydrated2:
  "list_all2 (carries Dao2_restored) raws (map (\<lambda>v. Dao2_addExtraValues (c v) v) raws)"
  by (simp add: list_all2_map2 list_all2_same carries_Dao2_addExtraValues)

lemma rehydrates_list1:
  "rehydrates Dao1_restored (\<lambda>xs. xs) rawOp
     (andThen rawOp (\<lambda>resultQuery. resolve (map (\<lambda>v. Dao1_addExtraValues (c v) v) resultQuery)))"
  by (auto simp: rehydrates_def andThen_apply list_all2_rehydrated1 split: prod.splits sum.splits)

lemma rehydrates_list2:
  "rehydrates Dao2_restored (\<lambda>xs. xs) rawOp
     (andThen rawOp (\<lambda>resultQuery. resolve (map (\<lambda>v. Dao2_addExtraValues (c v) v) resultQuery)))"
  by (auto simp: rehydrates_def andThen_apply list_all2_rehydrated2 split: prod.splits sum.splits)

lemma rehydrates_found1:
  "rehydrates Dao1_restored foundItems rawOp
     (andThen rawOp (\<lambda>resultQuery. resolve (Dao1_rehydrateFound d resultQuery)))"
  by (auto simp: rehydrates_def andThen_apply Dao1_rehydrateFound_def foundItems_def
      carries_Dao1_addExtraValues split: prod.splits sum.splits found.splits)

lemma rehydrates_found2:
  "rehydrates Dao2_restored foundItems rawOp
     (andThen rawOp (\<lambda>resultQuery. resolve (Dao2_rehydrateFound d resultQuery)))"
  by (auto simp: rehydrates_def andThen_apply Dao2_rehydrateFound_def foundItems_def
      carries_Dao2_addExtraValues split: prod.splits sum.splits found.splits)

lemma rehydratesD:
  assumes "rehydrates keys items rawOp op" and "rawOp s = (Inr raw, s')"
  shows "\<exists>res. op s = (Inr res, s') \<and> list_all2 (carries keys) (items raw) (items res)"
  using assms by (auto simp: rehydrates_def split: prod.splits sum.splits dest!: spec [of _ s])

lemma carriesD:
  assumes "carries keys raw res" and "k \<in> set keys" and "\<not> isNil (getAttr raw k)"
  shows "getAttr res k = getAttr raw k"
  using assms by (simp add: carries_def)

lemma rehydrates_foundD:
  assumes "rehydrates keys foundItems rawOp op" and "rawOp s = (Inr (Found raw), s')"
  shows "\<exists>r. op s = (Inr (Found r), s') \<and> carries keys raw r"
proof -
  from rehydratesD [OF assms]
  obtain res where res: "op s = (Inr res, s')" "list_all2 (carries keys) (foundItems (Found raw)) (foundItems res)"
    by blast
  then show ?thesis
    by (cases res) (auto simp: foundItems_def)
qed

section \<open>Queries that find nothing\<close>

text \<open>
  Claim C9. When the engine's query for one record resolves with \<open>null\<close> or
  \<open>undefined\<close>, \<open>findOneById\<close> and \<open>findOneByAttribute\<close> of \<open>Dao1\<close> and \<open>findOne\<close> and
  \<open>findOneByAttribute\<close> of \<open>Dao2\<close> resolve with that same value, in the database the
  engine left: no error is raised, and whatever \<open>convertAfterDbOperation\<close> the DAO has
  (\<open>c\<close>) plays no part in the result.
\<close>

theorem findOne_nil_unchanged:
  assumes nil: "r = Null \<or> r = Undefined"
  shows "(findOneByIdMethod d ident s = (Inr r, s') \<longrightarrow>
            Dao1_findOneById (d\<lparr>convertAfterDbOperation := c\<rparr>) ident s = (Inr r, s')
          \<and> Dao2_findOne (d\<lparr>convertAfterDbOperation := c\<rparr>) ident s = (Inr r, s'))
       \<and> (findOneByAttributeMethod d name v s = (Inr r, s') \<longrightarrow>
            Dao1_findOneByAttribute (d\<lparr>convertAfterDbOperation := c\<rparr>) name v s = (Inr r, s')
          \<and> Dao2_findOneByAttribute (d\<lparr>convertAfterDbOperation := c\<rparr>) name v s = (Inr r, s'))"
  using nil
  by (auto simp: Dao1_findOneById_def Dao2_findOne_def Dao1_findOneByAttribute_def
      Dao2_findOneByAttribute_def andThen_apply Dao1_rehydrateFound_def Dao2_rehydrateFound_def)

text \<open>In the empty in-memory collection no id and no name is found: the caller gets \<open>null\<close>.\<close>

theorem findOne_nil_unchanged_witness:
  "Dao1_findOneById (sampleDao None) (JStr ''7'') [] = (Inr Null, [])
   \<and> Dao2_findOne (sampleDao None) (JStr ''7'') [] = (Inr Null, [])
   \<and> Dao1_findOneByAttribute (sampleDao None) ''name'' (JStr ''admin'') [] = (Inr Null, [])
   \<and> Dao2_findOneByAttribute (sampleDao None) ''name'' (JStr ''admin'') [] = (Inr Null, [])"
proof -
  have a: "findOneByIdMethod (sampleDao None) (JStr ''7'') [] = (Inr Null, [])"
    by (simp add: sampleDao_def sampleFindOne_def)
  have b: "findOneByAttributeMethod (sampleDao None) ''name'' (JStr ''admin'') [] = (Inr Null, [])"
    by (simp add: sampleDao_def sampleFindOne_def)
  have c: "(sampleDao None)\<lparr>convertAfterDbOperation := convertAfterDbOperation (sampleDao None)\<rparr>
             = sampleDao None"
    by simp
  from findOne_nil_unchanged [of Null "sampleDao None" "JStr ''7''" "[]" "[]"
      "convertAfterDbOperation (sampleDao None)" "''name''" "JStr ''admin''"] a b c
  show ?thesis by simp
qed

section \<open>The role service\<close>

text \<open>
  Claim C10. When \<open>permissionBits\<close> is not an array or is the empty array,
  \<open>RoleService.insert\<close> and \<open>RoleService.update\<close> reject with exactly one validation
  error, \<open>permissionBits is not an array or is empty\<close>, and call no DAO. This holds for
  every \<open>RoleValidator.validateRole\<close>, so also when the role's own fields have errors:
  those errors are not part of the rejection.
\<close>

theorem RoleService_rejects_missing_permissionBits:
  assumes "\<not> isArray (getAttr object ''permissionBits'') \<or> getAttr object ''permissionBits'' = JArr []"
  shows "RoleService_insert P object st =
           (Inl (Errors [ValidationError ''role.permissionBit''
                           ''permissionBits is not an array or is empty'' (JStr '''')]), st)
       \<and> RoleService_update P object st =
           (Inl (Errors [ValidationError ''role.permissionBit''
                           ''permissionBits is not an array or is empty'' (JStr '''')]), st)"
proof -
  have v: "RoleService_validate P object st =
      (Inl (Errors [ValidationError ''role.permissionBit''
                           ''permissionBits is not an array or is empty'' (JStr '''')]), st)"
    using assms
    by (auto simp: RoleService_validate_def Let_def arrayItems_def ROLE_PERMISSION_BIT_def
        ROLE_PERMISSION_BITS_EMPTY_def)
  show ?thesis
    by (simp add: RoleService_insert_def RoleService_update_def andThen_apply v)
qed

text \<open>
  An object with no name and an empty \<open>permissionBits\<close>, and one whose \<open>permissionBits\<close> is a
  string: the role validator reports the missing name, the service rejects with the
  single error about \<open>permissionBits\<close>.
\<close>

theorem RoleService_rejects_missing_permissionBits_witness:
  "validateRole samplePersistence
     (RoleEntity JUndefined JUndefined JUndefined JUndefined JUndefined)
     = [ValidationError ''name'' ''Name is empty'' JUndefined]
   \<and> RoleService_insert samplePersistence [(''permissionBits'', JArr [])] (emptyWorld, []) =
       (Inl (Errors [ValidationError ''role.permissionBit''
                       ''permissionBits is not an array or is empty'' (JStr '''')]), (emptyWorld, []))
   \<and> RoleService_update samplePersistence [(''permissionBits'', JStr ''all'')] (emptyWorld, []) =
       (Inl (Errors [ValidationError ''role.permissionBit''
                       ''permissionBits is not an array or is empty'' (JStr '''')]), (emptyWorld, []))"
proof -
  have a: "\<not> isArray (getAttr [(''permissionBits'', JArr [])] ''permissionBits'')
           \<or> getAttr [(''permissionBits'', JArr [])] ''permissionBits'' = JArr []"
    by (simp add: getAttr_def)
  have b: "\<not> isArray (getAttr [(''permissionBits'', JStr ''all'')] ''permissionBits'')
           \<or> getAttr [(''permissionBits'', JStr ''all'')] ''permissionBits'' = JArr []"
    by (simp add: getAttr_def isArray_def)
  have c: "validateRole samplePersistence
     (RoleEntity JUndefined JUndefined JUndefined JUndefined JUndefined)
     = [ValidationError ''name'' ''Name is empty'' JUndefined]"
    by (simp add: samplePersistence_def RoleEntity_def getAttr_def isString_def)
  from RoleService_rejects_missing_permissionBits [OF a, of samplePersistence "(emptyWorld, [])"]
       RoleService_rejects_missing_permissionBits [OF b, of samplePersistence "(emptyWorld, [])"] c
  show ?thesis by blast
qed

text \<open>
  Claim C3. \<open>RoleService.insert\<close> calls \<open>insertMany\<close> at most once, and a call that
  resolves has made it exactly once. The list it passes holds one association
  (\<open>insertedRole.id\<close>, id) per distinct id of \<open>permissionBits\<close>, in the order of first
  occurrence: the ids are deduplicated by \<open>_.uniq\<close> first, so the number of
  associations is the number of distinct ids, however often an id is repeated. Here
  \<open>insertedRole\<close> is the role \<open>roleDao.insert\<close> resolved with, for the role entity made of
  the object's fields, in the database the validation left.

  The run is this one. A rejection of the validation is the rejection of the insert.
  After a validation that resolves, the role entity is given to \<open>roleDao.insert\<close>; when
  that resolves, the associations are given to \<open>rolePermissionBitDao.insertMany\<close> in the
  database \<open>roleDao.insert\<close> left; when that resolves, the inserted role is returned with
  the permission bits that \<open>populateData\<close> found for the inserted associations. A
  rejection of either DAO is the rejection of the insert, and nothing is called after it.
\<close>

theorem RoleService_insert_one_association_per_distinct_id:
  "(\<forall>r w' calls. RoleService_insert P object (w, []) = (r, (w', calls)) \<longrightarrow>
       (insertedAssociations calls = [] \<and> (\<forall>result. r \<noteq> Inr result))
     \<or> (\<exists>ids insertedRole associations w1 w2 rest.
            mapProp ''id'' (arrayItems (getAttr object ''permissionBits'')) = Inr ids
          \<and> RoleService_validate P object (w, []) = (Inr (), (w1, [PermissionBitFindAllByIds (uniq ids)]))
          \<and> roleDao_insert P (RoleEntity (getAttr object ''name'') (getAttr object ''description'')
                                (getAttr object ''enabled'') (getAttr object ''isRoot'')
                                (getAttr object ''idParentRole'')) w1 = (Inr insertedRole, w2)
          \<and> calls = [PermissionBitFindAllByIds (uniq ids),
                     RoleDaoInsert (RoleEntity (getAttr object ''name'') (getAttr object ''description'')
                                      (getAttr object ''enabled'') (getAttr object ''isRoot'')
                                      (getAttr object ''idParentRole'')),
                     InsertMany associations] @ rest
          \<and> insertedAssociations rest = []
          \<and> insertedAssociations calls = [associations]
          \<and> associations = map (RolePermissionBitEntity (getAttr insertedRole ''id'')) (uniq ids)
          \<and> map (\<lambda>a. getAttr a ''idPermissionBit'') associations = uniq ids
          \<and> distinct (uniq ids) \<and> set (uniq ids) = set ids
          \<and> length associations = card (set ids)))
   \<and> (\<forall>e st. RoleService_validate P object (w, lg) = (Inl e, st) \<longrightarrow>
         RoleService_insert P object (w, lg) = (Inl e, st))
   \<and> (\<forall>u w1 lg1. RoleService_validate P object (w, lg) = (Inr u, (w1, lg1)) \<longrightarrow>
         (\<exists>ids. mapProp ''id'' (arrayItems (getAttr object ''permissionBits'')) = Inr ids
            \<and> lg1 = lg @ [PermissionBitFindAllByIds (uniq ids)]
            \<and> RoleService_insert P object (w, lg) =
                (let role = RoleEntity (getAttr object ''name'') (getAttr object ''description'')
                              (getAttr object ''enabled'') (getAttr object ''isRoot'')
                              (getAttr object ''idParentRole'')
                 in (case roleDao_insert P role w1 of
                       (Inl e, w2) \<Rightarrow> (Inl e, (w2, lg1 @ [RoleDaoInsert role]))
                     | (Inr insertedRole, w2) \<Rightarrow>
                         (let associations =
                                map (RolePermissionBitEntity (getAttr insertedRole ''id'')) (uniq ids);
                              made = lg1 @ [RoleDaoInsert role, InsertMany associations]
                          in (case rolePermissionBitDao_insertMany P associations w2 of
                                (Inl e, w3) \<Rightarrow> (Inl e, (w3, made))
                              | (Inr insertedBits, w3) \<Rightarrow>
                                  (case populateData P
                                          (map (\<lambda>v. getAttr v ''idPermissionBit'') insertedBits)
                                          (w3, made) of
                                     (Inl e, st) \<Rightarrow> (Inl e, st)
                                   | (Inr resultData, st) \<Rightarrow>
                                       (Inr (setAttr ''permissionBits'' (JArr (map JObj resultData))
                                               insertedRole), st))))))))"
proof -
  have a: "(insertedAssociations calls = [] \<and> (\<forall>result. r \<noteq> Inr result))
     \<or> (\<exists>ids insertedRole associations w1 w2 rest.
            mapProp ''id'' (arrayItems (getAttr object ''permissionBits'')) = Inr ids
          \<and> RoleService_validate P object (w, []) = (Inr (), (w1, [PermissionBitFindAllByIds (uniq ids)]))
          \<and> roleDao_insert P (RoleEntity (getAttr object ''name'') (getAttr object ''description'')
                                (getAttr object ''enabled'') (getAttr object ''isRoot'')
                                (getAttr object ''idParentRole'')) w1 = (Inr insertedRole, w2)
          \<and> calls = [PermissionBitFindAllByIds (uniq ids),
                     RoleDaoInsert (RoleEntity (getAttr object ''name'') (getAttr object ''description'')
                                      (getAttr object ''enabled'') (getAttr object ''isRoot'')
                                      (getAttr object ''idParentRole'')),
                     InsertMany associations] @ rest
          \<and> insertedAssociations rest = []
          \<and> insertedAssociations calls = [associations]
          \<and> associations = map (RolePermissionBitEntity (getAttr insertedRole ''id'')) (uniq ids)
          \<and> map (\<lambda>a. getAttr a ''idPermissionBit'') associations = uniq ids
          \<and> distinct (uniq ids) \<and> set (uniq ids) = set ids
          \<and> length associations = card (set ids))"
    if run: "RoleService_insert P object (w, []) = (r, (w', calls))" for r w' calls
  proof -
    obtain v w1 lg1 where val: "RoleService_validate P object (w, []) = (v, (w1, lg1))"
      by (metis prod.exhaust)
    from validate_log [OF val]
    have lg1: "insertedAssociations lg1 = []" by simp
    show ?thesis
    proof (cases v)
      case (Inl e)
      with run val lg1 show ?thesis
        by (auto simp: RoleService_insert_def andThen_apply)
    next
      case (Inr u)
      from validate_resolved_calls [of P object w "[]" u w1 lg1] val Inr
      obtain ids where ids: "mapProp ''id'' (arrayItems (getAttr object ''permissionBits'')) = Inr ids"
        and lg1': "lg1 = [PermissionBitFindAllByIds (uniq ids)]"
        by auto
      show ?thesis
        using run val Inr ids lg1'
        by (auto simp: RoleService_insert_def andThen_apply [of "RoleService_validate P object"]
            andThen_apply [of "populateData _ _"] Let_def length_uniq
            split: prod.splits sum.splits dest!: populateData_calls)
    qed
  qed
  have b: "RoleService_insert P object (w, lg) = (Inl e, st)"
    if "RoleService_validate P object (w, lg) = (Inl e, st)" for e st
    using that by (simp add: RoleService_insert_def andThen_apply)
  have c: "\<exists>ids. mapProp ''id'' (arrayItems (getAttr object ''permissionBits'')) = Inr ids
            \<and> lg1 = lg @ [PermissionBitFindAllByIds (uniq ids)]
            \<and> RoleService_insert P object (w, lg) =
                (let role = RoleEntity (getAttr object ''name'') (getAttr object ''description'')
                              (getAttr object ''enabled'') (getAttr object ''isRoot'')
                              (getAttr object ''idParentRole'')
                 in (case roleDao_insert P role w1 of
                       (Inl e, w2) \<Rightarrow> (Inl e, (w2, lg1 @ [RoleDaoInsert role]))
                     | (Inr insertedRole, w2) \<Rightarrow>
                         (let associations =
                                map (RolePermissionBitEntity (getAttr insertedRole ''id'')) (uniq ids);
                              made = lg1 @ [RoleDaoInsert role, InsertMany associations]
                          in (case rolePermissionBitDao_insertMany P associations w2 of
                                (Inl e, w3) \<Rightarrow> (Inl e, (w3, made))
                              | (Inr insertedBits, w3) \<Rightarrow>
                                  (case populateData P
                                          (map (\<lambda>v. getAttr v ''idPermissionBit'') insertedBits)
                                          (w3, made) of
                                     (Inl e, st) \<Rightarrow> (Inl e, st)
                                   | (Inr resultData, st) \<Rightarrow>
                                       (Inr (setAttr ''permissionBits'' (JArr (map JObj resultData))
                                               insertedRole), st))))))"
    if val: "RoleService_validate P object (w, lg) = (Inr u, (w1, lg1))" for u w1 lg1
  proof -
    from validate_resolved_calls [OF val]
    obtain ids where ids: "mapProp ''id'' (arrayItems (getAttr object ''permissionBits'')) = Inr ids"
      and lg1: "lg1 = lg @ [PermissionBitFindAllByIds (uniq ids)]"
      by auto
    have "RoleService_insert P object (w, lg) =
                (let role = RoleEntity (getAttr object ''name'') (getAttr object ''description'')
                              (getAttr object ''enabled'') (getAttr object ''isRoot'')
                              (getAttr object ''idParentRole'')
                 in (case roleDao_insert P role w1 of
                       (Inl e, w2) \<Rightarrow> (Inl e, (w2, lg1 @ [RoleDaoInsert role]))
                     | (Inr insertedRole, w2) \<Rightarrow>
                         (let associations =
                                map (RolePermissionBitEntity (getAttr insertedRole ''id'')) (uniq ids);
                              made = lg1 @ [RoleDaoInsert role, InsertMany associations]
                          in (case rolePermissionBitDao_insertMany P associations w2 of
                                (Inl e, w3) \<Rightarrow> (Inl e, (w3, made))
                              | (Inr insertedBits, w3) \<Rightarrow>
                                  (case populateData P
                                          (map (\<lambda>v. getAttr v ''idPermissionBit'') insertedBits)
                                          (w3, made) of
                                     (Inl e, st) \<Rightarrow> (Inl e, st)
                                   | (Inr resultData, st) \<Rightarrow>
                                       (Inr (setAttr ''permissionBits'' (JArr (map JObj resultData))
                                               insertedRole), st))))))"
      by (simp add: RoleService_insert_def andThen_apply [of "RoleService_validate P object"]
          andThen_apply [of "populateData _ _"] val ids Let_def
          split: prod.splits sum.splits)
    with ids lg1 show ?thesis by blast
  qed
  show ?thesis
    apply (intro conjI allI impI)
      apply (erule a)
     apply (erule b)
    apply (erule c)
    done
qed

text \<open>
  The role to insert names \<open>a\<close>, \<open>b\<close>, \<open>a\<close>: the insert resolves, the role is stored with
  the id \<open>0\<close>, \<open>insertMany\<close> is given two associations, for \<open>a\<close> and for \<open>b\<close>, and the
  collection of associations holds these two more records afterwards.
\<close>

theorem RoleService_insert_one_association_per_distinct_id_witness:
  "RoleService_insert samplePersistence sampleRoleInput (sampleWorld, []) =
     (Inr [(''name'', JStr ''editor''), (''description'', JUndefined),
           (''enabled'', JUndefined), (''isRoot'', JUndefined),
           (''idParentRole'', JUndefined), (''id'', JNum 0),
           (''permissionBits'',
            JArr [JObj [(''id'', JStr ''a''), (''idAuthContext'', JStr ''c1''),
                        (''authContext'', JObj [(''id'', JStr ''c1''), (''name'', JStr ''users'')])],
                  JObj [(''id'', JStr ''b''), (''idAuthContext'', JStr ''c1''),
                        (''authContext'', JObj [(''id'', JStr ''c1''), (''name'', JStr ''users'')])]])],
      (\<lparr>roles = [[(''name'', JStr ''admin''), (''id'', JStr ''r1'')],
                 [(''name'', JStr ''editor''), (''description'', JUndefined),
                  (''enabled'', JUndefined), (''isRoot'', JUndefined),
                  (''idParentRole'', JUndefined), (''id'', JNum 0)]],
        rolePermissionBits =
          [[(''idRole'', JStr ''r1''), (''idPermissionBit'', JStr ''a''), (''id'', JStr ''rpb1'')],
           [(''idRole'', JNum 0), (''idPermissionBit'', JStr ''a''), (''id'', JNum 1)],
           [(''idRole'', JNum 0), (''idPermissionBit'', JStr ''b''), (''id'', JNum 2)]],
        permissionBits = [[(''id'', JStr ''a''), (''idAuthContext'', JStr ''c1'')],
                          [(''id'', JStr ''b''), (''idAuthContext'', JStr ''c1'')]],
        authContexts = [[(''id'', JStr ''c1''), (''name'', JStr ''users'')]],
        nextId = 3\<rparr>,
       [PermissionBitFindAllByIds [JStr ''a'', JStr ''b''],
        RoleDaoInsert [(''name'', JStr ''editor''), (''description'', JUndefined),
                       (''enabled'', JUndefined), (''isRoot'', JUndefined),
                       (''idParentRole'', JUndefined)],
        InsertMany [[(''idRole'', JNum 0), (''idPermissionBit'', JStr ''a'')],
                    [(''idRole'', JNum 0), (''idPermissionBit'', JStr ''b'')]],
        PermissionBitFindAllByIds [JStr ''a'', JStr ''b''],
        AuthContextFindAllByIds [JStr ''c1'']]))
   \<and> (\<exists>associations.
         insertedAssociations (snd (snd (RoleService_insert samplePersistence sampleRoleInput (sampleWorld, []))))
           = [associations]
       \<and> map (\<lambda>a. getAttr a ''idPermissionBit'') associations = [JStr ''a'', JStr ''b'']
       \<and> length associations = 2)"
proof -
  let ?run = "RoleService_insert samplePersistence sampleRoleInput (sampleWorld, [])"
  have val: "RoleService_validate samplePersistence sampleRoleInput (sampleWorld, []) =
               (Inr (), (sampleWorld, [PermissionBitFindAllByIds [JStr ''a'', JStr ''b'']]))"
    by (simp add: RoleService_validate_def validatePermissionBitsIds_def samplePersistence_def
        sampleWorld_def sampleRoleInput_def Let_def getAttr_def RoleEntity_def uniq_def
        arrayItems_def isArray_def isString_def propOf_def)
  have ids: "mapProp ''id'' (arrayItems (getAttr sampleRoleInput ''permissionBits''))
               = Inr [JStr ''a'', JStr ''b'', JStr ''a'']"
    by (simp add: sampleRoleInput_def getAttr_def arrayItems_def propOf_def)
  have u: "uniq [JStr ''a'', JStr ''b'', JStr ''a''] = [JStr ''a'', JStr ''b'']"
    by (simp add: uniq_def)
  have c: "card (set [JStr ''a'', JStr ''b'', JStr ''a'']) = 2"
    by (simp add: card_insert_if)
  note t = RoleService_insert_one_association_per_distinct_id
             [of samplePersistence sampleRoleInput sampleWorld "[]"]
  from t [THEN conjunct2, THEN conjunct2, rule_format, OF val]
  obtain ids' where i': "mapProp ''id'' (arrayItems (getAttr sampleRoleInput ''permissionBits'')) = Inr ids'"
    and eq: "?run =
       (let role = RoleEntity (getAttr sampleRoleInput ''name'') (getAttr sampleRoleInput ''description'')
                     (getAttr sampleRoleInput ''enabled'') (getAttr sampleRoleInput ''isRoot'')
                     (getAttr sampleRoleInput ''idParentRole'')
        in (case roleDao_insert samplePersistence role sampleWorld of
              (Inl e, w2) \<Rightarrow> (Inl e, (w2, [PermissionBitFindAllByIds [JStr ''a'', JStr ''b'']] @ [RoleDaoInsert role]))
            | (Inr insertedRole, w2) \<Rightarrow>
                (let associations =
                       map (RolePermissionBitEntity (getAttr insertedRole ''id'')) (uniq ids');
                     made = [PermissionBitFindAllByIds [JStr ''a'', JStr ''b'']] @ [RoleDaoInsert role, InsertMany associations]
                 in (case rolePermissionBitDao_insertMany samplePersistence associations w2 of
                       (Inl e, w3) \<Rightarrow> (Inl e, (w3, made))
                     | (Inr insertedBits, w3) \<Rightarrow>
                         (case populateData samplePersistence
                                 (map (\<lambda>v. getAttr v ''idPermissionBit'') insertedBits)
                                 (w3, made) of
                            (Inl e, st) \<Rightarrow> (Inl e, st)
                          | (Inr resultData, st) \<Rightarrow>
                              (Inr (setAttr ''permissionBits'' (JArr (map JObj resultData))
                                      insertedRole), st))))))"
    by (elim exE conjE)
  from i' ids have i: "ids' = [JStr ''a'', JStr ''b'', JStr ''a'']" by simp
  have full: "?run =
     (Inr [(''name'', JStr ''editor''), (''description'', JUndefined),
           (''enabled'', JUndefined), (''isRoot'', JUndefined),
           (''idParentRole'', JUndefined), (''id'', JNum 0),
           (''permissionBits'',
            JArr [JObj [(''id'', JStr ''a''), (''idAuthContext'', JStr ''c1''),
                        (''authContext'', JObj [(''id'', JStr ''c1''), (''name'', JStr ''users'')])],
                  JObj [(''id'', JStr ''b''), (''idAuthContext'', JStr ''c1''),
                        (''authContext'', JObj [(''id'', JStr ''c1''), (''name'', JStr ''users'')])]])],
      (\<lparr>roles = [[(''name'', JStr ''admin''), (''id'', JStr ''r1'')],
                 [(''name'', JStr ''editor''), (''description'', JUndefined),
                  (''enabled'', JUndefined), (''isRoot'', JUndefined),
                  (''idParentRole'', JUndefined), (''id'', JNum 0)]],
        rolePermissionBits =
          [[(''idRole'', JStr ''r1''), (''idPermissionBit'', JStr ''a''), (''id'', JStr ''rpb1'')],
           [(''idRole'', JNum 0), (''idPermissionBit'', JStr ''a''), (''id'', JNum 1)],
           [(''idRole'', JNum 0), (''idPermissionBit'', JStr ''b''), (''id'', JNum 2)]],
        permissionBits = [[(''id'', JStr ''a''), (''idAuthContext'', JStr ''c1'')],
                          [(''id'', JStr ''b''), (''idAuthContext'', JStr ''c1'')]],
        authContexts = [[(''id'', JStr ''c1''), (''name'', JStr ''users'')]],
        nextId = 3\<rparr>,
       [PermissionBitFindAllByIds [JStr ''a'', JStr ''b''],
        RoleDaoInsert [(''name'', JStr ''editor''), (''description'', JUndefined),
                       (''enabled'', JUndefined), (''isRoot'', JUndefined),
                       (''idParentRole'', JUndefined)],
        InsertMany [[(''idRole'', JNum 0), (''idPermissionBit'', JStr ''a'')],
                    [(''idRole'', JNum 0), (''idPermissionBit'', JStr ''b'')]],
        PermissionBitFindAllByIds [JStr ''a'', JStr ''b''],
        AuthContextFindAllByIds [JStr ''c1'']]))"
    unfolding eq i u
    by (simp add: populateData_def samplePersistence_def sampleWorld_def sampleRoleInput_def
        Let_def andThen_apply call_def getAttr_def setAttr_def RoleEntity_def
        RolePermissionBitEntity_def uniq_def)
  from t [THEN conjunct1, rule_format, OF full] ids u c
  have once: "\<exists>associations.
         insertedAssociations (snd (snd ?run)) = [associations]
       \<and> map (\<lambda>a. getAttr a ''idPermissionBit'') associations = [JStr ''a'', JStr ''b'']
       \<and> length associations = 2"
    unfolding full by auto
  from full once show ?thesis by (rule conjI)
qed

text \<open>
  Claim C2, as the specification states it, fails: \<open>RoleService.update\<close> does no
  set-difference bookkeeping. Role \<open>r1\<close> has the permission bit \<open>a\<close> before the update
  and the new list is \<open>[a]\<close>, so by the specification's words nothing is to be deleted
  and nothing inserted. The update calls \<open>deleteAllByIdRole(r1)\<close> and then \<open>insertMany\<close>
  with an association for \<open>a\<close>: the stored association \<open>rpb1\<close> is gone and a new record
  for the same pair takes its place.
\<close>

theorem RoleService_update_set_difference_counterexample:
  "setDifferenceUpdate [JStr ''a''] [JStr ''a''] = ([], [])
   \<and> rolePermissionBits sampleWorld =
        [[(''idRole'', JStr ''r1''), (''idPermissionBit'', JStr ''a''), (''id'', JStr ''rpb1'')]]
   \<and> snd (snd (RoleService_update samplePersistence sampleRoleUpdate (sampleWorld, []))) =
        [PermissionBitFindAllByIds [JStr ''a''],
         RoleDaoUpdate [(''name'', JStr ''admin''), (''description'', JUndefined), (''enabled'', JUndefined),
                        (''isRoot'', JUndefined), (''idParentRole'', JUndefined),
                        (''dateCreated'', JUndefined), (''id'', JStr ''r1'')],
         DeleteAllByIdRole (JStr ''r1''),
         InsertMany [[(''idRole'', JStr ''r1''), (''idPermissionBit'', JStr ''a'')]],
         PermissionBitFindAllByIds [JStr ''a''],
         AuthContextFindAllByIds [JStr ''c1'']]
   \<and> rolePermissionBits (fst (snd (RoleService_update samplePersistence sampleRoleUpdate (sampleWorld, [])))) =
        [[(''idRole'', JStr ''r1''), (''idPermissionBit'', JStr ''a''), (''id'', JNum 0)]]"
  by (simp add: sample_simps setDifferenceUpdate_def)

text \<open>
  Claim C2, amended. \<open>RoleService.update\<close> replaces the role's associations as a whole.
  Either it stops before \<open>insertMany\<close> (then it does not resolve, and it has called
  \<open>deleteAllByIdRole\<close> at most once, with the object's id), or its calls are: the
  validation query, \<open>roleDao.update\<close>, \<open>deleteAllByIdRole(object.id)\<close>, then \<open>insertMany\<close>
  with one new association (\<open>updatedRole.id\<close>, id) per distinct id of the new
  \<open>permissionBits\<close>, and after these only queries. Here \<open>updatedRole\<close> is the role
  \<open>roleDao.update\<close> resolved with, for the role entity made of the object's fields, its
  \<open>dateCreated\<close> and its \<open>id\<close>. Which ids were associated before plays no part.

  The run is this one. A rejection of the validation is the rejection of the update.
  After a validation that resolves, the role is given to \<open>roleDao.update\<close>; when that
  resolves, \<open>deleteAllByIdRole(object.id)\<close> runs in the database it left; when that
  resolves, the associations are given to \<open>insertMany\<close> in the database the deletion
  left; when that resolves, the updated role is returned with the permission bits that
  \<open>populateData\<close> found for the inserted associations. A rejection of any of the three
  DAO calls is the rejection of the update, and nothing is called after it.
\<close>

theorem RoleService_update_replaces_associations:
  "(\<forall>r w' calls. RoleService_update P object (w, []) = (r, (w', calls)) \<longrightarrow>
       (insertedAssociations calls = [] \<and> (\<forall>result. r \<noteq> Inr result)
          \<and> (deletedRoles calls = [] \<or> deletedRoles calls = [getAttr object ''id'']))
     \<or> (\<exists>ids updatedRole associations w1 w2 w3 rest.
            mapProp ''id'' (arrayItems (getAttr object ''permissionBits'')) = Inr ids
          \<and> RoleService_validate P object (w, []) = (Inr (), (w1, [PermissionBitFindAllByIds (uniq ids)]))
          \<and> roleDao_update P
              (setAttr ''id'' (getAttr object ''id'')
                (setAttr ''dateCreated'' (getAttr object ''dateCreated'')
                  (RoleEntity (getAttr object ''name'') (getAttr object ''description'')
                     (getAttr object ''enabled'') (getAttr object ''isRoot'')
                     (getAttr object ''idParentRole'')))) w1 = (Inr updatedRole, w2)
          \<and> rolePermissionBitDao_deleteAllByIdRole P (getAttr object ''id'') w2 = (Inr (), w3)
          \<and> calls = [PermissionBitFindAllByIds (uniq ids),
                     RoleDaoUpdate
                       (setAttr ''id'' (getAttr object ''id'')
                (setAttr ''dateCreated'' (getAttr object ''dateCreated'')
                  (RoleEntity (getAttr object ''name'') (getAttr object ''description'')
                     (getAttr object ''enabled'') (getAttr object ''isRoot'')
                     (getAttr object ''idParentRole'')))),
                     DeleteAllByIdRole (getAttr object ''id''), InsertMany associations] @ rest
          \<and> insertedAssociations rest = [] \<and> deletedRoles rest = []
          \<and> associations = map (RolePermissionBitEntity (getAttr updatedRole ''id'')) (uniq ids)
          \<and> map (\<lambda>a. getAttr a ''idPermissionBit'') associations = uniq ids
          \<and> length associations = card (set ids)))
   \<and> (\<forall>e st. RoleService_validate P object (w, lg) = (Inl e, st) \<longrightarrow>
         RoleService_update P object (w, lg) = (Inl e, st))
   \<and> (\<forall>u w1 lg1. RoleService_validate P object (w, lg) = (Inr u, (w1, lg1)) \<longrightarrow>
         (\<exists>ids. mapProp ''id'' (arrayItems (getAttr object ''permissionBits'')) = Inr ids
            \<and> lg1 = lg @ [PermissionBitFindAllByIds (uniq ids)]
            \<and> RoleService_update P object (w, lg) =
                (let role = setAttr ''id'' (getAttr object ''id'')
                              (setAttr ''dateCreated'' (getAttr object ''dateCreated'')
                                (RoleEntity (getAttr object ''name'') (getAttr object ''description'')
                                   (getAttr object ''enabled'') (getAttr object ''isRoot'')
                                   (getAttr object ''idParentRole'')))
                 in (case roleDao_update P role w1 of
                       (Inl e, w2) \<Rightarrow> (Inl e, (w2, lg1 @ [RoleDaoUpdate role]))
                     | (Inr updatedRole, w2) \<Rightarrow>
                         (case rolePermissionBitDao_deleteAllByIdRole P (getAttr object ''id'') w2 of
                            (Inl e, w3) \<Rightarrow>
                              (Inl e, (w3, lg1 @ [RoleDaoUpdate role,
                                                  DeleteAllByIdRole (getAttr object ''id'')]))
                          | (Inr deleted, w3) \<Rightarrow>
                              (let associations =
                                     map (RolePermissionBitEntity (getAttr updatedRole ''id'')) (uniq ids);
                                   made = lg1 @ [RoleDaoUpdate role,
                                                 DeleteAllByIdRole (getAttr object ''id''),
                                                 InsertMany associations]
                               in (case rolePermissionBitDao_insertMany P associations w3 of
                                     (Inl e, w4) \<Rightarrow> (Inl e, (w4, made))
                                   | (Inr insertedBits, w4) \<Rightarrow>
                                       (case populateData P
                                               (map (\<lambda>v. getAttr v ''idPermissionBit'') insertedBits)
                                               (w4, made) of
                                          (Inl e, st) \<Rightarrow> (Inl e, st)
                                        | (Inr resultRecords, st) \<Rightarrow>
                                            (Inr (setAttr ''permissionBits''
                                                    (JArr (map JObj resultRecords)) updatedRole),
                                             st)))))))))"
proof -
  have a: "(insertedAssociations calls = [] \<and> (\<forall>result. r \<noteq> Inr result)
          \<and> (deletedRoles calls = [] \<or> deletedRoles calls = [getAttr object ''id'']))
     \<or> (\<exists>ids updatedRole associations w1 w2 w3 rest.
            mapProp ''id'' (arrayItems (getAttr object ''permissionBits'')) = Inr ids
          \<and> RoleService_validate P object (w, []) = (Inr (), (w1, [PermissionBitFindAllByIds (uniq ids)]))
          \<and> roleDao_update P
              (setAttr ''id'' (getAttr object ''id'')
                (setAttr ''dateCreated'' (getAttr object ''dateCreated'')
                  (RoleEntity (getAttr object ''name'') (getAttr object ''description'')
                     (getAttr object ''enabled'') (getAttr object ''isRoot'')
                     (getAttr object ''idParentRole'')))) w1 = (Inr updatedRole, w2)
          \<and> rolePermissionBitDao_deleteAllByIdRole P (getAttr object ''id'') w2 = (Inr (), w3)
          \<and> calls = [PermissionBitFindAllByIds (uniq ids),
                     RoleDaoUpdate
                       (setAttr ''id'' (getAttr object ''id'')
                (setAttr ''dateCreated'' (getAttr object ''dateCreated'')
                  (RoleEntity (getAttr object ''name'') (getAttr object ''description'')
                     (getAttr object ''enabled'') (getAttr object ''isRoot'')
                     (getAttr object ''idParentRole'')))),
                     DeleteAllByIdRole (getAttr object ''id''), InsertMany associations] @ rest
          \<and> insertedAssociations rest = [] \<and> deletedRoles rest = []
          \<and> associations = map (RolePermissionBitEntity (getAttr updatedRole ''id'')) (uniq ids)
          \<and> map (\<lambda>a. getAttr a ''idPermissionBit'') associations = uniq ids
          \<and> length associations = card (set ids))"
    if run: "RoleService_update P object (w, []) = (r, (w', calls))" for r w' calls
  proof -
    obtain v w1 lg1 where val: "RoleService_validate P object (w, []) = (v, (w1, lg1))"
      by (metis prod.exhaust)
    from validate_log [OF val]
    have lg1: "insertedAssociations lg1 = []" "deletedRoles lg1 = []" by simp_all
    show ?thesis
    proof (cases v)
      case (Inl e)
      with run val lg1 show ?thesis
        by (auto simp: RoleService_update_def andThen_apply)
    next
      case (Inr u)
      from validate_resolved_calls [of P object w "[]" u w1 lg1] val Inr
      obtain ids where ids: "mapProp ''id'' (arrayItems (getAttr object ''permissionBits'')) = Inr ids"
        and lg1': "lg1 = [PermissionBitFindAllByIds (uniq ids)]"
        by auto
      show ?thesis
        using run val Inr ids lg1'
        by (auto simp: RoleService_update_def andThen_apply [of "RoleService_validate P object"]
            andThen_apply [of "populateData _ _"] Let_def length_uniq
            split: prod.splits sum.splits dest!: populateData_calls)
    qed
  qed
  have b: "RoleService_update P object (w, lg) = (Inl e, st)"
    if "RoleService_validate P object (w, lg) = (Inl e, st)" for e st
    using that by (simp add: RoleService_update_def andThen_apply)
  have c: "\<exists>ids. mapProp ''id'' (arrayItems (getAttr object ''permissionBits'')) = Inr ids
            \<and> lg1 = lg @ [PermissionBitFindAllByIds (uniq ids)]
            \<and> RoleService_update P object (w, lg) =
                (let role = setAttr ''id'' (getAttr object ''id'')
                              (setAttr ''dateCreated'' (getAttr object ''dateCreated'')
                                (RoleEntity (getAttr object ''name'') (getAttr object ''description'')
                                   (getAttr object ''enabled'') (getAttr object ''isRoot'')
                                   (getAttr object ''idParentRole'')))
                 in (case roleDao_update P role w1 of
                       (Inl e, w2) \<Rightarrow> (Inl e, (w2, lg1 @ [RoleDaoUpdate role]))
                     | (Inr updatedRole, w2) \<Rightarrow>
                         (case rolePermissionBitDao_deleteAllByIdRole P (getAttr object ''id'') w2 of
                            (Inl e, w3) \<Rightarrow>
                              (Inl e, (w3, lg1 @ [RoleDaoUpdate role,
                                                  DeleteAllByIdRole (getAttr object ''id'')]))
                          | (Inr deleted, w3) \<Rightarrow>
                              (let associations =
                                     map (RolePermissionBitEntity (getAttr updatedRole ''id'')) (uniq ids);
                                   made = lg1 @ [RoleDaoUpdate role,
                                                 DeleteAllByIdRole (getAttr object ''id''),
                                                 InsertMany associations]
                               in (case rolePermissionBitDao_insertMany P associations w3 of
                                     (Inl e, w4) \<Rightarrow> (Inl e, (w4, made))
                                   | (Inr insertedBits, w4) \<Rightarrow>
                                       (case populateData P
                                               (map (\<lambda>v. getAttr v ''idPermissionBit'') insertedBits)
                                               (w4, made) of
                                          (Inl e, st) \<Rightarrow> (Inl e, st)
                                        | (Inr resultRecords, st) \<Rightarrow>
                                            (Inr (setAttr ''permissionBits''
                                                    (JArr (map JObj resultRecords)) updatedRole),
                                             st)))))))"
    if val: "RoleService_validate P object (w, lg) = (Inr u, (w1, lg1))" for u w1 lg1
  proof -
    from validate_resolved_calls [OF val]
    obtain ids where ids: "mapProp ''id'' (arrayItems (getAttr object ''permissionBits'')) = Inr ids"
      and lg1: "lg1 = lg @ [PermissionBitFindAllByIds (uniq ids)]"
      by auto
    have "RoleService_update P object (w, lg) =
                (let role = setAttr ''id'' (getAttr object ''id'')
                              (setAttr ''dateCreated'' (getAttr object ''dateCreated'')
                                (RoleEntity (getAttr object ''name'') (getAttr object ''description'')
                                   (getAttr object ''enabled'') (getAttr object ''isRoot'')
                                   (getAttr object ''idParentRole'')))
                 in (case roleDao_update P role w1 of
                       (Inl e, w2) \<Rightarrow> (Inl e, (w2, lg1 @ [RoleDaoUpdate role]))
                     | (Inr updatedRole, w2) \<Rightarrow>
                         (case rolePermissionBitDao_deleteAllByIdRole P (getAttr object ''id'') w2 of
                            (Inl e, w3) \<Rightarrow>
                              (Inl e, (w3, lg1 @ [RoleDaoUpdate role,
                                                  DeleteAllByIdRole (getAttr object ''id'')]))
                          | (Inr deleted, w3) \<Rightarrow>
                              (let associations =
                                     map (RolePermissionBitEntity (getAttr updatedRole ''id'')) (uniq ids);
                                   made = lg1 @ [RoleDaoUpdate role,
                                                 DeleteAllByIdRole (getAttr object ''id''),
                                                 InsertMany associations]
                               in (case rolePermissionBitDao_insertMany P associations w3 of
                                     (Inl e, w4) \<Rightarrow> (Inl e, (w4, made))
                                   | (Inr insertedBits, w4) \<Rightarrow>
                                       (case populateData P
                                               (map (\<lambda>v. getAttr v ''idPermissionBit'') insertedBits)
                                               (w4, made) of
                                          (Inl e, st) \<Rightarrow> (Inl e, st)
                                        | (Inr resultRecords, st) \<Rightarrow>
                                            (Inr (setAttr ''permissionBits''
                                                    (JArr (map JObj resultRecords)) updatedRole),
                                             st)))))))"
      by (simp add: RoleService_update_def andThen_apply [of "RoleService_validate P object"]
          andThen_apply [of "populateData _ _"] val ids Let_def
          split: prod.splits sum.splits)
    with ids lg1 show ?thesis by blast
  qed
  show ?thesis
    apply (intro conjI allI impI)
      apply (erule a)
     apply (erule b)
    apply (erule c)
    done
qed

text \<open>
  The update of \<open>r1\<close> that keeps \<open>a\<close> resolves: the role is updated, the associations of
  \<open>r1\<close> are deleted, \<open>insertMany\<close> is given one association for \<open>a\<close>, and the collection
  of associations holds the new record in place of the old one afterwards.
\<close>

theorem RoleService_update_replaces_associations_witness:
  "RoleService_update samplePersistence sampleRoleUpdate (sampleWorld, []) =
     (Inr [(''name'', JStr ''admin''), (''description'', JUndefined),
           (''enabled'', JUndefined), (''isRoot'', JUndefined),
           (''idParentRole'', JUndefined), (''dateCreated'', JUndefined),
           (''id'', JStr ''r1''),
           (''permissionBits'',
            JArr [JObj [(''id'', JStr ''a''), (''idAuthContext'', JStr ''c1''),
                        (''authContext'', JObj [(''id'', JStr ''c1''), (''name'', JStr ''users'')])]])],
      (\<lparr>roles = [[(''name'', JStr ''admin''), (''description'', JUndefined),
                  (''enabled'', JUndefined), (''isRoot'', JUndefined),
                  (''idParentRole'', JUndefined), (''dateCreated'', JUndefined),
                  (''id'', JStr ''r1'')]],
        rolePermissionBits =
          [[(''idRole'', JStr ''r1''), (''idPermissionBit'', JStr ''a''), (''id'', JNum 0)]],
        permissionBits = [[(''id'', JStr ''a''), (''idAuthContext'', JStr ''c1'')],
                          [(''id'', JStr ''b''), (''idAuthContext'', JStr ''c1'')]],
        authContexts = [[(''id'', JStr ''c1''), (''name'', JStr ''users'')]],
        nextId = 1\<rparr>,
       [PermissionBitFindAllByIds [JStr ''a''],
        RoleDaoUpdate [(''name'', JStr ''admin''), (''description'', JUndefined),
                       (''enabled'', JUndefined), (''isRoot'', JUndefined),
                       (''idParentRole'', JUndefined), (''dateCreated'', JUndefined),
                       (''id'', JStr ''r1'')],
        DeleteAllByIdRole (JStr ''r1''),
        InsertMany [[(''idRole'', JStr ''r1''), (''idPermissionBit'', JStr ''a'')]],
        PermissionBitFindAllByIds [JStr ''a''],
        AuthContextFindAllByIds [JStr ''c1'']]))
   \<and> deletedRoles (snd (snd (RoleService_update samplePersistence sampleRoleUpdate (sampleWorld, []))))
        = [JStr ''r1'']
   \<and> (\<exists>associations.
         insertedAssociations (snd (snd (RoleService_update samplePersistence sampleRoleUpdate (sampleWorld, []))))
           = [associations]
       \<and> map (\<lambda>a. getAttr a ''idPermissionBit'') associations = [JStr ''a''])"
proof -
  let ?run = "RoleService_update samplePersistence sampleRoleUpdate (sampleWorld, [])"
  have val: "RoleService_validate samplePersistence sampleRoleUpdate (sampleWorld, []) =
               (Inr (), (sampleWorld, [PermissionBitFindAllByIds [JStr ''a'']]))"
    by (simp add: RoleService_validate_def validatePermissionBitsIds_def samplePersistence_def
        sampleWorld_def sampleRoleUpdate_def Let_def getAttr_def RoleEntity_def uniq_def
        arrayItems_def isArray_def isString_def propOf_def)
  have ids: "mapProp ''id'' (arrayItems (getAttr sampleRoleUpdate ''permissionBits'')) = Inr [JStr ''a'']"
    by (simp add: sampleRoleUpdate_def getAttr_def arrayItems_def propOf_def)
  have u: "uniq [JStr ''a''] = [JStr ''a'']"
    by (simp add: uniq_def)
  have i: "getAttr sampleRoleUpdate ''id'' = JStr ''r1''"
    by (simp add: sampleRoleUpdate_def getAttr_def)
  note t = RoleService_update_replaces_associations
             [of samplePersistence sampleRoleUpdate sampleWorld "[]"]
  from t [THEN conjunct2, THEN conjunct2, rule_format, OF val]
  obtain ids' where i': "mapProp ''id'' (arrayItems (getAttr sampleRoleUpdate ''permissionBits'')) = Inr ids'"
    and eq: "?run =
                (let role = setAttr ''id'' (getAttr sampleRoleUpdate ''id'')
                              (setAttr ''dateCreated'' (getAttr sampleRoleUpdate ''dateCreated'')
                                (RoleEntity (getAttr sampleRoleUpdate ''name'') (getAttr sampleRoleUpdate ''description'')
                                   (getAttr sampleRoleUpdate ''enabled'') (getAttr sampleRoleUpdate ''isRoot'')
                                   (getAttr sampleRoleUpdate ''idParentRole'')))
                 in (case roleDao_update samplePersistence role sampleWorld of
                       (Inl e, w2) \<Rightarrow> (Inl e, (w2, [PermissionBitFindAllByIds [JStr ''a'']] @ [RoleDaoUpdate role]))
                     | (Inr updatedRole, w2) \<Rightarrow>
                         (case rolePermissionBitDao_deleteAllByIdRole samplePersistence (getAttr sampleRoleUpdate ''id'') w2 of
                            (Inl e, w3) \<Rightarrow>
                              (Inl e, (w3, [PermissionBitFindAllByIds [JStr ''a'']] @ [RoleDaoUpdate role,
                                                  DeleteAllByIdRole (getAttr sampleRoleUpdate ''id'')]))
                          | (Inr deleted, w3) \<Rightarrow>
                              (let associations =
                                     map (RolePermissionBitEntity (getAttr updatedRole ''id'')) (uniq ids');
                                   made = [PermissionBitFindAllByIds [JStr ''a'']] @ [RoleDaoUpdate role,
                                                 DeleteAllByIdRole (getAttr sampleRoleUpdate ''id''),
                                                 InsertMany associations]
                               in (case rolePermissionBitDao_insertMany samplePersistence associations w3 of
                                     (Inl e, w4) \<Rightarrow> (Inl e, (w4, made))
                                   | (Inr insertedBits, w4) \<Rightarrow>
                                       (case populateData samplePersistence
                                               (map (\<lambda>v. getAttr v ''idPermissionBit'') insertedBits)
                                               (w4, made) of
                                          (Inl e, st) \<Rightarrow> (Inl e, st)
                                        | (Inr resultRecords, st) \<Rightarrow>
                                            (Inr (setAttr ''permissionBits''
                                                    (JArr (map JObj resultRecords)) updatedRole),
                                             st)))))))"
    by (elim exE conjE)
  from i' ids have j: "ids' = [JStr ''a'']" by simp
  have full: "?run =
     (Inr [(''name'', JStr ''admin''), (''description'', JUndefined),
           (''enabled'', JUndefined), (''isRoot'', JUndefined),
           (''idParentRole'', JUndefined), (''dateCreated'', JUndefined),
           (''id'', JStr ''r1''),
           (''permissionBits'',
            JArr [JObj [(''id'', JStr ''a''), (''idAuthContext'', JStr ''c1''),
                        (''authContext'', JObj [(''id'', JStr ''c1''), (''name'', JStr ''users'')])]])],
      (\<lparr>roles = [[(''name'', JStr ''admin''), (''description'', JUndefined),
                  (''enabled'', JUndefined), (''isRoot'', JUndefined),
                  (''idParentRole'', JUndefined), (''dateCreated'', JUndefined),
                  (''id'', JStr ''r1'')]],
        rolePermissionBits =
          [[(''idRole'', JStr ''r1''), (''idPermissionBit'', JStr ''a''), (''id'', JNum 0)]],
        permissionBits = [[(''id'', JStr ''a''), (''idAuthContext'', JStr ''c1'')],
                          [(''id'', JStr ''b''), (''idAuthContext'', JStr ''c1'')]],
        authContexts = [[(''id'', JStr ''c1''), (''name'', JStr ''users'')]],
        nextId = 1\<rparr>,
       [PermissionBitFindAllByIds [JStr ''a''],
        RoleDaoUpdate [(''name'', JStr ''admin''), (''description'', JUndefined),
                       (''enabled'', JUndefined), (''isRoot'', JUndefined),
                       (''idParentRole'', JUndefined), (''dateCreated'', JUndefined),
                       (''id'', JStr ''r1'')],
        DeleteAllByIdRole (JStr ''r1''),
        InsertMany [[(''idRole'', JStr ''r1''), (''idPermissionBit'', JStr ''a'')]],
        PermissionBitFindAllByIds [JStr ''a''],
        AuthContextFindAllByIds [JStr ''c1'']]))"
    unfolding eq j u
    by (simp add: populateData_def samplePersistence_def sampleWorld_def sampleRoleUpdate_def
        Let_def andThen_apply call_def getAttr_def setAttr_def RoleEntity_def
        RolePermissionBitEntity_def uniq_def)
  from t [THEN conjunct1, rule_format, OF full] ids u i
  have once: "deletedRoles (snd (snd ?run)) = [JStr ''r1'']
       \<and> (\<exists>associations.
         insertedAssociations (snd (snd ?run)) = [associations]
       \<and> map (\<lambda>a. getAttr a ''idPermissionBit'') associations = [JStr ''a''])"
    unfolding full by auto
  from full once show ?thesis by (rule conjI)
qed

section \<open>The uniqueness check leaves out the record that is updated\<close>

text \<open>
  Claim C4. Let the engine answer a query with the stored documents that match it.
  Then \<open>validateBeforeUpdate\<close> of the role DAO reports \<open>There is another role with the same
  name\<close> exactly when a stored document with another \<open>_id\<close> than the object's id has the
  object's name, and otherwise hands over to \<open>validateParentRole\<close>; that of the
  authorization-context DAO reports \<open>There is another record with the same name\<close>
  exactly then, and otherwise nothing; that of the account DAO gives the account
  validator exactly the documents with another \<open>_id\<close> and the object's user name. In
  particular, when the only documents with the object's name are the object's own
  record, the uniqueness check reports nothing.
\<close>

theorem validateBeforeUpdate_excludes_own_record:
  assumes engine: "\<And>q. findAllByQuery q s = (Inr (filter (\<lambda>doc. matches doc q) docs), s)"
  shows "RoleDaoMongoDbImpl_validateBeforeUpdate findAllByQuery validateParentRole obj s =
           (if \<exists>doc \<in> set docs. getAttr doc ''_id'' \<noteq> getAttr obj ''id''
                                  \<and> getAttr doc ''name'' = getAttr obj ''name''
            then (Inr [ValidationError ''name'' ''There is another role with the same name''
                         (getAttr obj ''name'')], s)
            else validateParentRole obj s)
       \<and> AuthContextMongoDbImpl_validateBeforeUpdate findAllByQuery obj s =
           (Inr (if \<exists>doc \<in> set docs. getAttr doc ''_id'' \<noteq> getAttr obj ''id''
                                       \<and> getAttr doc ''name'' = getAttr obj ''name''
                 then [ValidationError ''name'' ''There is another record with the same name''
                         (getAttr obj ''name'')]
                 else []), s)
       \<and> AccountDaoMongodbImpl_validateBeforeUpdate findAllByQuery validateResult obj s =
           (Inr (validateResult
                   (filter (\<lambda>doc. getAttr doc ''_id'' \<noteq> getAttr obj ''id''
                                  \<and> getAttr doc ''username'' = getAttr obj ''username'') docs)
                   obj), s)
       \<and> ((\<forall>doc \<in> set docs. getAttr doc ''name'' = getAttr obj ''name''
                              \<longrightarrow> getAttr doc ''_id'' = getAttr obj ''id'')
            \<longrightarrow> RoleDaoMongoDbImpl_validateBeforeUpdate findAllByQuery validateParentRole obj s =
                  validateParentRole obj s
              \<and> AuthContextMongoDbImpl_validateBeforeUpdate findAllByQuery obj s = (Inr [], s))"
proof -
  have role: "RoleDaoMongoDbImpl_validateBeforeUpdate findAllByQuery validateParentRole obj s =
           (if \<exists>doc \<in> set docs. getAttr doc ''_id'' \<noteq> getAttr obj ''id''
                                  \<and> getAttr doc ''name'' = getAttr obj ''name''
            then (Inr [ValidationError ''name'' ''There is another role with the same name''
                         (getAttr obj ''name'')], s)
            else validateParentRole obj s)"
    by (auto simp: RoleDaoMongoDbImpl_validateBeforeUpdate_def andThen_apply engine filter_empty_conv)
  have auth: "AuthContextMongoDbImpl_validateBeforeUpdate findAllByQuery obj s =
           (Inr (if \<exists>doc \<in> set docs. getAttr doc ''_id'' \<noteq> getAttr obj ''id''
                                       \<and> getAttr doc ''name'' = getAttr obj ''name''
                 then [ValidationError ''name'' ''There is another record with the same name''
                         (getAttr obj ''name'')]
                 else []), s)"
    by (auto simp: AuthContextMongoDbImpl_validateBeforeUpdate_def andThen_apply engine filter_empty_conv)
  have account: "AccountDaoMongodbImpl_validateBeforeUpdate findAllByQuery validateResult obj s =
           (Inr (validateResult
                   (filter (\<lambda>doc. getAttr doc ''_id'' \<noteq> getAttr obj ''id''
                                  \<and> getAttr doc ''username'' = getAttr obj ''username'') docs)
                   obj), s)"
    by (simp add: AccountDaoMongodbImpl_validateBeforeUpdate_def andThen_apply engine)
  from role auth account show ?thesis by auto
qed

text \<open>
  Record \<open>1\<close> is named \<open>admin\<close> and record \<open>2\<close> \<open>guest\<close>. Updating record \<open>1\<close> under its own
  name reports nothing; renaming it to \<open>guest\<close> reports the duplicate; the account
  validator of an update of record \<open>1\<close> to the user name of record \<open>2\<close> sees record \<open>2\<close>.
\<close>

theorem validateBeforeUpdate_excludes_own_record_witness:
  "AuthContextMongoDbImpl_validateBeforeUpdate sampleFind
      [(''id'', JStr ''1''), (''name'', JStr ''admin'')] sampleDocs = (Inr [], sampleDocs)
   \<and> AuthContextMongoDbImpl_validateBeforeUpdate sampleFind
      [(''id'', JStr ''1''), (''name'', JStr ''guest'')] sampleDocs =
        (Inr [ValidationError ''name'' ''There is another record with the same name'' (JStr ''guest'')],
         sampleDocs)
   \<and> RoleDaoMongoDbImpl_validateBeforeUpdate sampleFind (\<lambda>obj. resolve [])
      [(''id'', JStr ''1''), (''name'', JStr ''admin'')] sampleDocs = (Inr [], sampleDocs)
   \<and> RoleDaoMongoDbImpl_validateBeforeUpdate sampleFind (\<lambda>obj. resolve [])
      [(''id'', JStr ''1''), (''name'', JStr ''guest'')] sampleDocs =
        (Inr [ValidationError ''name'' ''There is another role with the same name'' (JStr ''guest'')],
         sampleDocs)
   \<and> AccountDaoMongodbImpl_validateBeforeUpdate sampleFind (\<lambda>result obj. map (\<lambda>doc. ValidationError ''username'' ''taken'' (getAttr doc ''_id'')) result)
      [(''id'', JStr ''1''), (''username'', JStr ''anon'')] sampleDocs =
        (Inr [ValidationError ''username'' ''taken'' (JStr ''2'')], sampleDocs)"
proof -
  have engine: "\<And>q. sampleFind q sampleDocs = (Inr (filter (\<lambda>doc. matches doc q) sampleDocs), sampleDocs)"
    by (simp add: sampleFind_def)
  note t = validateBeforeUpdate_excludes_own_record [of sampleFind sampleDocs sampleDocs, OF engine]
  from t [of "\<lambda>obj. resolve []" "[(''id'', JStr ''1''), (''name'', JStr ''admin'')]"]
       t [of "\<lambda>obj. resolve []" "[(''id'', JStr ''1''), (''name'', JStr ''guest'')]"]
       t [of _ "[(''id'', JStr ''1''), (''username'', JStr ''anon'')]" "\<lambda>result obj. map (\<lambda>doc. ValidationError ''username'' ''taken'' (getAttr doc ''_id'')) result"]
  show ?thesis
    by (simp add: sampleDocs_def getAttr_def)
qed

section \<open>The abstract insert\<close>




text \<open>
  Claim C1. The calls of an insert are a prefix of the order validate the shape, check
  uniqueness, timestamp and assign the id, convert, persist, rehydrate, in both classes
  (the two classes order the timestamp and the uuid differently). When the id
  precondition holds and \<open>validateEntity\<close> reports errors, the insert rejects with exactly
  these errors after that one call, and the database is as before. When
  \<open>validateEntity\<close> reports nothing and \<open>validateBeforeInsert\<close> resolves with errors, the
  insert rejects with exactly these errors after these two calls, in the database
  \<open>validateBeforeInsert\<close> left: \<open>insertMethod\<close> was not called; a rejection of
  \<open>validateBeforeInsert\<close> itself is passed on in the same way. When both validations
  report nothing, the insert is exactly this run: the object with its timestamp and
  identifier is converted by \<open>convertBeforeSave\<close>, its extra values are put back, and the
  outcome is given to \<open>insertMethod\<close> in the database \<open>validateBeforeInsert\<close> left; a
  rejection of \<open>insertMethod\<close> is passed on, and otherwise the result is the record
  \<open>insertMethod\<close> returned, converted by \<open>convertAfterDbOperation\<close> and with its extra
  values put back, in the database \<open>insertMethod\<close> left. So an insert that resolves has
  made every call of the order, \<open>insertMethod\<close> among them.
\<close>

theorem insert_steps_in_order:
  "prefix (map stepOf (snd (snd (Dao1_insert d now fresh obj (s, []))))) Dao1_insert_steps
   \<and> prefix (map stepOf (snd (snd (Dao2_insert d now fresh obj (s, []))))) Dao2_insert_steps
   \<and> (isNil (getAttr obj ''id'') \<and> validateEntity d obj \<noteq> [] \<longrightarrow>
        Dao1_insert d now fresh obj (s, lg) =
          (Inl (Errors (validateEntity d obj)), (s, lg @ [EvValidateEntity obj])))
   \<and> (autoGenerates d = isNil (getAttr obj ''id'') \<and> validateEntity d obj \<noteq> [] \<longrightarrow>
        Dao2_insert d now fresh obj (s, lg) =
          (Inl (Errors (validateEntity d obj)), (s, lg @ [EvValidateEntity obj])))
   \<and> (isNil (getAttr obj ''id'') \<and> validateEntity d obj = []
        \<and> validateBeforeInsert d obj s = (Inr errs, s1) \<and> errs \<noteq> [] \<longrightarrow>
        Dao1_insert d now fresh obj (s, lg) =
          (Inl (Errors errs), (s1, lg @ [EvValidateEntity obj, EvValidateBeforeInsert obj])))
   \<and> (autoGenerates d = isNil (getAttr obj ''id'') \<and> validateEntity d obj = []
        \<and> validateBeforeInsert d obj s = (Inr errs, s1) \<and> errs \<noteq> [] \<longrightarrow>
        Dao2_insert d now fresh obj (s, lg) =
          (Inl (Errors errs), (s1, lg @ [EvValidateEntity obj, EvValidateBeforeInsert obj])))
   \<and> (\<forall>result s' lg'. Dao1_insert d now fresh obj (s, []) = (Inr result, (s', lg')) \<longrightarrow>
          map stepOf lg' = Dao1_insert_steps
        \<and> (\<exists>saved raw s1. validateBeforeInsert d obj s = (Inr [], s1)
              \<and> insertMethod d saved s1 = (Inr raw, s')
              \<and> lg' ! 6 = EvInsertMethod saved
              \<and> result = Dao1_addExtraValues (convertAfterDbOperation d raw) raw))
   \<and> (\<forall>result s' lg'. Dao2_insert d now fresh obj (s, []) = (Inr result, (s', lg')) \<longrightarrow>
          map stepOf lg' = Dao2_insert_steps
        \<and> (\<exists>saved raw s1. validateBeforeInsert d obj s = (Inr [], s1)
              \<and> insertMethod d saved s1 = (Inr raw, s')
              \<and> lg' ! 6 = EvInsertMethod saved
              \<and> result = Dao2_addExtraValues (convertAfterDbOperation d raw) raw))
   \<and> (isNil (getAttr obj ''id'') \<and> validateEntity d obj = []
        \<and> validateBeforeInsert d obj s = (Inl e, s1) \<longrightarrow>
        Dao1_insert d now fresh obj (s, lg) =
          (Inl e, (s1, lg @ [EvValidateEntity obj, EvValidateBeforeInsert obj])))
   \<and> (autoGenerates d = isNil (getAttr obj ''id'') \<and> validateEntity d obj = []
        \<and> validateBeforeInsert d obj s = (Inl e, s1) \<longrightarrow>
        Dao2_insert d now fresh obj (s, lg) =
          (Inl e, (s1, lg @ [EvValidateEntity obj, EvValidateBeforeInsert obj])))
   \<and> (isNil (getAttr obj ''id'') \<and> validateEntity d obj = []
        \<and> validateBeforeInsert d obj s = (Inr [], s1) \<longrightarrow>
        Dao1_insert d now fresh obj (s, lg) =
          (let prepared = assignUuid d (entityProperties d) fresh
                            (generateTimeStampForInsert (entityProperties d) now obj);
               toSave = Dao1_addExtraValues (convertBeforeSave d prepared) prepared;
               before = lg @ [EvValidateEntity obj, EvValidateBeforeInsert obj,
                              EvGenerateTimeStampForInsert, EvAssignUuid, EvConvertBeforeSave,
                              EvAddExtraValues, EvInsertMethod toSave]
           in (case insertMethod d toSave s1 of
                 (Inl e, s2) \<Rightarrow> (Inl e, (s2, before))
               | (Inr raw, s2) \<Rightarrow>
                   (Inr (Dao1_addExtraValues (convertAfterDbOperation d raw) raw),
                    (s2, before @ [EvConvertAfterDbOperation raw, EvAddExtraValues])))))
   \<and> (autoGenerates d = isNil (getAttr obj ''id'') \<and> validateEntity d obj = []
        \<and> validateBeforeInsert d obj s = (Inr [], s1) \<longrightarrow>
        Dao2_insert d now fresh obj (s, lg) =
          (let prepared = generateTimeStampForInsert (entityProperties d) now
                            (assignUUIDToIdAttribute (entityProperties d) fresh obj);
               toSave = Dao2_addExtraValues (convertBeforeSave d prepared) prepared;
               before = lg @ [EvValidateEntity obj, EvValidateBeforeInsert obj,
                              EvAssignUuid, EvGenerateTimeStampForInsert, EvConvertBeforeSave,
                              EvAddExtraValues, EvInsertMethod toSave]
           in (case insertMethod d toSave s1 of
                 (Inl e, s2) \<Rightarrow> (Inl e, (s2, before))
               | (Inr raw, s2) \<Rightarrow>
                   (Inr (Dao2_addExtraValues (convertAfterDbOperation d raw) raw),
                    (s2, before @ [EvConvertAfterDbOperation raw, EvAddExtraValues])))))"
proof -
  have p1: "prefix (map stepOf (snd (snd (Dao1_insert d now fresh obj (s, []))))) Dao1_insert_steps"
  proof (cases "isNil (getAttr obj ''id'')")
    case True
    show ?thesis
      by (simp add: Dao1_insert_run [OF True] Let_def Dao1_insert_steps_def
          split: prod.splits sum.splits)
  next
    case False
    then show ?thesis by (simp add: Dao1_insert_def)
  qed
  have p2: "prefix (map stepOf (snd (snd (Dao2_insert d now fresh obj (s, []))))) Dao2_insert_steps"
  proof (cases "autoGenerates d = isNil (getAttr obj ''id'')")
    case True
    show ?thesis
      by (simp add: Dao2_insert_run [OF True] Let_def Dao2_insert_steps_def
          split: prod.splits sum.splits)
  next
    case False
    then have "(autoGenerates d \<and> \<not> isNil (getAttr obj ''id''))
               \<or> (\<not> autoGenerates d \<and> isNil (getAttr obj ''id''))"
      by auto
    then show ?thesis
      by (auto simp: Dao2_insert_defined_id Dao2_insert_missing_id)
  qed
  have r1: "Dao1_insert d now fresh obj (s, lg) =
          (Inl (Errors (validateEntity d obj)), (s, lg @ [EvValidateEntity obj]))"
    if "isNil (getAttr obj ''id'')" "validateEntity d obj \<noteq> []"
    using that by (simp add: Dao1_insert_run)
  have r2: "Dao2_insert d now fresh obj (s, lg) =
          (Inl (Errors (validateEntity d obj)), (s, lg @ [EvValidateEntity obj]))"
    if "autoGenerates d = isNil (getAttr obj ''id'')" "validateEntity d obj \<noteq> []"
    using that by (simp add: Dao2_insert_run)
  have u1: "Dao1_insert d now fresh obj (s, lg) =
          (Inl (Errors errs), (s1, lg @ [EvValidateEntity obj, EvValidateBeforeInsert obj]))"
    if "isNil (getAttr obj ''id'')" "validateEntity d obj = []"
       "validateBeforeInsert d obj s = (Inr errs, s1)" "errs \<noteq> []"
    using that by (simp add: Dao1_insert_run)
  have u2: "Dao2_insert d now fresh obj (s, lg) =
          (Inl (Errors errs), (s1, lg @ [EvValidateEntity obj, EvValidateBeforeInsert obj]))"
    if "autoGenerates d = isNil (getAttr obj ''id'')" "validateEntity d obj = []"
       "validateBeforeInsert d obj s = (Inr errs, s1)" "errs \<noteq> []"
    using that by (simp add: Dao2_insert_run)
  have f1: "map stepOf lg' = Dao1_insert_steps
        \<and> (\<exists>saved raw s1. validateBeforeInsert d obj s = (Inr [], s1)
              \<and> insertMethod d saved s1 = (Inr raw, s')
              \<and> lg' ! 6 = EvInsertMethod saved
              \<and> result = Dao1_addExtraValues (convertAfterDbOperation d raw) raw)"
    if run: "Dao1_insert d now fresh obj (s, []) = (Inr result, (s', lg'))" for result s' lg'
  proof (cases "isNil (getAttr obj ''id'')")
    case True
    from run show ?thesis
      by (auto simp: Dao1_insert_run [OF True] Let_def Dao1_insert_steps_def
          split: prod.splits sum.splits if_splits)
  next
    case False
    with run show ?thesis by (simp add: Dao1_insert_def)
  qed
  have f2: "map stepOf lg' = Dao2_insert_steps
        \<and> (\<exists>saved raw s1. validateBeforeInsert d obj s = (Inr [], s1)
              \<and> insertMethod d saved s1 = (Inr raw, s')
              \<and> lg' ! 6 = EvInsertMethod saved
              \<and> result = Dao2_addExtraValues (convertAfterDbOperation d raw) raw)"
    if run: "Dao2_insert d now fresh obj (s, []) = (Inr result, (s', lg'))" for result s' lg'
  proof (cases "autoGenerates d = isNil (getAttr obj ''id'')")
    case True
    from run show ?thesis
      by (auto simp: Dao2_insert_run [OF True] Let_def Dao2_insert_steps_def
          split: prod.splits sum.splits if_splits)
  next
    case False
    then have "(autoGenerates d \<and> \<not> isNil (getAttr obj ''id''))
               \<or> (\<not> autoGenerates d \<and> isNil (getAttr obj ''id''))"
      by auto
    with run show ?thesis
      by (auto simp: Dao2_insert_defined_id Dao2_insert_missing_id)
  qed
  have v1: "Dao1_insert d now fresh obj (s, lg) =
          (Inl e, (s1, lg @ [EvValidateEntity obj, EvValidateBeforeInsert obj]))"
    if "isNil (getAttr obj ''id'')" "validateEntity d obj = []"
       "validateBeforeInsert d obj s = (Inl e, s1)"
    using that by (simp add: Dao1_insert_run)
  have v2: "Dao2_insert d now fresh obj (s, lg) =
          (Inl e, (s1, lg @ [EvValidateEntity obj, EvValidateBeforeInsert obj]))"
    if "autoGenerates d = isNil (getAttr obj ''id'')" "validateEntity d obj = []"
       "validateBeforeInsert d obj s = (Inl e, s1)"
    using that by (simp add: Dao2_insert_run)
  have g1: "Dao1_insert d now fresh obj (s, lg) =
          (let prepared = assignUuid d (entityProperties d) fresh
                            (generateTimeStampForInsert (entityProperties d) now obj);
               toSave = Dao1_addExtraValues (convertBeforeSave d prepared) prepared;
               before = lg @ [EvValidateEntity obj, EvValidateBeforeInsert obj,
                              EvGenerateTimeStampForInsert, EvAssignUuid, EvConvertBeforeSave,
                              EvAddExtraValues, EvInsertMethod toSave]
           in (case insertMethod d toSave s1 of
                 (Inl e, s2) \<Rightarrow> (Inl e, (s2, before))
               | (Inr raw, s2) \<Rightarrow>
                   (Inr (Dao1_addExtraValues (convertAfterDbOperation d raw) raw),
                    (s2, before @ [EvConvertAfterDbOperation raw, EvAddExtraValues]))))"
    if "isNil (getAttr obj ''id'')" "validateEntity d obj = []"
       "validateBeforeInsert d obj s = (Inr [], s1)"
    using that by (simp add: Dao1_insert_run)
  have g2: "Dao2_insert d now fresh obj (s, lg) =
          (let prepared = generateTimeStampForInsert (entityProperties d) now
                            (assignUUIDToIdAttribute (entityProperties d) fresh obj);
               toSave = Dao2_addExtraValues (convertBeforeSave d prepared) prepared;
               before = lg @ [EvValidateEntity obj, EvValidateBeforeInsert obj,
                              EvAssignUuid, EvGenerateTimeStampForInsert, EvConvertBeforeSave,
                              EvAddExtraValues, EvInsertMethod toSave]
           in (case insertMethod d toSave s1 of
                 (Inl e, s2) \<Rightarrow> (Inl e, (s2, before))
               | (Inr raw, s2) \<Rightarrow>
                   (Inr (Dao2_addExtraValues (convertAfterDbOperation d raw) raw),
                    (s2, before @ [EvConvertAfterDbOperation raw, EvAddExtraValues]))))"
    if "autoGenerates d = isNil (getAttr obj ''id'')" "validateEntity d obj = []"
       "validateBeforeInsert d obj s = (Inr [], s1)"
    using that by (simp add: Dao2_insert_run)
  show ?thesis
    apply (intro conjI impI allI)
                 apply (rule p1)
                apply (rule p2)
               apply (erule conjE, erule (1) r1)
              apply (erule conjE, erule (1) r2)
             apply (elim conjE, erule (3) u1)
            apply (elim conjE, erule (3) u2)
           apply (erule f1 [THEN conjunct1])
          apply (erule f1 [THEN conjunct2])
         apply (erule f2 [THEN conjunct1])
        apply (erule f2 [THEN conjunct2])
       apply (elim conjE, erule (2) v1)
      apply (elim conjE, erule (2) v2)
     apply (elim conjE, erule (2) g1)
    apply (elim conjE, erule (2) g2)
    done
qed

text \<open>
  A name that is not a string is rejected after \<open>validateEntity\<close>; a name that is stored
  already is rejected after \<open>validateBeforeInsert\<close>; a new name goes through every step:
  the record with its timestamp and identifier is given to \<open>insertMethod\<close>, the in-memory
  collection holds it afterwards, and the caller gets it back rehydrated.
\<close>

theorem insert_steps_in_order_witness:
  "Dao1_insert (sampleDao (Some generatingProps)) 5 ''u1'' [(''name'', JNum 3)] ([], []) =
      (Inl (Errors [ValidationError ''name'' ''Name is empty'' (JNum 3)]),
       ([], [EvValidateEntity [(''name'', JNum 3)]]))
   \<and> Dao2_insert (sampleDao (Some generatingProps)) 5 ''u1'' [(''name'', JNum 3)] ([], []) =
      (Inl (Errors [ValidationError ''name'' ''Name is empty'' (JNum 3)]),
       ([], [EvValidateEntity [(''name'', JNum 3)]]))
   \<and> Dao1_insert (sampleDao (Some generatingProps)) 5 ''u1'' [(''name'', JStr ''n'')]
        ([[(''name'', JStr ''n'')]], []) =
      (Inl (Errors [ValidationError ''name'' ''There is another record with the same name'' (JStr ''n'')]),
       ([[(''name'', JStr ''n'')]],
        [EvValidateEntity [(''name'', JStr ''n'')], EvValidateBeforeInsert [(''name'', JStr ''n'')]]))
   \<and> Dao2_insert (sampleDao (Some generatingProps)) 5 ''u1'' [(''name'', JStr ''n'')]
        ([[(''name'', JStr ''n'')]], []) =
      (Inl (Errors [ValidationError ''name'' ''There is another record with the same name'' (JStr ''n'')]),
       ([[(''name'', JStr ''n'')]],
        [EvValidateEntity [(''name'', JStr ''n'')], EvValidateBeforeInsert [(''name'', JStr ''n'')]]))
   \<and> map stepOf (snd (snd (Dao1_insert (sampleDao (Some generatingProps)) 5 ''u1''
                              [(''name'', JStr ''n'')] ([], [])))) = Dao1_insert_steps
   \<and> map stepOf (snd (snd (Dao2_insert (sampleDao (Some generatingProps)) 5 ''u1''
                              [(''name'', JStr ''n'')] ([], [])))) = Dao2_insert_steps
   \<and> Dao1_insert (sampleDao (Some generatingProps)) 5 ''u1'' [(''name'', JStr ''n'')] ([], []) =
     (Inr [(''name'', JStr ''n''), (''uuid'', JStr ''u1''), (''dateCreated'', JDate 5)],
      ([[(''name'', JStr ''n''), (''dateCreated'', JDate 5), (''uuid'', JStr ''u1'')]],
       [EvValidateEntity [(''name'', JStr ''n'')], EvValidateBeforeInsert [(''name'', JStr ''n'')],
        EvGenerateTimeStampForInsert, EvAssignUuid, EvConvertBeforeSave, EvAddExtraValues,
        EvInsertMethod [(''name'', JStr ''n''), (''dateCreated'', JDate 5), (''uuid'', JStr ''u1'')],
        EvConvertAfterDbOperation [(''name'', JStr ''n''), (''dateCreated'', JDate 5), (''uuid'', JStr ''u1'')],
        EvAddExtraValues]))
   \<and> Dao2_insert (sampleDao (Some generatingProps)) 5 ''u1'' [(''name'', JStr ''n'')] ([], []) =
     (Inr [(''name'', JStr ''n''), (''id'', JStr ''u1''), (''dateCreated'', JDate 5)],
      ([[(''name'', JStr ''n''), (''id'', JStr ''u1''), (''dateCreated'', JDate 5)]],
       [EvValidateEntity [(''name'', JStr ''n'')], EvValidateBeforeInsert [(''name'', JStr ''n'')],
        EvAssignUuid, EvGenerateTimeStampForInsert, EvConvertBeforeSave, EvAddExtraValues,
        EvInsertMethod [(''name'', JStr ''n''), (''id'', JStr ''u1''), (''dateCreated'', JDate 5)],
        EvConvertAfterDbOperation [(''name'', JStr ''n''), (''id'', JStr ''u1''), (''dateCreated'', JDate 5)],
        EvAddExtraValues]))"
proof -
  let ?g = "sampleDao (Some generatingProps)"
  let ?bad = "[(''name'', JNum 3)]"
  let ?ok = "[(''name'', JStr ''n'')]"
  let ?dup = "ValidationError ''name'' ''There is another record with the same name'' (JStr ''n'')"
  have bad: "validateEntity ?g ?bad = [ValidationError ''name'' ''Name is empty'' (JNum 3)]"
    by (simp add: sampleDao_def getAttr_def isString_def)
  have h1: "isNil (getAttr ?bad ''id'') \<and> validateEntity ?g ?bad \<noteq> []"
    by (simp add: bad) (simp add: getAttr_def isNil_def)
  have h2: "autoGenerates ?g = isNil (getAttr ?bad ''id'') \<and> validateEntity ?g ?bad \<noteq> []"
    by (simp add: bad) (simp add: getAttr_def isNil_def autoGenerates_def sampleDao_def generatingProps_def)
  have h3: "isNil (getAttr ?ok ''id'') \<and> validateEntity ?g ?ok = []
            \<and> validateBeforeInsert ?g ?ok [[(''name'', JStr ''n'')]] = (Inr [?dup], [[(''name'', JStr ''n'')]])
            \<and> [?dup] \<noteq> []"
    by (simp add: getAttr_def isNil_def sampleDao_def isString_def sampleFind_def andThen_apply)
  have h4: "autoGenerates ?g = isNil (getAttr ?ok ''id'') \<and> validateEntity ?g ?ok = []
            \<and> validateBeforeInsert ?g ?ok [[(''name'', JStr ''n'')]] = (Inr [?dup], [[(''name'', JStr ''n'')]])
            \<and> [?dup] \<noteq> []"
    by (simp add: getAttr_def isNil_def sampleDao_def isString_def sampleFind_def andThen_apply
        autoGenerates_def generatingProps_def)
  have h5: "isNil (getAttr ?ok ''id'') \<and> validateEntity ?g ?ok = []
            \<and> validateBeforeInsert ?g ?ok [] = (Inr [], [])"
    by (simp add: getAttr_def isNil_def sampleDao_def isString_def sampleFind_def andThen_apply)
  have h6: "autoGenerates ?g = isNil (getAttr ?ok ''id'') \<and> validateEntity ?g ?ok = []
            \<and> validateBeforeInsert ?g ?ok [] = (Inr [], [])"
    by (simp add: getAttr_def isNil_def sampleDao_def isString_def sampleFind_def andThen_apply
        autoGenerates_def generatingProps_def)
  note t = insert_steps_in_order [of ?g 5 "''u1''"]
  note c1 = t [of ?bad "[]" "[]", THEN conjunct2, THEN conjunct2, THEN conjunct1, THEN mp, OF h1]
  note c2 = t [of ?bad "[]" "[]", THEN conjunct2, THEN conjunct2, THEN conjunct2, THEN conjunct1,
               THEN mp, OF h2]
  note c3 = t [of ?ok "[[(''name'', JStr ''n'')]]" "[]" "[?dup]" "[[(''name'', JStr ''n'')]]",
               THEN conjunct2, THEN conjunct2, THEN conjunct2, THEN conjunct2, THEN conjunct1,
               THEN mp, OF h3]
  note c4 = t [of ?ok "[[(''name'', JStr ''n'')]]" "[]" "[?dup]" "[[(''name'', JStr ''n'')]]",
               THEN conjunct2, THEN conjunct2, THEN conjunct2, THEN conjunct2, THEN conjunct2,
               THEN conjunct1, THEN mp, OF h4]
  note tl = t [of ?ok "[]" "[]" _ "[]", THEN conjunct2, THEN conjunct2, THEN conjunct2,
               THEN conjunct2, THEN conjunct2, THEN conjunct2, THEN conjunct2, THEN conjunct2,
               THEN conjunct2, THEN conjunct2]
  note c7 = tl [THEN conjunct1, THEN mp, OF h5]
  note c8 = tl [THEN conjunct2, THEN mp, OF h6]
  have run1: "Dao1_insert ?g 5 ''u1'' ?ok ([], []) =
     (Inr [(''name'', JStr ''n''), (''uuid'', JStr ''u1''), (''dateCreated'', JDate 5)],
      ([[(''name'', JStr ''n''), (''dateCreated'', JDate 5), (''uuid'', JStr ''u1'')]],
       [EvValidateEntity ?ok, EvValidateBeforeInsert ?ok,
        EvGenerateTimeStampForInsert, EvAssignUuid, EvConvertBeforeSave, EvAddExtraValues,
        EvInsertMethod [(''name'', JStr ''n''), (''dateCreated'', JDate 5), (''uuid'', JStr ''u1'')],
        EvConvertAfterDbOperation [(''name'', JStr ''n''), (''dateCreated'', JDate 5), (''uuid'', JStr ''u1'')],
        EvAddExtraValues]))"
    unfolding c7
    by (simp add: Let_def sampleDao_def sampleFind_def generatingProps_def
        Dao1_addExtraValues_def restoreAttr_def generateTimeStampForInsert_def
        UUID_PROPERTY_def DATE_CREATED_PROPERTY_def DATE_UPDATED_PROPERTY_def
        getAttr_def setAttr_def isNil_def isString_def)
  have run2: "Dao2_insert ?g 5 ''u1'' ?ok ([], []) =
     (Inr [(''name'', JStr ''n''), (''id'', JStr ''u1''), (''dateCreated'', JDate 5)],
      ([[(''name'', JStr ''n''), (''id'', JStr ''u1''), (''dateCreated'', JDate 5)]],
       [EvValidateEntity ?ok, EvValidateBeforeInsert ?ok,
        EvAssignUuid, EvGenerateTimeStampForInsert, EvConvertBeforeSave, EvAddExtraValues,
        EvInsertMethod [(''name'', JStr ''n''), (''id'', JStr ''u1''), (''dateCreated'', JDate 5)],
        EvConvertAfterDbOperation [(''name'', JStr ''n''), (''id'', JStr ''u1''), (''dateCreated'', JDate 5)],
        EvAddExtraValues]))"
    unfolding c8
    by (simp add: Let_def sampleDao_def sampleFind_def generatingProps_def
        Dao2_addExtraValues_def restoreAttr_def generateTimeStampForInsert_def
        assignUUIDToIdAttribute_def
        UUID_PROPERTY_def DATE_CREATED_PROPERTY_def DATE_UPDATED_PROPERTY_def
        getAttr_def setAttr_def isNil_def isString_def)
  note c5 = t [of ?ok "[]", THEN conjunct2, THEN conjunct2, THEN conjunct2, THEN conjunct2,
               THEN conjunct2, THEN conjunct2, THEN conjunct1, rule_format, OF run1, THEN conjunct1]
  note c6 = t [of ?ok "[]", THEN conjunct2, THEN conjunct2, THEN conjunct2, THEN conjunct2,
               THEN conjunct2, THEN conjunct2, THEN conjunct2, THEN conjunct1, rule_format,
               OF run2, THEN conjunct1]
  have d1: "Dao1_insert ?g 5 ''u1'' ?bad ([], []) =
      (Inl (Errors [ValidationError ''name'' ''Name is empty'' (JNum 3)]), ([], [EvValidateEntity ?bad]))"
    using c1 by (simp add: bad)
  have d2: "Dao2_insert ?g 5 ''u1'' ?bad ([], []) =
      (Inl (Errors [ValidationError ''name'' ''Name is empty'' (JNum 3)]), ([], [EvValidateEntity ?bad]))"
    using c2 by (simp add: bad)
  have d3: "Dao1_insert ?g 5 ''u1'' ?ok ([[(''name'', JStr ''n'')]], []) =
      (Inl (Errors [?dup]),
       ([[(''name'', JStr ''n'')]], [EvValidateEntity ?ok, EvValidateBeforeInsert ?ok]))"
    using c3 by simp
  have d4: "Dao2_insert ?g 5 ''u1'' ?ok ([[(''name'', JStr ''n'')]], []) =
      (Inl (Errors [?dup]),
       ([[(''name'', JStr ''n'')]], [EvValidateEntity ?ok, EvValidateBeforeInsert ?ok]))"
    using c4 by simp
  have d5: "map stepOf (snd (snd (Dao1_insert ?g 5 ''u1'' ?ok ([], [])))) = Dao1_insert_steps"
    using c5 by (simp only: run1 snd_conv)
  have d6: "map stepOf (snd (snd (Dao2_insert ?g 5 ''u1'' ?ok ([], [])))) = Dao2_insert_steps"
    using c6 by (simp only: run2 snd_conv)
  show ?thesis
    by (intro conjI d1 d2 d3 d4 d5 d6 run1 run2)
qed

text \<open>
  Claim C7, as the specification states it, fails: the two classes are not equivalent.
  With no entity properties, \<open>Dao1\<close> inserts an object without id and \<open>Dao2\<close> rejects it.
  With properties that generate ids, \<open>Dao1\<close> returns the object with a \<open>uuid\<close> attribute
  and no id, \<open>Dao2\<close> returns it with the uuid as its id.
\<close>

theorem insert_classes_differ_counterexample:
  "Dao1_insert (sampleDao None) 5 ''u1'' [(''name'', JStr ''n'')] ([], []) =
     (Inr [(''name'', JStr ''n'')],
      ([[(''name'', JStr ''n'')]],
       [EvValidateEntity [(''name'', JStr ''n'')], EvValidateBeforeInsert [(''name'', JStr ''n'')],
        EvGenerateTimeStampForInsert, EvAssignUuid, EvConvertBeforeSave, EvAddExtraValues,
        EvInsertMethod [(''name'', JStr ''n'')], EvConvertAfterDbOperation [(''name'', JStr ''n'')],
        EvAddExtraValues]))
   \<and> Dao2_insert (sampleDao None) 5 ''u1'' [(''name'', JStr ''n'')] ([], []) =
     (Inl (Message ''Object does not have an id and the dao has the attribute entityProperties.autoGenerated as false or undefined''),
      ([], []))
   \<and> fst (Dao1_insert (sampleDao (Some generatingProps)) 5 ''u1'' [(''name'', JStr ''n'')] ([], [])) =
        Inr [(''name'', JStr ''n''), (''uuid'', JStr ''u1''), (''dateCreated'', JDate 5)]
   \<and> fst (Dao2_insert (sampleDao (Some generatingProps)) 5 ''u1'' [(''name'', JStr ''n'')] ([], [])) =
        Inr [(''name'', JStr ''n''), (''id'', JStr ''u1''), (''dateCreated'', JDate 5)]"
  by (simp add: sampleDao_simps)

text \<open>
  Claim C7, amended. For a DAO that generates ids (\<open>autoGenerated\<close> is \<open>true\<close>) the two
  classes agree on every rejection before the object is prepared: both reject an object
  with an id, both reject with the errors of \<open>validateEntity\<close>, and both reject when
  \<open>validateBeforeInsert\<close> rejects or reports errors, with the same result, the same
  database and the same calls. When the validations pass they differ: \<open>Dao1\<close> calls the
  timestamp generator and then \<open>assignUuid\<close>, \<open>Dao2\<close> assigns the uuid to the id and then
  timestamps.
\<close>

theorem insert_classes_agree_on_rejections:
  assumes gen: "autoGenerates d"
  shows "(\<not> isNil (getAttr obj ''id'') \<longrightarrow>
            Dao1_insert d now fresh obj (s, lg) = Dao2_insert d now fresh obj (s, lg))
       \<and> (isNil (getAttr obj ''id'') \<and> validateEntity d obj \<noteq> [] \<longrightarrow>
            Dao1_insert d now fresh obj (s, lg) = Dao2_insert d now fresh obj (s, lg))
       \<and> (isNil (getAttr obj ''id'') \<and> validateEntity d obj = []
            \<and> fst (validateBeforeInsert d obj s) \<noteq> Inr [] \<longrightarrow>
            Dao1_insert d now fresh obj (s, lg) = Dao2_insert d now fresh obj (s, lg))
       \<and> (isNil (getAttr obj ''id'') \<and> validateEntity d obj = []
            \<and> fst (validateBeforeInsert d obj s) = Inr [] \<longrightarrow>
            take 4 (map stepOf (snd (snd (Dao1_insert d now fresh obj (s, []))))) =
              [''validateEntity'', ''validateBeforeInsert'', ''generateTimeStampForInsert'', ''assignUuid'']
          \<and> take 4 (map stepOf (snd (snd (Dao2_insert d now fresh obj (s, []))))) =
              [''validateEntity'', ''validateBeforeInsert'', ''assignUuid'', ''generateTimeStampForInsert''])"
proof -
  have a: "Dao1_insert d now fresh obj (s, lg) = Dao2_insert d now fresh obj (s, lg)"
    if "\<not> isNil (getAttr obj ''id'')"
    using that gen by (simp add: Dao2_insert_defined_id Dao1_insert_def)
  have rest: ?thesis if nil: "isNil (getAttr obj ''id'')"
  proof -
    from nil gen have acc: "autoGenerates d = isNil (getAttr obj ''id'')" by simp
    show ?thesis
      using nil
      by (auto simp: Dao1_insert_run [OF nil] Dao2_insert_run [OF acc] Let_def
          split: prod.splits sum.splits)
  qed
  show ?thesis
  proof (cases "isNil (getAttr obj ''id'')")
    case True
    then show ?thesis by (rule rest)
  next
    case False
    with a show ?thesis by simp
  qed
qed

text \<open>
  The generating DAO: an object with an id, an object with a bad name and a duplicate
  are rejected alike by the two classes; for a new object the two orders differ.
\<close>

theorem insert_classes_agree_on_rejections_witness:
  "Dao1_insert (sampleDao (Some generatingProps)) 5 ''u1'' [(''id'', JStr ''x''), (''name'', JStr ''n'')] ([], []) =
     Dao2_insert (sampleDao (Some generatingProps)) 5 ''u1'' [(''id'', JStr ''x''), (''name'', JStr ''n'')] ([], [])
   \<and> Dao1_insert (sampleDao (Some generatingProps)) 5 ''u1'' [(''name'', JNum 3)] ([], []) =
     Dao2_insert (sampleDao (Some generatingProps)) 5 ''u1'' [(''name'', JNum 3)] ([], [])
   \<and> Dao1_insert (sampleDao (Some generatingProps)) 5 ''u1'' [(''name'', JStr ''n'')] ([[(''name'', JStr ''n'')]], []) =
     Dao2_insert (sampleDao (Some generatingProps)) 5 ''u1'' [(''name'', JStr ''n'')] ([[(''name'', JStr ''n'')]], [])
   \<and> take 4 (map stepOf (snd (snd (Dao1_insert (sampleDao (Some generatingProps)) 5 ''u1''
                                       [(''name'', JStr ''n'')] ([], []))))) =
        [''validateEntity'', ''validateBeforeInsert'', ''generateTimeStampForInsert'', ''assignUuid'']
   \<and> take 4 (map stepOf (snd (snd (Dao2_insert (sampleDao (Some generatingProps)) 5 ''u1''
                                       [(''name'', JStr ''n'')] ([], []))))) =
        [''validateEntity'', ''validateBeforeInsert'', ''assignUuid'', ''generateTimeStampForInsert'']"
proof -
  let ?g = "sampleDao (Some generatingProps)"
  let ?withId = "[(''id'', JStr ''x''), (''name'', JStr ''n'')]"
  let ?bad = "[(''name'', JNum 3)]"
  let ?ok = "[(''name'', JStr ''n'')]"
  have gen: "autoGenerates ?g"
    by (simp add: autoGenerates_def sampleDao_def generatingProps_def)
  have h1: "\<not> isNil (getAttr ?withId ''id'')"
    by (simp add: getAttr_def isNil_def)
  have h2: "isNil (getAttr ?bad ''id'') \<and> validateEntity ?g ?bad \<noteq> []"
    by (simp add: getAttr_def isNil_def sampleDao_def isString_def)
  have h3: "isNil (getAttr ?ok ''id'') \<and> validateEntity ?g ?ok = []
            \<and> fst (validateBeforeInsert ?g ?ok [[(''name'', JStr ''n'')]]) \<noteq> Inr []"
    by (simp add: getAttr_def isNil_def sampleDao_def isString_def sampleFind_def andThen_apply)
  have h4: "isNil (getAttr ?ok ''id'') \<and> validateEntity ?g ?ok = []
            \<and> fst (validateBeforeInsert ?g ?ok []) = Inr []"
    by (simp add: getAttr_def isNil_def sampleDao_def isString_def sampleFind_def andThen_apply)
  note t = insert_classes_agree_on_rejections [OF gen]
  note c1 = t [of ?withId 5 "''u1''" "[]" "[]", THEN conjunct1, THEN mp, OF h1]
  note c2 = t [of ?bad 5 "''u1''" "[]" "[]", THEN conjunct2, THEN conjunct1, THEN mp, OF h2]
  note c3 = t [of ?ok 5 "''u1''" "[[(''name'', JStr ''n'')]]" "[]", THEN conjunct2, THEN conjunct2,
               THEN conjunct1, THEN mp, OF h3]
  note c4 = t [of ?ok 5 "''u1''" "[]" "[]", THEN conjunct2, THEN conjunct2, THEN conjunct2, THEN mp, OF h4]
  show ?thesis
    by (intro conjI c1 c2 c3 c4 [THEN conjunct1] c4 [THEN conjunct2])
qed

section \<open>Timestamps\<close>

text \<open>
  Claim C6, as the specification states it, fails in its last part: whether the object
  returned carries the timestamp depends on the record \<open>insertMethod\<close> answers with,
  which the abstract class does not fix. The entity properties enable timestamps and
  the insert resolves in both classes; the document that is stored has the creation
  date \<open>5\<close>, and the object returned has no creation date, because the engine's answer
  has none to put back.
\<close>

theorem timestamps_not_returned_counterexample:
  "entityProperties forgetfulDao = Some generatingProps
   \<and> timeStamp generatingProps = Some True
   \<and> Dao2_insert forgetfulDao 5 ''u1'' [(''name'', JStr ''n'')] ([], []) =
       (Inr [(''name'', JStr ''n'')],
        ([[(''name'', JStr ''n''), (''id'', JStr ''u1''), (''dateCreated'', JDate 5)]],
         [EvValidateEntity [(''name'', JStr ''n'')], EvValidateBeforeInsert [(''name'', JStr ''n'')],
          EvAssignUuid, EvGenerateTimeStampForInsert, EvConvertBeforeSave, EvAddExtraValues,
          EvInsertMethod [(''name'', JStr ''n''), (''id'', JStr ''u1''), (''dateCreated'', JDate 5)],
          EvConvertAfterDbOperation [(''name'', JStr ''n'')],
          EvAddExtraValues]))
   \<and> Dao1_insert forgetfulDao 5 ''u1'' [(''name'', JStr ''n'')] ([], []) =
       (Inr [(''name'', JStr ''n'')],
        ([[(''name'', JStr ''n''), (''dateCreated'', JDate 5), (''uuid'', JStr ''u1'')]],
         [EvValidateEntity [(''name'', JStr ''n'')], EvValidateBeforeInsert [(''name'', JStr ''n'')],
          EvGenerateTimeStampForInsert, EvAssignUuid, EvConvertBeforeSave, EvAddExtraValues,
          EvInsertMethod [(''name'', JStr ''n''), (''dateCreated'', JDate 5), (''uuid'', JStr ''u1'')],
          EvConvertAfterDbOperation [(''name'', JStr ''n'')],
          EvAddExtraValues]))
   \<and> getAttr [(''name'', JStr ''n'')] DATE_CREATED_PROPERTY = JUndefined"
  by (simp add: forgetfulDao_def sampleDao_simps)

text \<open>
  Claim C6, amended. Let the entity properties of the DAO enable timestamps. An insert
  that resolves has passed both validations and has called the timestamp generator
  before \<open>insertMethod\<close>: the object \<open>insertMethod\<close> was given, in the database
  \<open>validateBeforeInsert\<close> left, is the stamped object converted by \<open>convertBeforeSave\<close> with
  its extra values put back, and it has the creation date \<open>now\<close> (in \<open>Dao1\<close>, where the
  uuid is assigned after the date, when \<open>assignUuid\<close> keeps the date). The object
  returned is the record \<open>insertMethod\<close> answered with, converted by
  \<open>convertAfterDbOperation\<close> and with its extra values put back: its creation date is the
  one of the engine's record when that record has one, and otherwise the one the
  conversion gave it. Conversely, when both validations pass and \<open>insertMethod\<close> resolves,
  the insert resolves, with this object, in the database \<open>insertMethod\<close> left. The same
  holds for an update, \<open>updateMethod\<close> and \<open>lastUpdate\<close>. The conversions are functions of
  the record they are given and leave it as it is.
\<close>

theorem timestamps_assigned_before_persisting:
  assumes props: "entityProperties d = Some p" and stamps: "timeStamp p = Some True"
  shows "(\<forall>result s' lg. Dao2_insert d now fresh obj (s, []) = (Inr result, (s', lg)) \<longrightarrow>
           (\<exists>saved raw s1.
              saved = Dao2_addExtraValues
                        (convertBeforeSave d (generateTimeStampForInsert (Some p) now (assignUUIDToIdAttribute (Some p) fresh obj)))
                        (generateTimeStampForInsert (Some p) now (assignUUIDToIdAttribute (Some p) fresh obj))
            \<and> autoGenerates d = isNil (getAttr obj ''id'')
            \<and> validateEntity d obj = []
            \<and> validateBeforeInsert d obj s = (Inr [], s1)
            \<and> insertMethod d saved s1 = (Inr raw, s')
            \<and> lg = [EvValidateEntity obj, EvValidateBeforeInsert obj, EvAssignUuid, EvGenerateTimeStampForInsert,
                    EvConvertBeforeSave, EvAddExtraValues, EvInsertMethod saved,
                    EvConvertAfterDbOperation raw, EvAddExtraValues]
            \<and> result = Dao2_addExtraValues (convertAfterDbOperation d raw) raw
            \<and> getAttr saved DATE_CREATED_PROPERTY = JDate now
            \<and> getAttr result DATE_CREATED_PROPERTY =
                  (if isNil (getAttr raw DATE_CREATED_PROPERTY)
                   then getAttr (convertAfterDbOperation d raw) DATE_CREATED_PROPERTY
                   else getAttr raw DATE_CREATED_PROPERTY)))
       \<and> (\<forall>saved raw s1 s2.
            saved = Dao2_addExtraValues
                      (convertBeforeSave d (generateTimeStampForInsert (Some p) now (assignUUIDToIdAttribute (Some p) fresh obj)))
                      (generateTimeStampForInsert (Some p) now (assignUUIDToIdAttribute (Some p) fresh obj))
          \<and> autoGenerates d = isNil (getAttr obj ''id'')
          \<and> validateEntity d obj = []
          \<and> validateBeforeInsert d obj s = (Inr [], s1)
          \<and> insertMethod d saved s1 = (Inr raw, s2) \<longrightarrow>
            Dao2_insert d now fresh obj (s, []) =
              (Inr (Dao2_addExtraValues (convertAfterDbOperation d raw) raw),
               (s2, [EvValidateEntity obj, EvValidateBeforeInsert obj, EvAssignUuid, EvGenerateTimeStampForInsert,
                    EvConvertBeforeSave, EvAddExtraValues, EvInsertMethod saved,
                    EvConvertAfterDbOperation raw, EvAddExtraValues])))
       \<and> (\<forall>result s' lg. Dao2_update d now obj (s, []) = (Inr result, (s', lg)) \<longrightarrow>
           (\<exists>saved raw s1.
              saved = Dao2_addExtraValues
                        (convertBeforeSave d (generateTimeStampForUpdate (Some p) now obj))
                        (generateTimeStampForUpdate (Some p) now obj)
            \<and> \<not> isBlankString d (getAttr obj ''id'')
            \<and> validateEntity d obj = []
            \<and> validateBeforeUpdate d obj s = (Inr [], s1)
            \<and> updateMethod d saved s1 = (Inr raw, s')
            \<and> lg = [EvValidateEntity obj, EvValidateBeforeUpdate obj, EvGenerateTimeStampForUpdate,
                    EvConvertBeforeSave, EvAddExtraValues, EvUpdateMethod saved,
                    EvConvertAfterDbOperation raw, EvAddExtraValues]
            \<and> result = Dao2_addExtraValues (convertAfterDbOperation d raw) raw
            \<and> getAttr saved DATE_UPDATED_PROPERTY = JDate now
            \<and> getAttr result DATE_UPDATED_PROPERTY =
                  (if isNil (getAttr raw DATE_UPDATED_PROPERTY)
                   then getAttr (convertAfterDbOperation d raw) DATE_UPDATED_PROPERTY
                   else getAttr raw DATE_UPDATED_PROPERTY)))
       \<and> (\<forall>saved raw s1 s2.
            saved = Dao2_addExtraValues
                      (convertBeforeSave d (generateTimeStampForUpdate (Some p) now obj))
                      (generateTimeStampForUpdate (Some p) now obj)
          \<and> \<not> isBlankString d (getAttr obj ''id'')
          \<and> validateEntity d obj = []
          \<and> validateBeforeUpdate d obj s = (Inr [], s1)
          \<and> updateMethod d saved s1 = (Inr raw, s2) \<longrightarrow>
            Dao2_update d now obj (s, []) =
              (Inr (Dao2_addExtraValues (convertAfterDbOperation d raw) raw),
               (s2, [EvValidateEntity obj, EvValidateBeforeUpdate obj, EvGenerateTimeStampForUpdate,
                    EvConvertBeforeSave, EvAddExtraValues, EvUpdateMethod saved,
                    EvConvertAfterDbOperation raw, EvAddExtraValues])))
       \<and> (\<forall>result s' lg. Dao1_insert d now fresh obj (s, []) = (Inr result, (s', lg)) \<longrightarrow>
           (\<exists>saved raw s1.
              saved = Dao1_addExtraValues
                        (convertBeforeSave d (assignUuid d (Some p) fresh (generateTimeStampForInsert (Some p) now obj)))
                        (assignUuid d (Some p) fresh (generateTimeStampForInsert (Some p) now obj))
            \<and> isNil (getAttr obj ''id'')
            \<and> validateEntity d obj = []
            \<and> validateBeforeInsert d obj s = (Inr [], s1)
            \<and> insertMethod d saved s1 = (Inr raw, s')
            \<and> lg = [EvValidateEntity obj, EvValidateBeforeInsert obj, EvGenerateTimeStampForInsert, EvAssignUuid,
                    EvConvertBeforeSave, EvAddExtraValues, EvInsertMethod saved,
                    EvConvertAfterDbOperation raw, EvAddExtraValues]
            \<and> result = Dao1_addExtraValues (convertAfterDbOperation d raw) raw
            \<and> (getAttr (assignUuid d (Some p) fresh (generateTimeStampForInsert (Some p) now obj)) DATE_CREATED_PROPERTY =
                 getAttr (generateTimeStampForInsert (Some p) now obj) DATE_CREATED_PROPERTY \<longrightarrow>
               getAttr saved DATE_CREATED_PROPERTY = JDate now)
            \<and> getAttr result DATE_CREATED_PROPERTY =
                  (if isNil (getAttr raw DATE_CREATED_PROPERTY)
                   then getAttr (convertAfterDbOperation d raw) DATE_CREATED_PROPERTY
                   else getAttr raw DATE_CREATED_PROPERTY)))
       \<and> (\<forall>saved raw s1 s2.
            saved = Dao1_addExtraValues
                      (convertBeforeSave d (assignUuid d (Some p) fresh (generateTimeStampForInsert (Some p) now obj)))
                      (assignUuid d (Some p) fresh (generateTimeStampForInsert (Some p) now obj))
          \<and> isNil (getAttr obj ''id'')
          \<and> validateEntity d obj = []
          \<and> validateBeforeInsert d obj s = (Inr [], s1)
          \<and> insertMethod d saved s1 = (Inr raw, s2) \<longrightarrow>
            Dao1_insert d now fresh obj (s, []) =
              (Inr (Dao1_addExtraValues (convertAfterDbOperation d raw) raw),
               (s2, [EvValidateEntity obj, EvValidateBeforeInsert obj, EvGenerateTimeStampForInsert, EvAssignUuid,
                    EvConvertBeforeSave, EvAddExtraValues, EvInsertMethod saved,
                    EvConvertAfterDbOperation raw, EvAddExtraValues])))
       \<and> (\<forall>result s' lg. Dao1_update d now obj (s, []) = (Inr result, (s', lg)) \<longrightarrow>
           (\<exists>saved raw s1.
              saved = Dao1_addExtraValues
                        (convertBeforeSave d (generateTimeStampForUpdate (Some p) now obj))
                        (generateTimeStampForUpdate (Some p) now obj)
            \<and> isValidId d (getAttr obj ''id'')
            \<and> validateEntity d obj = []
            \<and> validateBeforeUpdate d obj s = (Inr [], s1)
            \<and> updateMethod d saved s1 = (Inr raw, s')
            \<and> lg = [EvValidateEntity obj, EvValidateBeforeUpdate obj, EvGenerateTimeStampForUpdate,
                    EvConvertBeforeSave, EvAddExtraValues, EvUpdateMethod saved,
                    EvConvertAfterDbOperation raw, EvAddExtraValues]
            \<and> result = Dao1_addExtraValues (convertAfterDbOperation d raw) raw
            \<and> getAttr saved DATE_UPDATED_PROPERTY = JDate now
            \<and> getAttr result DATE_UPDATED_PROPERTY =
                  (if isNil (getAttr raw DATE_UPDATED_PROPERTY)
                   then getAttr (convertAfterDbOperation d raw) DATE_UPDATED_PROPERTY
                   else getAttr raw DATE_UPDATED_PROPERTY)))
       \<and> (\<forall>saved raw s1 s2.
            saved = Dao1_addExtraValues
                      (convertBeforeSave d (generateTimeStampForUpdate (Some p) now obj))
                      (generateTimeStampForUpdate (Some p) now obj)
          \<and> isValidId d (getAttr obj ''id'')
          \<and> validateEntity d obj = []
          \<and> validateBeforeUpdate d obj s = (Inr [], s1)
          \<and> updateMethod d saved s1 = (Inr raw, s2) \<longrightarrow>
            Dao1_update d now obj (s, []) =
              (Inr (Dao1_addExtraValues (convertAfterDbOperation d raw) raw),
               (s2, [EvValidateEntity obj, EvValidateBeforeUpdate obj, EvGenerateTimeStampForUpdate,
                    EvConvertBeforeSave, EvAddExtraValues, EvUpdateMethod saved,
                    EvConvertAfterDbOperation raw, EvAddExtraValues])))"
proof -
  have dc: "DATE_CREATED_PROPERTY \<in> set Dao2_restored" "DATE_UPDATED_PROPERTY \<in> set Dao2_restored"
    "DATE_CREATED_PROPERTY \<in> set Dao1_restored" "DATE_UPDATED_PROPERTY \<in> set Dao1_restored"
    by (simp_all add: Dao2_restored_def Dao1_restored_def)
  have nn: "\<not> isNil (JDate now)" by (simp add: isNil_def)
  have b0: "\<exists>saved raw s1.
              saved = Dao2_addExtraValues
                        (convertBeforeSave d (generateTimeStampForInsert (Some p) now (assignUUIDToIdAttribute (Some p) fresh obj)))
                        (generateTimeStampForInsert (Some p) now (assignUUIDToIdAttribute (Some p) fresh obj))
            \<and> autoGenerates d = isNil (getAttr obj ''id'')
            \<and> validateEntity d obj = []
            \<and> validateBeforeInsert d obj s = (Inr [], s1)
            \<and> insertMethod d saved s1 = (Inr raw, s')
            \<and> lg = [EvValidateEntity obj, EvValidateBeforeInsert obj, EvAssignUuid, EvGenerateTimeStampForInsert,
                    EvConvertBeforeSave, EvAddExtraValues, EvInsertMethod saved,
                    EvConvertAfterDbOperation raw, EvAddExtraValues]
            \<and> result = Dao2_addExtraValues (convertAfterDbOperation d raw) raw
            \<and> getAttr saved DATE_CREATED_PROPERTY = JDate now
            \<and> getAttr result DATE_CREATED_PROPERTY =
                  (if isNil (getAttr raw DATE_CREATED_PROPERTY)
                   then getAttr (convertAfterDbOperation d raw) DATE_CREATED_PROPERTY
                   else getAttr raw DATE_CREATED_PROPERTY)"
    if run: "Dao2_insert d now fresh obj (s, []) = (Inr result, (s', lg))" for result s' lg
    using run props stamps
    by (auto simp: Dao2_insert_run [OF Dao2_insert_resolved [OF run]] Dao2_insert_resolved [OF run] Let_def
        getAttr_Dao2_addExtraValues getAttr_generateTimeStampForInsert dc nn
        split: prod.splits sum.splits if_splits)
  have f0: "Dao2_insert d now fresh obj (s, []) =
              (Inr (Dao2_addExtraValues (convertAfterDbOperation d raw) raw),
               (s2, [EvValidateEntity obj, EvValidateBeforeInsert obj, EvAssignUuid, EvGenerateTimeStampForInsert,
                    EvConvertBeforeSave, EvAddExtraValues, EvInsertMethod saved,
                    EvConvertAfterDbOperation raw, EvAddExtraValues]))"
    if "saved = Dao2_addExtraValues
                      (convertBeforeSave d (generateTimeStampForInsert (Some p) now (assignUUIDToIdAttribute (Some p) fresh obj)))
                      (generateTimeStampForInsert (Some p) now (assignUUIDToIdAttribute (Some p) fresh obj))" "autoGenerates d = isNil (getAttr obj ''id'')" "validateEntity d obj = []" "validateBeforeInsert d obj s = (Inr [], s1)" "insertMethod d saved s1 = (Inr raw, s2)"
    for saved raw s1 s2
    using that props by (simp add: Dao2_insert_run Let_def)
  have b1: "\<exists>saved raw s1.
              saved = Dao2_addExtraValues
                        (convertBeforeSave d (generateTimeStampForUpdate (Some p) now obj))
                        (generateTimeStampForUpdate (Some p) now obj)
            \<and> \<not> isBlankString d (getAttr obj ''id'')
            \<and> validateEntity d obj = []
            \<and> validateBeforeUpdate d obj s = (Inr [], s1)
            \<and> updateMethod d saved s1 = (Inr raw, s')
            \<and> lg = [EvValidateEntity obj, EvValidateBeforeUpdate obj, EvGenerateTimeStampForUpdate,
                    EvConvertBeforeSave, EvAddExtraValues, EvUpdateMethod saved,
                    EvConvertAfterDbOperation raw, EvAddExtraValues]
            \<and> result = Dao2_addExtraValues (convertAfterDbOperation d raw) raw
            \<and> getAttr saved DATE_UPDATED_PROPERTY = JDate now
            \<and> getAttr result DATE_UPDATED_PROPERTY =
                  (if isNil (getAttr raw DATE_UPDATED_PROPERTY)
                   then getAttr (convertAfterDbOperation d raw) DATE_UPDATED_PROPERTY
                   else getAttr raw DATE_UPDATED_PROPERTY)"
    if run: "Dao2_update d now obj (s, []) = (Inr result, (s', lg))" for result s' lg
    using run props stamps
    by (auto simp: Dao2_update_run [OF Dao2_update_resolved [OF run]] Dao2_update_resolved [OF run] Let_def
        getAttr_Dao2_addExtraValues getAttr_generateTimeStampForUpdate dc nn
        split: prod.splits sum.splits if_splits)
  have f1: "Dao2_update d now obj (s, []) =
              (Inr (Dao2_addExtraValues (convertAfterDbOperation d raw) raw),
               (s2, [EvValidateEntity obj, EvValidateBeforeUpdate obj, EvGenerateTimeStampForUpdate,
                    EvConvertBeforeSave, EvAddExtraValues, EvUpdateMethod saved,
                    EvConvertAfterDbOperation raw, EvAddExtraValues]))"
    if "saved = Dao2_addExtraValues
                      (convertBeforeSave d (generateTimeStampForUpdate (Some p) now obj))
                      (generateTimeStampForUpdate (Some p) now obj)" "\<not> isBlankString d (getAttr obj ''id'')" "validateEntity d obj = []" "validateBeforeUpdate d obj s = (Inr [], s1)" "updateMethod d saved s1 = (Inr raw, s2)"
    for saved raw s1 s2
    using that props by (simp add: Dao2_update_run Let_def)
  have b2: "\<exists>saved raw s1.
              saved = Dao1_addExtraValues
                        (convertBeforeSave d (assignUuid d (Some p) fresh (generateTimeStampForInsert (Some p) now obj)))
                        (assignUuid d (Some p) fresh (generateTimeStampForInsert (Some p) now obj))
            \<and> isNil (getAttr obj ''id'')
            \<and> validateEntity d obj = []
            \<and> validateBeforeInsert d obj s = (Inr [], s1)
            \<and> insertMethod d saved s1 = (Inr raw, s')
            \<and> lg = [EvValidateEntity obj, EvValidateBeforeInsert obj, EvGenerateTimeStampForInsert, EvAssignUuid,
                    EvConvertBeforeSave, EvAddExtraValues, EvInsertMethod saved,
                    EvConvertAfterDbOperation raw, EvAddExtraValues]
            \<and> result = Dao1_addExtraValues (convertAfterDbOperation d raw) raw
            \<and> (getAttr (assignUuid d (Some p) fresh (generateTimeStampForInsert (Some p) now obj)) DATE_CREATED_PROPERTY =
                 getAttr (generateTimeStampForInsert (Some p) now obj) DATE_CREATED_PROPERTY \<longrightarrow>
               getAttr saved DATE_CREATED_PROPERTY = JDate now)
            \<and> getAttr result DATE_CREATED_PROPERTY =
                  (if isNil (getAttr raw DATE_CREATED_PROPERTY)
                   then getAttr (convertAfterDbOperation d raw) DATE_CREATED_PROPERTY
                   else getAttr raw DATE_CREATED_PROPERTY)"
    if run: "Dao1_insert d now fresh obj (s, []) = (Inr result, (s', lg))" for result s' lg
    using run props stamps
    by (auto simp: Dao1_insert_run [OF Dao1_insert_resolved [OF run]] Dao1_insert_resolved [OF run] Let_def
        getAttr_Dao1_addExtraValues getAttr_generateTimeStampForInsert dc nn
        split: prod.splits sum.splits if_splits)
  have f2: "Dao1_insert d now fresh obj (s, []) =
              (Inr (Dao1_addExtraValues (convertAfterDbOperation d raw) raw),
               (s2, [EvValidateEntity obj, EvValidateBeforeInsert obj, EvGenerateTimeStampForInsert, EvAssignUuid,
                    EvConvertBeforeSave, EvAddExtraValues, EvInsertMethod saved,
                    EvConvertAfterDbOperation raw, EvAddExtraValues]))"
    if "saved = Dao1_addExtraValues
                      (convertBeforeSave d (assignUuid d (Some p) fresh (generateTimeStampForInsert (Some p) now obj)))
                      (assignUuid d (Some p) fresh (generateTimeStampForInsert (Some p) now obj))" "isNil (getAttr obj ''id'')" "validateEntity d obj = []" "validateBeforeInsert d obj s = (Inr [], s1)" "insertMethod d saved s1 = (Inr raw, s2)"
    for saved raw s1 s2
    using that props by (simp add: Dao1_insert_run Let_def)
  have b3: "\<exists>saved raw s1.
              saved = Dao1_addExtraValues
                        (convertBeforeSave d (generateTimeStampForUpdate (Some p) now obj))
                        (generateTimeStampForUpdate (Some p) now obj)
            \<and> isValidId d (getAttr obj ''id'')
            \<and> validateEntity d obj = []
            \<and> validateBeforeUpdate d obj s = (Inr [], s1)
            \<and> updateMethod d saved s1 = (Inr raw, s')
            \<and> lg = [EvValidateEntity obj, EvValidateBeforeUpdate obj, EvGenerateTimeStampForUpdate,
                    EvConvertBeforeSave, EvAddExtraValues, EvUpdateMethod saved,
                    EvConvertAfterDbOperation raw, EvAddExtraValues]
            \<and> result = Dao1_addExtraValues (convertAfterDbOperation d raw) raw
            \<and> getAttr saved DATE_UPDATED_PROPERTY = JDate now
            \<and> getAttr result DATE_UPDATED_PROPERTY =
                  (if isNil (getAttr raw DATE_UPDATED_PROPERTY)
                   then getAttr (convertAfterDbOperation d raw) DATE_UPDATED_PROPERTY
                   else getAttr raw DATE_UPDATED_PROPERTY)"
    if run: "Dao1_update d now obj (s, []) = (Inr result, (s', lg))" for result s' lg
    using run props stamps
    by (auto simp: Dao1_update_run [OF Dao1_update_resolved [OF run]] Dao1_update_resolved [OF run] Let_def
        getAttr_Dao1_addExtraValues getAttr_generateTimeStampForUpdate dc nn
        split: prod.splits sum.splits if_splits)
  have f3: "Dao1_update d now obj (s, []) =
              (Inr (Dao1_addExtraValues (convertAfterDbOperation d raw) raw),
               (s2, [EvValidateEntity obj, EvValidateBeforeUpdate obj, EvGenerateTimeStampForUpdate,
                    EvConvertBeforeSave, EvAddExtraValues, EvUpdateMethod saved,
                    EvConvertAfterDbOperation raw, EvAddExtraValues]))"
    if "saved = Dao1_addExtraValues
                      (convertBeforeSave d (generateTimeStampForUpdate (Some p) now obj))
                      (generateTimeStampForUpdate (Some p) now obj)" "isValidId d (getAttr obj ''id'')" "validateEntity d obj = []" "validateBeforeUpdate d obj s = (Inr [], s1)" "updateMethod d saved s1 = (Inr raw, s2)"
    for saved raw s1 s2
    using that props by (simp add: Dao1_update_run Let_def)
  show ?thesis
    apply (intro conjI allI impI)
           apply (erule b0)
          apply (elim conjE, erule (4) f0)
         apply (erule b1)
        apply (elim conjE, erule (4) f1)
       apply (erule b2)
      apply (elim conjE, erule (4) f2)
     apply (erule b3)
    apply (elim conjE, erule (4) f3)
    done
qed

text \<open>
  In the in-memory engine, whose insert and update answer with the document they were
  given and whose conversion keeps the name only, the inserted object comes back with
  \<open>dateCreated\<close> and the updated one with \<open>lastUpdate\<close>, in both classes, and the stored
  document has the date.
\<close>

theorem timestamps_assigned_before_persisting_witness:
  "Dao2_insert (sampleDao (Some generatingProps)) 5 ''u1'' [(''name'', JStr ''n'')] ([], []) =
     (Inr [(''name'', JStr ''n''), (''id'', JStr ''u1''), (''dateCreated'', JDate 5)],
      ([[(''name'', JStr ''n''), (''id'', JStr ''u1''), (''dateCreated'', JDate 5)]],
       [EvValidateEntity [(''name'', JStr ''n'')], EvValidateBeforeInsert [(''name'', JStr ''n'')],
        EvAssignUuid, EvGenerateTimeStampForInsert, EvConvertBeforeSave, EvAddExtraValues,
        EvInsertMethod [(''name'', JStr ''n''), (''id'', JStr ''u1''), (''dateCreated'', JDate 5)],
        EvConvertAfterDbOperation [(''name'', JStr ''n''), (''id'', JStr ''u1''), (''dateCreated'', JDate 5)],
        EvAddExtraValues]))
   \<and> getAttr [(''name'', JStr ''n''), (''id'', JStr ''u1''), (''dateCreated'', JDate 5)]
         DATE_CREATED_PROPERTY = JDate 5
   \<and> Dao2_update (sampleDao (Some generatingProps)) 7 [(''id'', JStr ''x''), (''name'', JStr ''m'')]
        ([[(''id'', JStr ''x''), (''name'', JStr ''n'')]], []) =
     (Inr [(''name'', JStr ''m''), (''id'', JStr ''x''), (''lastUpdate'', JDate 7)],
      ([[(''id'', JStr ''x''), (''name'', JStr ''m''), (''lastUpdate'', JDate 7)]],
       [EvValidateEntity [(''id'', JStr ''x''), (''name'', JStr ''m'')],
        EvValidateBeforeUpdate [(''id'', JStr ''x''), (''name'', JStr ''m'')],
        EvGenerateTimeStampForUpdate, EvConvertBeforeSave, EvAddExtraValues,
        EvUpdateMethod [(''id'', JStr ''x''), (''name'', JStr ''m''), (''lastUpdate'', JDate 7)],
        EvConvertAfterDbOperation [(''id'', JStr ''x''), (''name'', JStr ''m''), (''lastUpdate'', JDate 7)],
        EvAddExtraValues]))
   \<and> getAttr [(''name'', JStr ''m''), (''id'', JStr ''x''), (''lastUpdate'', JDate 7)]
         DATE_UPDATED_PROPERTY = JDate 7
   \<and> Dao1_insert (sampleDao (Some generatingProps)) 5 ''u1'' [(''name'', JStr ''n'')] ([], []) =
     (Inr [(''name'', JStr ''n''), (''uuid'', JStr ''u1''), (''dateCreated'', JDate 5)],
      ([[(''name'', JStr ''n''), (''dateCreated'', JDate 5), (''uuid'', JStr ''u1'')]],
       [EvValidateEntity [(''name'', JStr ''n'')], EvValidateBeforeInsert [(''name'', JStr ''n'')],
        EvGenerateTimeStampForInsert, EvAssignUuid, EvConvertBeforeSave, EvAddExtraValues,
        EvInsertMethod [(''name'', JStr ''n''), (''dateCreated'', JDate 5), (''uuid'', JStr ''u1'')],
        EvConvertAfterDbOperation [(''name'', JStr ''n''), (''dateCreated'', JDate 5), (''uuid'', JStr ''u1'')],
        EvAddExtraValues]))
   \<and> getAttr [(''name'', JStr ''n''), (''uuid'', JStr ''u1''), (''dateCreated'', JDate 5)]
         DATE_CREATED_PROPERTY = JDate 5
   \<and> Dao1_update (sampleDao (Some generatingProps)) 7 [(''id'', JStr ''x''), (''name'', JStr ''m'')]
        ([[(''id'', JStr ''x''), (''name'', JStr ''n'')]], []) =
     (Inr [(''name'', JStr ''m''), (''id'', JStr ''x''), (''lastUpdate'', JDate 7)],
      ([[(''id'', JStr ''x''), (''name'', JStr ''m''), (''lastUpdate'', JDate 7)]],
       [EvValidateEntity [(''id'', JStr ''x''), (''name'', JStr ''m'')],
        EvValidateBeforeUpdate [(''id'', JStr ''x''), (''name'', JStr ''m'')],
        EvGenerateTimeStampForUpdate, EvConvertBeforeSave, EvAddExtraValues,
        EvUpdateMethod [(''id'', JStr ''x''), (''name'', JStr ''m''), (''lastUpdate'', JDate 7)],
        EvConvertAfterDbOperation [(''id'', JStr ''x''), (''name'', JStr ''m''), (''lastUpdate'', JDate 7)],
        EvAddExtraValues]))"
proof -
  let ?g = "sampleDao (Some generatingProps)"
  let ?P = "Some generatingProps"
  let ?ok = "[(''name'', JStr ''n'')]"
  let ?saved = "[(''name'', JStr ''n''), (''id'', JStr ''u1''), (''dateCreated'', JDate 5)]"
  let ?saved1 = "[(''name'', JStr ''n''), (''dateCreated'', JDate 5), (''uuid'', JStr ''u1'')]"
  let ?upd = "[(''id'', JStr ''x''), (''name'', JStr ''m'')]"
  let ?docs = "[[(''id'', JStr ''x''), (''name'', JStr ''n'')]]"
  let ?usaved = "[(''id'', JStr ''x''), (''name'', JStr ''m''), (''lastUpdate'', JDate 7)]"
  have props: "entityProperties ?g = Some generatingProps"
    by (simp add: sampleDao_def)
  have stamps: "timeStamp generatingProps = Some True"
    by (simp add: generatingProps_def)
  note t = timestamps_assigned_before_persisting [OF props stamps]
  note ti = t [where now = 5 and fresh = "''u1''" and obj = ?ok and s = "[]"]
  note tu = t [where now = 7 and obj = ?upd and s = ?docs]
  have h2i: "?saved = Dao2_addExtraValues
                (convertBeforeSave ?g (generateTimeStampForInsert ?P 5 (assignUUIDToIdAttribute ?P ''u1'' ?ok)))
                (generateTimeStampForInsert ?P 5 (assignUUIDToIdAttribute ?P ''u1'' ?ok))
          \<and> autoGenerates ?g = isNil (getAttr ?ok ''id'')
          \<and> validateEntity ?g ?ok = []
          \<and> validateBeforeInsert ?g ?ok [] = (Inr [], [])
          \<and> insertMethod ?g ?saved [] = (Inr ?saved, [?saved])"
    by (simp add: sampleDao_simps)
  have h2u: "?usaved = Dao2_addExtraValues
                (convertBeforeSave ?g (generateTimeStampForUpdate ?P 7 ?upd))
                (generateTimeStampForUpdate ?P 7 ?upd)
          \<and> \<not> isBlankString ?g (getAttr ?upd ''id'')
          \<and> validateEntity ?g ?upd = []
          \<and> validateBeforeUpdate ?g ?upd ?docs = (Inr [], ?docs)
          \<and> updateMethod ?g ?usaved ?docs = (Inr ?usaved, [?usaved])"
    by (simp add: sampleDao_simps matches.simps)
  have h1i: "?saved1 = Dao1_addExtraValues
                (convertBeforeSave ?g (assignUuid ?g ?P ''u1'' (generateTimeStampForInsert ?P 5 ?ok)))
                (assignUuid ?g ?P ''u1'' (generateTimeStampForInsert ?P 5 ?ok))
          \<and> isNil (getAttr ?ok ''id'')
          \<and> validateEntity ?g ?ok = []
          \<and> validateBeforeInsert ?g ?ok [] = (Inr [], [])
          \<and> insertMethod ?g ?saved1 [] = (Inr ?saved1, [?saved1])"
    by (simp add: sampleDao_simps)
  have h1u: "?usaved = Dao1_addExtraValues
                (convertBeforeSave ?g (generateTimeStampForUpdate ?P 7 ?upd))
                (generateTimeStampForUpdate ?P 7 ?upd)
          \<and> isValidId ?g (getAttr ?upd ''id'')
          \<and> validateEntity ?g ?upd = []
          \<and> validateBeforeUpdate ?g ?upd ?docs = (Inr [], ?docs)
          \<and> updateMethod ?g ?usaved ?docs = (Inr ?usaved, [?usaved])"
    by (simp add: sampleDao_simps matches.simps)
  note r2i = ti [THEN conjunct2, THEN conjunct1, rule_format, OF h2i]
  note r2u = tu [THEN conjunct2, THEN conjunct2, THEN conjunct2, THEN conjunct1, rule_format, OF h2u]
  note r1i = ti [THEN conjunct2, THEN conjunct2, THEN conjunct2, THEN conjunct2, THEN conjunct2,
                 THEN conjunct1, rule_format, OF h1i]
  note r1u = tu [THEN conjunct2, THEN conjunct2, THEN conjunct2, THEN conjunct2, THEN conjunct2,
                 THEN conjunct2, THEN conjunct2, rule_format, OF h1u]
  have e2i: "Dao2_addExtraValues (convertAfterDbOperation ?g ?saved) ?saved =
               [(''name'', JStr ''n''), (''id'', JStr ''u1''), (''dateCreated'', JDate 5)]"
    by (simp add: sampleDao_simps)
  have e2u: "Dao2_addExtraValues (convertAfterDbOperation ?g ?usaved) ?usaved =
               [(''name'', JStr ''m''), (''id'', JStr ''x''), (''lastUpdate'', JDate 7)]"
    by (simp add: sampleDao_simps)
  have e1i: "Dao1_addExtraValues (convertAfterDbOperation ?g ?saved1) ?saved1 =
               [(''name'', JStr ''n''), (''uuid'', JStr ''u1''), (''dateCreated'', JDate 5)]"
    by (simp add: sampleDao_simps)
  have e1u: "Dao1_addExtraValues (convertAfterDbOperation ?g ?usaved) ?usaved =
               [(''name'', JStr ''m''), (''id'', JStr ''x''), (''lastUpdate'', JDate 7)]"
    by (simp add: sampleDao_simps)
  note w2i = r2i [unfolded e2i]
  note w2u = r2u [unfolded e2u]
  note w1i = r1i [unfolded e1i]
  note w1u = r1u [unfolded e1u]
  have c2: "getAttr [(''name'', JStr ''n''), (''id'', JStr ''u1''), (''dateCreated'', JDate 5)]
              DATE_CREATED_PROPERTY = JDate 5"
    using ti [THEN conjunct1, rule_format, OF w2i]
    by (clarsimp simp: getAttr_def isNil_def DATE_CREATED_PROPERTY_def)
  have u2: "getAttr [(''name'', JStr ''m''), (''id'', JStr ''x''), (''lastUpdate'', JDate 7)]
              DATE_UPDATED_PROPERTY = JDate 7"
    using tu [THEN conjunct2, THEN conjunct2, THEN conjunct1, rule_format, OF w2u]
    by (clarsimp simp: getAttr_def isNil_def DATE_UPDATED_PROPERTY_def)
  have c1: "getAttr [(''name'', JStr ''n''), (''uuid'', JStr ''u1''), (''dateCreated'', JDate 5)]
              DATE_CREATED_PROPERTY = JDate 5"
    using ti [THEN conjunct2, THEN conjunct2, THEN conjunct2, THEN conjunct2, THEN conjunct1,
              rule_format, OF w1i]
    by (clarsimp simp: getAttr_def isNil_def DATE_CREATED_PROPERTY_def)
  show ?thesis
    by (intro conjI w2i c2 w2u u2 w1i c1 w1u)
qed

section \<open>Rehydration\<close>

text \<open>
  Claim C8, as the specification states it, fails for the uuid in \<open>Dao2\<close>. The stored
  record has the uuid \<open>u\<close>; the conversion of the in-memory DAO keeps the name only;
  \<open>Dao2.findOne\<close> puts the id and the two timestamps back, and the object returned has no
  uuid.
\<close>

theorem rehydration_drops_uuid_counterexample:
  "getAttr sampleRecord ''uuid'' = JStr ''u''
   \<and> Dao2_findOne (sampleDao None) (JStr ''x'') [sampleRecord] =
       (Inr (Found [(''name'', JStr ''n''), (''id'', JStr ''x''),
                    (''dateCreated'', JDate 1), (''lastUpdate'', JDate 2)]), [sampleRecord])
   \<and> getAttr [(''name'', JStr ''n''), (''id'', JStr ''x''),
               (''dateCreated'', JDate 1), (''lastUpdate'', JDate 2)] ''uuid'' = JUndefined"
  by (simp add: sampleRecord_def Dao2_findOne_def Dao2_rehydrateFound_def sampleDao_simps)

text \<open>
  Claim C8, amended. Let \<open>convertAfterDbOperation\<close> be a function of the raw record that
  leaves the record it is given as it is (\<open>addExtraValues\<close> reads the values to put back
  from that same record, so a conversion that removed them from the record in place
  would leave nothing to put back). Then every operation of \<open>Dao1\<close> that returns entities
  (the queries for one record and for many, \<open>insertMany\<close>, \<open>insert\<close>, \<open>update\<close>) returns,
  for each raw record of the engine, an object that carries the raw record's id, uuid,
  \<open>dateCreated\<close> and \<open>lastUpdate\<close> wherever the raw record has them, whatever the
  conversion returns. Every such operation of \<open>Dao2\<close> does so for the id, \<open>dateCreated\<close>
  and \<open>lastUpdate\<close>, and not for the uuid. A query rejects when the engine's query
  rejects, and resolves in the database the engine left. For \<open>insert\<close> and \<open>update\<close> the
  raw record is the one \<open>insertMethod\<close> or \<open>updateMethod\<close> resolved with, in the database
  the validation left; when the validations pass and the engine resolves, they resolve
  with that record converted and its extra values put back.
\<close>

theorem rehydration_restores_attributes:
  "rehydrates Dao1_restored foundItems (findOneByIdMethod d ident) (Dao1_findOneById d ident)
   \<and> rehydrates Dao1_restored foundItems (findOneByAttributeMethod d name v) (Dao1_findOneByAttribute d name v)
   \<and> rehydrates Dao1_restored (\<lambda>xs. xs) (findAllByIdsMethod d ids) (Dao1_findAllByIds d ids)
   \<and> rehydrates Dao1_restored (\<lambda>xs. xs) (findAllMethod d) (Dao1_findAll d)
   \<and> rehydrates Dao1_restored (\<lambda>xs. xs) (findAllByAttributeMethod d name v) (Dao1_findAllByAttribute d name v)
   \<and> rehydrates Dao1_restored (\<lambda>xs. xs) (findAllByAttributeNameInMethod d name vs)
        (Dao1_findAllByAttributeNameIn d name vs)
   \<and> rehydrates Dao1_restored (\<lambda>xs. xs) (findAllByAttributesAndOperatorMethod d attributes)
        (Dao1_findAllByAttributesAndOperator d attributes)
   \<and> rehydrates Dao1_restored (\<lambda>xs. xs) (findAllByAttributesOrOperatorMethod d attributes)
        (Dao1_findAllByAttributesOrOperator d attributes)
   \<and> rehydrates Dao2_restored foundItems (findOneByIdMethod d ident) (Dao2_findOne d ident)
   \<and> rehydrates Dao2_restored foundItems (findOneByAttributeMethod d name v) (Dao2_findOneByAttribute d name v)
   \<and> rehydrates Dao2_restored (\<lambda>xs. xs) (findAllByIdsMethod d ids) (Dao2_findByIds d ids)
   \<and> rehydrates Dao2_restored (\<lambda>xs. xs) (findAllMethod d) (Dao2_findAll d)
   \<and> rehydrates Dao2_restored (\<lambda>xs. xs) (findAllByAttributeMethod d name v) (Dao2_findByAttribute d name v)
   \<and> rehydrates Dao2_restored (\<lambda>xs. xs) (findAllByAttributeNameInMethod d name vs)
        (Dao2_findByAttributeNameIn d name vs)
   \<and> rehydrates Dao2_restored (\<lambda>xs. xs) (findAllByAttributesAndOperatorMethod d attributes)
        (Dao2_findByAttributesAndOperator d attributes)
   \<and> rehydrates Dao2_restored (\<lambda>xs. xs) (findAllByAttributesOrOperatorMethod d attributes)
        (Dao2_findByAttributesOrOperator d attributes)
   \<and> rehydrates Dao2_restored (\<lambda>xs. xs) (findByQueryMethod d q) (Dao2_findByQuery d q)
   \<and> ((\<forall>obj \<in> set objs. isNil (getAttr obj ''id'')) \<and> Dao1_prepareMany d rnd 0 objs = Inr converted \<longrightarrow>
         rehydrates Dao1_restored (\<lambda>xs. xs) (insertManyMethod d converted) (Dao1_insertMany d rnd objs))
   \<and> ((\<forall>obj \<in> set objs. isNil (getAttr obj ''id'')) \<and> Dao2_prepareMany d rnd 0 objs = Inr converted \<longrightarrow>
         rehydrates Dao2_restored (\<lambda>xs. xs) (insertManyMethod d converted) (Dao2_insertMany d rnd objs))
   \<and> (\<forall>result s' lg. Dao1_insert d now fresh obj (s, []) = (Inr result, (s', lg)) \<longrightarrow>
         (\<exists>saved raw s1. validateBeforeInsert d obj s = (Inr [], s1)
            \<and> insertMethod d saved s1 = (Inr raw, s')
            \<and> lg = [EvValidateEntity obj, EvValidateBeforeInsert obj, EvGenerateTimeStampForInsert,
                    EvAssignUuid, EvConvertBeforeSave, EvAddExtraValues,
                    EvInsertMethod saved, EvConvertAfterDbOperation raw, EvAddExtraValues]
            \<and> result = Dao1_addExtraValues (convertAfterDbOperation d raw) raw
            \<and> carries Dao1_restored raw result))
   \<and> (\<forall>result s' lg. Dao2_insert d now fresh obj (s, []) = (Inr result, (s', lg)) \<longrightarrow>
         (\<exists>saved raw s1. validateBeforeInsert d obj s = (Inr [], s1)
            \<and> insertMethod d saved s1 = (Inr raw, s')
            \<and> lg = [EvValidateEntity obj, EvValidateBeforeInsert obj, EvAssignUuid,
                    EvGenerateTimeStampForInsert, EvConvertBeforeSave, EvAddExtraValues,
                    EvInsertMethod saved, EvConvertAfterDbOperation raw, EvAddExtraValues]
            \<and> result = Dao2_addExtraValues (convertAfterDbOperation d raw) raw
            \<and> carries Dao2_restored raw result))
   \<and> (\<forall>result s' lg. Dao1_update d now obj (s, []) = (Inr result, (s', lg)) \<longrightarrow>
         (\<exists>saved raw s1. validateBeforeUpdate d obj s = (Inr [], s1)
            \<and> updateMethod d saved s1 = (Inr raw, s')
            \<and> lg = [EvValidateEntity obj, EvValidateBeforeUpdate obj, EvGenerateTimeStampForUpdate,
                    EvConvertBeforeSave, EvAddExtraValues,
                    EvUpdateMethod saved, EvConvertAfterDbOperation raw, EvAddExtraValues]
            \<and> result = Dao1_addExtraValues (convertAfterDbOperation d raw) raw
            \<and> carries Dao1_restored raw result))
   \<and> (\<forall>result s' lg. Dao2_update d now obj (s, []) = (Inr result, (s', lg)) \<longrightarrow>
         (\<exists>saved raw s1. validateBeforeUpdate d obj s = (Inr [], s1)
            \<and> updateMethod d saved s1 = (Inr raw, s')
            \<and> lg = [EvValidateEntity obj, EvValidateBeforeUpdate obj, EvGenerateTimeStampForUpdate,
                    EvConvertBeforeSave, EvAddExtraValues,
                    EvUpdateMethod saved, EvConvertAfterDbOperation raw, EvAddExtraValues]
            \<and> result = Dao2_addExtraValues (convertAfterDbOperation d raw) raw
            \<and> carries Dao2_restored raw result))
   \<and> (\<forall>saved raw s1 s2.
         saved = Dao1_addExtraValues
                    (convertBeforeSave d (assignUuid d (entityProperties d) fresh (generateTimeStampForInsert (entityProperties d) now obj)))
                    (assignUuid d (entityProperties d) fresh (generateTimeStampForInsert (entityProperties d) now obj))
         \<and> isNil (getAttr obj ''id'')
         \<and> validateEntity d obj = []
         \<and> validateBeforeInsert d obj s = (Inr [], s1)
         \<and> insertMethod d saved s1 = (Inr raw, s2) \<longrightarrow>
         Dao1_insert d now fresh obj (s, []) =
           (Inr (Dao1_addExtraValues (convertAfterDbOperation d raw) raw),
            (s2, [EvValidateEntity obj, EvValidateBeforeInsert obj, EvGenerateTimeStampForInsert,
                    EvAssignUuid, EvConvertBeforeSave, EvAddExtraValues,
                    EvInsertMethod saved, EvConvertAfterDbOperation raw, EvAddExtraValues])))
   \<and> (\<forall>saved raw s1 s2.
         saved = Dao2_addExtraValues
                    (convertBeforeSave d (generateTimeStampForInsert (entityProperties d) now (assignUUIDToIdAttribute (entityProperties d) fresh obj)))
                    (generateTimeStampForInsert (entityProperties d) now (assignUUIDToIdAttribute (entityProperties d) fresh obj))
         \<and> autoGenerates d = isNil (getAttr obj ''id'')
         \<and> validateEntity d obj = []
         \<and> validateBeforeInsert d obj s = (Inr [], s1)
         \<and> insertMethod d saved s1 = (Inr raw, s2) \<longrightarrow>
         Dao2_insert d now fresh obj (s, []) =
           (Inr (Dao2_addExtraValues (convertAfterDbOperation d raw) raw),
            (s2, [EvValidateEntity obj, EvValidateBeforeInsert obj, EvAssignUuid,
                    EvGenerateTimeStampForInsert, EvConvertBeforeSave, EvAddExtraValues,
                    EvInsertMethod saved, EvConvertAfterDbOperation raw, EvAddExtraValues])))
   \<and> (\<forall>saved raw s1 s2.
         saved = Dao1_addExtraValues
                    (convertBeforeSave d (generateTimeStampForUpdate (entityProperties d) now obj))
                    (generateTimeStampForUpdate (entityProperties d) now obj)
         \<and> isValidId d (getAttr obj ''id'')
         \<and> validateEntity d obj = []
         \<and> validateBeforeUpdate d obj s = (Inr [], s1)
         \<and> updateMethod d saved s1 = (Inr raw, s2) \<longrightarrow>
         Dao1_update d now obj (s, []) =
           (Inr (Dao1_addExtraValues (convertAfterDbOperation d raw) raw),
            (s2, [EvValidateEntity obj, EvValidateBeforeUpdate obj, EvGenerateTimeStampForUpdate,
                    EvConvertBeforeSave, EvAddExtraValues,
                    EvUpdateMethod saved, EvConvertAfterDbOperation raw, EvAddExtraValues])))
   \<and> (\<forall>saved raw s1 s2.
         saved = Dao2_addExtraValues
                    (convertBeforeSave d (generateTimeStampForUpdate (entityProperties d) now obj))
                    (generateTimeStampForUpdate (entityProperties d) now obj)
         \<and> \<not> isBlankString d (getAttr obj ''id'')
         \<and> validateEntity d obj = []
         \<and> validateBeforeUpdate d obj s = (Inr [], s1)
         \<and> updateMethod d saved s1 = (Inr raw, s2) \<longrightarrow>
         Dao2_update d now obj (s, []) =
           (Inr (Dao2_addExtraValues (convertAfterDbOperation d raw) raw),
            (s2, [EvValidateEntity obj, EvValidateBeforeUpdate obj, EvGenerateTimeStampForUpdate,
                    EvConvertBeforeSave, EvAddExtraValues,
                    EvUpdateMethod saved, EvConvertAfterDbOperation raw, EvAddExtraValues])))"
proof -
  have many1: "rehydrates Dao1_restored (\<lambda>xs. xs) (insertManyMethod d converted) (Dao1_insertMany d rnd objs)"
    if "\<forall>obj \<in> set objs. isNil (getAttr obj ''id'')" "Dao1_prepareMany d rnd 0 objs = Inr converted"
    using that rehydrates_list1 [of "insertManyMethod d converted" "convertAfterDbOperation d"]
    by (simp add: Dao1_insertMany_def)
  have many2: "rehydrates Dao2_restored (\<lambda>xs. xs) (insertManyMethod d converted) (Dao2_insertMany d rnd objs)"
    if "\<forall>obj \<in> set objs. isNil (getAttr obj ''id'')" "Dao2_prepareMany d rnd 0 objs = Inr converted"
    using that rehydrates_list2 [of "insertManyMethod d converted" "convertAfterDbOperation d"]
    by (simp add: Dao2_insertMany_def)
  have i1: "\<exists>saved raw s1. validateBeforeInsert d obj s = (Inr [], s1)
            \<and> insertMethod d saved s1 = (Inr raw, s')
            \<and> lg = [EvValidateEntity obj, EvValidateBeforeInsert obj, EvGenerateTimeStampForInsert,
                    EvAssignUuid, EvConvertBeforeSave, EvAddExtraValues,
                    EvInsertMethod saved, EvConvertAfterDbOperation raw, EvAddExtraValues]
            \<and> result = Dao1_addExtraValues (convertAfterDbOperation d raw) raw
            \<and> carries Dao1_restored raw result"
    if run: "Dao1_insert d now fresh obj (s, []) = (Inr result, (s', lg))" for result s' lg
    using run
    by (auto simp: Dao1_insert_run [OF Dao1_insert_resolved [OF run]] Let_def carries_Dao1_addExtraValues
        split: prod.splits sum.splits if_splits)
  have i2: "\<exists>saved raw s1. validateBeforeInsert d obj s = (Inr [], s1)
            \<and> insertMethod d saved s1 = (Inr raw, s')
            \<and> lg = [EvValidateEntity obj, EvValidateBeforeInsert obj, EvAssignUuid,
                    EvGenerateTimeStampForInsert, EvConvertBeforeSave, EvAddExtraValues,
                    EvInsertMethod saved, EvConvertAfterDbOperation raw, EvAddExtraValues]
            \<and> result = Dao2_addExtraValues (convertAfterDbOperation d raw) raw
            \<and> carries Dao2_restored raw result"
    if run: "Dao2_insert d now fresh obj (s, []) = (Inr result, (s', lg))" for result s' lg
    using run
    by (auto simp: Dao2_insert_run [OF Dao2_insert_resolved [OF run]] Let_def carries_Dao2_addExtraValues
        split: prod.splits sum.splits if_splits)
  have u1: "\<exists>saved raw s1. validateBeforeUpdate d obj s = (Inr [], s1)
            \<and> updateMethod d saved s1 = (Inr raw, s')
            \<and> lg = [EvValidateEntity obj, EvValidateBeforeUpdate obj, EvGenerateTimeStampForUpdate,
                    EvConvertBeforeSave, EvAddExtraValues,
                    EvUpdateMethod saved, EvConvertAfterDbOperation raw, EvAddExtraValues]
            \<and> result = Dao1_addExtraValues (convertAfterDbOperation d raw) raw
            \<and> carries Dao1_restored raw result"
    if run: "Dao1_update d now obj (s, []) = (Inr result, (s', lg))" for result s' lg
    using run
    by (auto simp: Dao1_update_run [OF Dao1_update_resolved [OF run]] Let_def carries_Dao1_addExtraValues
        split: prod.splits sum.splits if_splits)
  have u2: "\<exists>saved raw s1. validateBeforeUpdate d obj s = (Inr [], s1)
            \<and> updateMethod d saved s1 = (Inr raw, s')
            \<and> lg = [EvValidateEntity obj, EvValidateBeforeUpdate obj, EvGenerateTimeStampForUpdate,
                    EvConvertBeforeSave, EvAddExtraValues,
                    EvUpdateMethod saved, EvConvertAfterDbOperation raw, EvAddExtraValues]
            \<and> result = Dao2_addExtraValues (convertAfterDbOperation d raw) raw
            \<and> carries Dao2_restored raw result"
    if run: "Dao2_update d now obj (s, []) = (Inr result, (s', lg))" for result s' lg
    using run
    by (auto simp: Dao2_update_run [OF Dao2_update_resolved [OF run]] Let_def carries_Dao2_addExtraValues
        split: prod.splits sum.splits if_splits)
  have fi1: "Dao1_insert d now fresh obj (s, []) =
           (Inr (Dao1_addExtraValues (convertAfterDbOperation d raw) raw),
            (s2, [EvValidateEntity obj, EvValidateBeforeInsert obj, EvGenerateTimeStampForInsert,
                    EvAssignUuid, EvConvertBeforeSave, EvAddExtraValues,
                    EvInsertMethod saved, EvConvertAfterDbOperation raw, EvAddExtraValues]))"
    if "saved = Dao1_addExtraValues
                    (convertBeforeSave d (assignUuid d (entityProperties d) fresh (generateTimeStampForInsert (entityProperties d) now obj)))
                    (assignUuid d (entityProperties d) fresh (generateTimeStampForInsert (entityProperties d) now obj))"
       "isNil (getAttr obj ''id'')"
       "validateEntity d obj = []"
       "validateBeforeInsert d obj s = (Inr [], s1)"
       "insertMethod d saved s1 = (Inr raw, s2)"
    for saved raw s1 s2
    using that by (simp add: Dao1_insert_run Let_def)
  have fi2: "Dao2_insert d now fresh obj (s, []) =
           (Inr (Dao2_addExtraValues (convertAfterDbOperation d raw) raw),
            (s2, [EvValidateEntity obj, EvValidateBeforeInsert obj, EvAssignUuid,
                    EvGenerateTimeStampForInsert, EvConvertBeforeSave, EvAddExtraValues,
                    EvInsertMethod saved, EvConvertAfterDbOperation raw, EvAddExtraValues]))"
    if "saved = Dao2_addExtraValues
                    (convertBeforeSave d (generateTimeStampForInsert (entityProperties d) now (assignUUIDToIdAttribute (entityProperties d) fresh obj)))
                    (generateTimeStampForInsert (entityProperties d) now (assignUUIDToIdAttribute (entityProperties d) fresh obj))"
       "autoGenerates d = isNil (getAttr obj ''id'')"
       "validateEntity d obj = []"
       "validateBeforeInsert d obj s = (Inr [], s1)"
       "insertMethod d saved s1 = (Inr raw, s2)"
    for saved raw s1 s2
    using that by (simp add: Dao2_insert_run Let_def)
  have fu1: "Dao1_update d now obj (s, []) =
           (Inr (Dao1_addExtraValues (convertAfterDbOperation d raw) raw),
            (s2, [EvValidateEntity obj, EvValidateBeforeUpdate obj, EvGenerateTimeStampForUpdate,
                    EvConvertBeforeSave, EvAddExtraValues,
                    EvUpdateMethod saved, EvConvertAfterDbOperation raw, EvAddExtraValues]))"
    if "saved = Dao1_addExtraValues
                    (convertBeforeSave d (generateTimeStampForUpdate (entityProperties d) now obj))
                    (generateTimeStampForUpdate (entityProperties d) now obj)"
       "isValidId d (getAttr obj ''id'')"
       "validateEntity d obj = []"
       "validateBeforeUpdate d obj s = (Inr [], s1)"
       "updateMethod d saved s1 = (Inr raw, s2)"
    for saved raw s1 s2
    using that by (simp add: Dao1_update_run Let_def)
  have fu2: "Dao2_update d now obj (s, []) =
           (Inr (Dao2_addExtraValues (convertAfterDbOperation d raw) raw),
            (s2, [EvValidateEntity obj, EvValidateBeforeUpdate obj, EvGenerateTimeStampForUpdate,
                    EvConvertBeforeSave, EvAddExtraValues,
                    EvUpdateMethod saved, EvConvertAfterDbOperation raw, EvAddExtraValues]))"
    if "saved = Dao2_addExtraValues
                    (convertBeforeSave d (generateTimeStampForUpdate (entityProperties d) now obj))
                    (generateTimeStampForUpdate (entityProperties d) now obj)"
       "\<not> isBlankString d (getAttr obj ''id'')"
       "validateEntity d obj = []"
       "validateBeforeUpdate d obj s = (Inr [], s1)"
       "updateMethod d saved s1 = (Inr raw, s2)"
    for saved raw s1 s2
    using that by (simp add: Dao2_update_run Let_def)
  show ?thesis
    unfolding Dao1_findOneById_def Dao1_findOneByAttribute_def Dao1_findAllByIds_def Dao1_findAll_def
      Dao1_findAllByAttribute_def Dao1_findAllByAttributeNameIn_def
      Dao1_findAllByAttributesAndOperator_def Dao1_findAllByAttributesOrOperator_def
      Dao2_findOne_def Dao2_findOneByAttribute_def Dao2_findByIds_def Dao2_findAll_def
      Dao2_findByAttribute_def Dao2_findByAttributeNameIn_def
      Dao2_findByAttributesAndOperator_def Dao2_findByAttributesOrOperator_def Dao2_findByQuery_def
    by (intro conjI rehydrates_list1 rehydrates_list2 rehydrates_found1 rehydrates_found2
        impI allI; (elim conjE)?; (rule many1 many2 i1 i2 u1 u2 fi1 fi2 fu1 fu2; assumption)?)
qed

text \<open>
  The stored record is found by \<open>Dao1\<close> with id, uuid and timestamps, and by \<open>Dao2\<close> with id
  and timestamps, though the conversion keeps the name only; the same holds for
  \<open>findAll\<close>, for \<open>insertMany\<close>, for an insert with \<open>Dao1\<close> and for an update with \<open>Dao2\<close>,
  which both resolve with the record of the engine rehydrated.
\<close>

theorem rehydration_restores_attributes_witness:
  "(\<exists>r. Dao1_findOneById (sampleDao None) (JStr ''x'') [sampleRecord] = (Inr (Found r), [sampleRecord])
        \<and> getAttr r ''id'' = JStr ''x'' \<and> getAttr r ''uuid'' = JStr ''u''
        \<and> getAttr r ''dateCreated'' = JDate 1 \<and> getAttr r ''lastUpdate'' = JDate 2)
   \<and> (\<exists>r. Dao2_findOne (sampleDao None) (JStr ''x'') [sampleRecord] = (Inr (Found r), [sampleRecord])
        \<and> getAttr r ''id'' = JStr ''x''
        \<and> getAttr r ''dateCreated'' = JDate 1 \<and> getAttr r ''lastUpdate'' = JDate 2)
   \<and> (\<exists>rs. Dao2_findAll (sampleDao None) [sampleRecord] = (Inr rs, [sampleRecord])
        \<and> list_all2 (carries Dao2_restored) [sampleRecord] rs)
   \<and> (\<exists>rs. Dao1_insertMany (sampleDao (Some generatingProps)) (\<lambda>i. (i, ''u1''))
               [[(''name'', JStr ''a'')]] [] =
               (Inr rs, [[(''name'', JStr ''a''), (''dateCreated'', JDate 0), (''uuid'', JStr ''u1'')]])
        \<and> list_all2 (carries Dao1_restored)
             [[(''name'', JStr ''a''), (''dateCreated'', JDate 0), (''uuid'', JStr ''u1'')]] rs)
   \<and> carries Dao1_restored
        [(''name'', JStr ''n''), (''dateCreated'', JDate 5), (''uuid'', JStr ''u1'')]
        [(''name'', JStr ''n''), (''uuid'', JStr ''u1''), (''dateCreated'', JDate 5)]
   \<and> carries Dao2_restored
        [(''id'', JStr ''x''), (''name'', JStr ''m''), (''lastUpdate'', JDate 7)]
        [(''name'', JStr ''m''), (''id'', JStr ''x''), (''lastUpdate'', JDate 7)]
   \<and> Dao1_insert (sampleDao (Some generatingProps)) 5 ''u1'' [(''name'', JStr ''n'')] ([], []) =
     (Inr [(''name'', JStr ''n''), (''uuid'', JStr ''u1''), (''dateCreated'', JDate 5)],
      ([[(''name'', JStr ''n''), (''dateCreated'', JDate 5), (''uuid'', JStr ''u1'')]],
       [EvValidateEntity [(''name'', JStr ''n'')], EvValidateBeforeInsert [(''name'', JStr ''n'')],
        EvGenerateTimeStampForInsert, EvAssignUuid, EvConvertBeforeSave, EvAddExtraValues,
        EvInsertMethod [(''name'', JStr ''n''), (''dateCreated'', JDate 5), (''uuid'', JStr ''u1'')],
        EvConvertAfterDbOperation [(''name'', JStr ''n''), (''dateCreated'', JDate 5), (''uuid'', JStr ''u1'')],
        EvAddExtraValues]))
   \<and> Dao2_update (sampleDao (Some generatingProps)) 7 [(''id'', JStr ''x''), (''name'', JStr ''m'')]
        ([[(''id'', JStr ''x''), (''name'', JStr ''n'')]], []) =
     (Inr [(''name'', JStr ''m''), (''id'', JStr ''x''), (''lastUpdate'', JDate 7)],
      ([[(''id'', JStr ''x''), (''name'', JStr ''m''), (''lastUpdate'', JDate 7)]],
       [EvValidateEntity [(''id'', JStr ''x''), (''name'', JStr ''m'')],
        EvValidateBeforeUpdate [(''id'', JStr ''x''), (''name'', JStr ''m'')],
        EvGenerateTimeStampForUpdate, EvConvertBeforeSave, EvAddExtraValues,
        EvUpdateMethod [(''id'', JStr ''x''), (''name'', JStr ''m''), (''lastUpdate'', JDate 7)],
        EvConvertAfterDbOperation [(''id'', JStr ''x''), (''name'', JStr ''m''), (''lastUpdate'', JDate 7)],
        EvAddExtraValues]))"
proof -
  let ?d = "sampleDao None"
  let ?g = "sampleDao (Some generatingProps)"
  note t = rehydration_restores_attributes
  have k1: "''id'' \<in> set Dao1_restored" "''uuid'' \<in> set Dao1_restored"
      "''dateCreated'' \<in> set Dao1_restored" "''lastUpdate'' \<in> set Dao1_restored"
    by (simp_all add: Dao1_restored_def UUID_PROPERTY_def DATE_CREATED_PROPERTY_def DATE_UPDATED_PROPERTY_def)
  have k2: "''id'' \<in> set Dao2_restored"
      "''dateCreated'' \<in> set Dao2_restored" "''lastUpdate'' \<in> set Dao2_restored"
    by (simp_all add: Dao2_restored_def DATE_CREATED_PROPERTY_def DATE_UPDATED_PROPERTY_def)
  have raw: "getAttr sampleRecord ''id'' = JStr ''x''" "getAttr sampleRecord ''uuid'' = JStr ''u''"
      "getAttr sampleRecord ''dateCreated'' = JDate 1" "getAttr sampleRecord ''lastUpdate'' = JDate 2"
    by (simp_all add: sampleRecord_def getAttr_def)
  have nn: "\<not> isNil (JStr ''x'')" "\<not> isNil (JStr ''u'')" "\<not> isNil (JDate 1)" "\<not> isNil (JDate 2)"
    by (simp_all add: isNil_def)
  have q1: "findOneByIdMethod ?d (JStr ''x'') [sampleRecord] = (Inr (Found sampleRecord), [sampleRecord])"
    by (simp add: sampleDao_def sampleFindOne_def sampleRecord_def getAttr_def)
  have q2: "findAllMethod ?d [sampleRecord] = (Inr [sampleRecord], [sampleRecord])"
    by (simp add: sampleDao_def sampleFind_def)
  have w1: "\<exists>r. Dao1_findOneById ?d (JStr ''x'') [sampleRecord] = (Inr (Found r), [sampleRecord])
        \<and> getAttr r ''id'' = JStr ''x'' \<and> getAttr r ''uuid'' = JStr ''u''
        \<and> getAttr r ''dateCreated'' = JDate 1 \<and> getAttr r ''lastUpdate'' = JDate 2"
  proof -
    from rehydrates_foundD [OF t [where d = ?d and ident = "JStr ''x''", THEN conjunct1] q1]
    obtain r where r: "Dao1_findOneById ?d (JStr ''x'') [sampleRecord] = (Inr (Found r), [sampleRecord])"
      "carries Dao1_restored sampleRecord r"
      by blast
    from carriesD [OF r(2) k1(1)] carriesD [OF r(2) k1(2)] carriesD [OF r(2) k1(3)] carriesD [OF r(2) k1(4)]
    have "getAttr r ''id'' = JStr ''x''" "getAttr r ''uuid'' = JStr ''u''"
      "getAttr r ''dateCreated'' = JDate 1" "getAttr r ''lastUpdate'' = JDate 2"
      by (simp_all add: raw isNil_def)
    with r(1) show ?thesis by blast
  qed
  have w2: "\<exists>r. Dao2_findOne ?d (JStr ''x'') [sampleRecord] = (Inr (Found r), [sampleRecord])
        \<and> getAttr r ''id'' = JStr ''x''
        \<and> getAttr r ''dateCreated'' = JDate 1 \<and> getAttr r ''lastUpdate'' = JDate 2"
  proof -
    from rehydrates_foundD [OF t [where d = ?d and ident = "JStr ''x''", THEN conjunct2, THEN conjunct2,
        THEN conjunct2, THEN conjunct2, THEN conjunct2, THEN conjunct2, THEN conjunct2, THEN conjunct2,
        THEN conjunct1] q1]
    obtain r where r: "Dao2_findOne ?d (JStr ''x'') [sampleRecord] = (Inr (Found r), [sampleRecord])"
      "carries Dao2_restored sampleRecord r"
      by blast
    from carriesD [OF r(2) k2(1)] carriesD [OF r(2) k2(2)] carriesD [OF r(2) k2(3)]
    have "getAttr r ''id'' = JStr ''x''"
      "getAttr r ''dateCreated'' = JDate 1" "getAttr r ''lastUpdate'' = JDate 2"
      by (simp_all add: raw isNil_def)
    with r(1) show ?thesis by blast
  qed
  have w3: "\<exists>rs. Dao2_findAll ?d [sampleRecord] = (Inr rs, [sampleRecord])
        \<and> list_all2 (carries Dao2_restored) [sampleRecord] rs"
    by (rule rehydratesD [OF t [where d = ?d, THEN conjunct2, THEN conjunct2,
        THEN conjunct2, THEN conjunct2, THEN conjunct2, THEN conjunct2, THEN conjunct2, THEN conjunct2,
        THEN conjunct2, THEN conjunct2, THEN conjunct2, THEN conjunct1] q2])
  let ?objs = "[[(''name'', JStr ''a'')]]"
  let ?conv = "[[(''name'', JStr ''a''), (''dateCreated'', JDate 0), (''uuid'', JStr ''u1'')]]"
  have m: "(\<forall>obj \<in> set ?objs. isNil (getAttr obj ''id''))
           \<and> Dao1_prepareMany ?g (\<lambda>i. (i, ''u1'')) 0 ?objs = Inr ?conv"
    by (simp add: sampleDao_simps)
  have mm: "insertManyMethod ?g ?conv [] = (Inr ?conv, ?conv)"
    by (simp add: sampleDao_def)
  have w4: "\<exists>rs. Dao1_insertMany ?g (\<lambda>i. (i, ''u1'')) ?objs [] = (Inr rs, ?conv)
        \<and> list_all2 (carries Dao1_restored) ?conv rs"
    by (rule rehydratesD [OF t [where d = ?g and objs = ?objs and rnd = "\<lambda>i. (i, ''u1'')" and converted = ?conv,
        THEN conjunct2, THEN conjunct2,
        THEN conjunct2, THEN conjunct2, THEN conjunct2, THEN conjunct2, THEN conjunct2, THEN conjunct2,
        THEN conjunct2, THEN conjunct2, THEN conjunct2, THEN conjunct2, THEN conjunct2, THEN conjunct2,
        THEN conjunct2, THEN conjunct2, THEN conjunct2, THEN conjunct1, THEN mp, OF m] mm])
  let ?ok = "[(''name'', JStr ''n'')]"
  let ?saved = "[(''name'', JStr ''n''), (''dateCreated'', JDate 5), (''uuid'', JStr ''u1'')]"
  let ?result = "[(''name'', JStr ''n''), (''uuid'', JStr ''u1''), (''dateCreated'', JDate 5)]"
  have h1: "?saved = Dao1_addExtraValues
                (convertBeforeSave ?g (assignUuid ?g (entityProperties ?g) ''u1''
                   (generateTimeStampForInsert (entityProperties ?g) 5 ?ok)))
                (assignUuid ?g (entityProperties ?g) ''u1''
                   (generateTimeStampForInsert (entityProperties ?g) 5 ?ok))
          \<and> isNil (getAttr ?ok ''id'')
          \<and> validateEntity ?g ?ok = []
          \<and> validateBeforeInsert ?g ?ok [] = (Inr [], [])
          \<and> insertMethod ?g ?saved [] = (Inr ?saved, [?saved])"
    by (simp add: sampleDao_simps)
  have e1: "Dao1_addExtraValues (convertAfterDbOperation ?g ?saved) ?saved = ?result"
    by (simp add: sampleDao_simps)
  note run1 = t [where d = ?g and now = 5 and fresh = "''u1''" and obj = ?ok and s = "[]",
        THEN conjunct2, THEN conjunct2, THEN conjunct2, THEN conjunct2, THEN conjunct2, THEN conjunct2, THEN conjunct2, THEN conjunct2, THEN conjunct2, THEN conjunct2, THEN conjunct2, THEN conjunct2, THEN conjunct2, THEN conjunct2, THEN conjunct2, THEN conjunct2, THEN conjunct2, THEN conjunct2, THEN conjunct2, THEN conjunct2, THEN conjunct2, THEN conjunct2, THEN conjunct2, THEN conjunct1,
        rule_format, OF h1, unfolded e1]
  have w5: "carries Dao1_restored ?saved ?result"
    using t [where d = ?g and now = 5 and fresh = "''u1''" and obj = ?ok and s = "[]",
        THEN conjunct2, THEN conjunct2,
        THEN conjunct2, THEN conjunct2, THEN conjunct2, THEN conjunct2, THEN conjunct2, THEN conjunct2,
        THEN conjunct2, THEN conjunct2, THEN conjunct2, THEN conjunct2, THEN conjunct2, THEN conjunct2,
        THEN conjunct2, THEN conjunct2, THEN conjunct2, THEN conjunct2, THEN conjunct2, THEN conjunct1,
        rule_format, OF run1]
    by clarsimp
  let ?upd = "[(''id'', JStr ''x''), (''name'', JStr ''m'')]"
  let ?usaved = "[(''id'', JStr ''x''), (''name'', JStr ''m''), (''lastUpdate'', JDate 7)]"
  let ?uresult = "[(''name'', JStr ''m''), (''id'', JStr ''x''), (''lastUpdate'', JDate 7)]"
  have h2: "?usaved = Dao2_addExtraValues
                (convertBeforeSave ?g (generateTimeStampForUpdate (entityProperties ?g) 7 ?upd))
                (generateTimeStampForUpdate (entityProperties ?g) 7 ?upd)
          \<and> \<not> isBlankString ?g (getAttr ?upd ''id'')
          \<and> validateEntity ?g ?upd = []
          \<and> validateBeforeUpdate ?g ?upd [[(''id'', JStr ''x''), (''name'', JStr ''n'')]] =
                (Inr [], [[(''id'', JStr ''x''), (''name'', JStr ''n'')]])
          \<and> updateMethod ?g ?usaved [[(''id'', JStr ''x''), (''name'', JStr ''n'')]] =
                (Inr ?usaved, [?usaved])"
    by (simp add: sampleDao_simps matches.simps)
  have e2: "Dao2_addExtraValues (convertAfterDbOperation ?g ?usaved) ?usaved = ?uresult"
    by (simp add: sampleDao_simps)
  note urun = t [where d = ?g and now = 7 and obj = ?upd and s = "[[(''id'', JStr ''x''), (''name'', JStr ''n'')]]",
        THEN conjunct2, THEN conjunct2, THEN conjunct2, THEN conjunct2, THEN conjunct2, THEN conjunct2, THEN conjunct2, THEN conjunct2, THEN conjunct2, THEN conjunct2, THEN conjunct2, THEN conjunct2, THEN conjunct2, THEN conjunct2, THEN conjunct2, THEN conjunct2, THEN conjunct2, THEN conjunct2, THEN conjunct2, THEN conjunct2, THEN conjunct2, THEN conjunct2, THEN conjunct2, THEN conjunct2, THEN conjunct2, THEN conjunct2,
        rule_format, OF h2, unfolded e2]
  have w6: "carries Dao2_restored ?usaved ?uresult"
    using t [where d = ?g and now = 7 and obj = ?upd and s = "[[(''id'', JStr ''x''), (''name'', JStr ''n'')]]",
        THEN conjunct2, THEN conjunct2,
        THEN conjunct2, THEN conjunct2, THEN conjunct2, THEN conjunct2, THEN conjunct2, THEN conjunct2,
        THEN conjunct2, THEN conjunct2, THEN conjunct2, THEN conjunct2, THEN conjunct2, THEN conjunct2,
        THEN conjunct2, THEN conjunct2, THEN conjunct2, THEN conjunct2, THEN conjunct2, THEN conjunct2,
        THEN conjunct2, THEN conjunct2, THEN conjunct1,
        rule_format, OF urun]
    by clarsimp
  show ?thesis
    by (intro conjI w1 w2 w3 w4 w5 w6 run1 urun)
qed

end
